theory Spec2Isabelle
  imports Complex_Main "HOL-Library.Multiset"
begin

section \<open>Python values, errors and effects\<close>

text \<open>
  The class \<^verbatim>\<open>StackedDenoisingAutoencoder\<close> of
  \<^verbatim>\<open>models/autoencoder_models/stacked_denoising_autoencoder.py\<close> is embedded
  method by method. An exception is a value: a call that raises returns \<open>Inl e\<close>.
  A method that mutates \<^verbatim>\<open>self\<close> takes the object and returns it updated, together
  with the outcome of the call, since a Python exception does not undo the mutations
  made before it.
\<close>

datatype py_error =
    IndexError | KeyError | AttributeError | TypeError | ValueError
  | TensorFlowError | CollaboratorError string

text \<open>Python's \<^verbatim>\<open>xs[i]\<close> on a list or tuple: negative indices count from the end.\<close>

definition getitem :: "'a list \<Rightarrow> int \<Rightarrow> py_error + 'a" where
  "getitem xs i =
     (if 0 \<le> i \<and> i < int (length xs) then Inr (xs ! nat i)
      else if i < 0 \<and> - int (length xs) \<le> i then Inr (xs ! nat (int (length xs) + i))
      else Inl IndexError)"

text \<open>Python's \<^verbatim>\<open>d[k]\<close> on a dictionary.\<close>

definition dict_get :: "('k \<rightharpoonup> 'v) \<Rightarrow> 'k \<Rightarrow> py_error + 'v" where
  "dict_get d k = (case d k of None \<Rightarrow> Inl KeyError | Some v \<Rightarrow> Inr v)"

definition bind_res :: "py_error + 'a \<Rightarrow> ('a \<Rightarrow> py_error + 'b) \<Rightarrow> py_error + 'b" where
  "bind_res r f = (case r of Inl e \<Rightarrow> Inl e | Inr x \<Rightarrow> f x)"

text \<open>
  A statement sequence over a mutable state \<open>'s\<close>: each statement returns its outcome
  and the state it leaves; the first exception ends the sequence and keeps the state
  reached so far.
\<close>

type_synonym ('s, 'x) stmt = "'s \<Rightarrow> (py_error + 'x) \<times> 's"

definition ret :: "'x \<Rightarrow> ('s, 'x) stmt" where
  "ret x s = (Inr x, s)"

definition raise :: "py_error \<Rightarrow> ('s, 'x) stmt" where
  "raise e s = (Inl e, s)"

definition lift_res :: "py_error + 'x \<Rightarrow> ('s, 'x) stmt" where
  "lift_res r s = (r, s)"

definition seq :: "('s, 'x) stmt \<Rightarrow> ('x \<Rightarrow> ('s, 'y) stmt) \<Rightarrow> ('s, 'y) stmt" where
  "seq m f s = (case m s of (Inl e, s') \<Rightarrow> (Inl e, s') | (Inr x, s') \<Rightarrow> f x s')"

definition modify :: "('s \<Rightarrow> 's) \<Rightarrow> ('s, unit) stmt" where
  "modify g s = (Inr (), g s)"

section \<open>The TensorFlow graph as data\<close>

text \<open>
  The program builds a TensorFlow graph: a value that is either a numpy array or a
  node made by one of the \<^verbatim>\<open>tf\<close> constructors the file calls. \<open>'a\<close> is the type of
  numpy arrays. A \<^verbatim>\<open>tf.Variable\<close> holds its initial value and its name.
\<close>

datatype 'a tensor =
    NdArray 'a
  | Truncated_normal "int list" real
  | Constant real "int list"
  | Placeholder string "int option list option" string
  | Variable "'a tensor" "string option"
  | Matmul "'a tensor" "'a tensor"
  | Add "'a tensor" "'a tensor"
  | Sigmoid "'a tensor"
  | Tanh "'a tensor"
  | Relu "'a tensor"
  | Dropout "'a tensor" "'a tensor"
  | Argmax "'a tensor" int
  | Equal "'a tensor" "'a tensor"
  | Cast "'a tensor" string
  | Reduce_mean "'a tensor"
  | Scalar_summary string "'a tensor"
  | Merge_summary "'a tensor list"
  | Cost_node string "'a tensor" "'a tensor"
  | Train_step string real real "'a tensor"

text \<open>
  Two nodes made from equal arguments are the same value here: the model gives a node
  no identity of its own and no name scope. The last two constructors are the nodes the
  base class \<^verbatim>\<open>model.Model\<close> attaches (see \<open>create_cost_function_node\<close> and
  \<open>create_train_step_node\<close> below); \<open>Train_step\<close> is the only node that is an
  operation, every other node is a tensor.
\<close>

fun is_operation :: "'a tensor \<Rightarrow> bool" where
  "is_operation (Train_step opt_name lr mom c) = True"
| "is_operation n = False"

text \<open>
  A value fed for a placeholder: a sequence of rows (a data set, a batch of samples or
  of labels), a Python number, or None.
\<close>

datatype 'a fed = Rows "'a list" | Scalar real | PyNone

text \<open>
  A \<^verbatim>\<open>tf.Session\<close>: the values of the graph's variables in this session, and the
  state of its random generator.
\<close>

record 'a session =
  variables :: "'a tensor \<rightharpoonup> 'a"
  rng :: nat

text \<open>
  TensorFlow's numerical kernels are parameters of the model: what a placeholder makes
  of the value fed for it (None when nothing was fed), the value of a variable that was
  never assigned, the arithmetic of each node, dropout with the random state of the run
  and the node it is drawn for, what running a training operation does to the
  variables, and how a run advances the random state.
\<close>

record 'a tf_kernel =
  k_placeholder :: "'a fed option \<Rightarrow> 'a"
  k_uninitialized :: 'a
  k_truncated_normal :: "nat \<Rightarrow> int list \<Rightarrow> real \<Rightarrow> 'a"
  k_constant :: "real \<Rightarrow> int list \<Rightarrow> 'a"
  k_matmul :: "'a \<Rightarrow> 'a \<Rightarrow> 'a"
  k_add :: "'a \<Rightarrow> 'a \<Rightarrow> 'a"
  k_sigmoid :: "'a \<Rightarrow> 'a"
  k_tanh :: "'a \<Rightarrow> 'a"
  k_relu :: "'a \<Rightarrow> 'a"
  k_dropout :: "nat \<Rightarrow> 'a tensor \<Rightarrow> 'a \<Rightarrow> 'a \<Rightarrow> 'a"
  k_argmax :: "'a \<Rightarrow> int \<Rightarrow> 'a"
  k_equal :: "'a \<Rightarrow> 'a \<Rightarrow> 'a"
  k_cast :: "'a \<Rightarrow> string \<Rightarrow> 'a"
  k_reduce_mean :: "'a \<Rightarrow> 'a"
  k_scalar_summary :: "string \<Rightarrow> 'a \<Rightarrow> 'a"
  k_merge_summary :: "'a list \<Rightarrow> 'a"
  k_cost :: "string \<Rightarrow> 'a \<Rightarrow> 'a \<Rightarrow> 'a"
  k_train_step :: "'a tensor \<Rightarrow> ('a tensor \<times> 'a fed) list \<Rightarrow> nat \<Rightarrow>
                   ('a tensor \<rightharpoonup> 'a) \<Rightarrow> ('a tensor \<rightharpoonup> 'a)"
  k_next_rng :: "nat \<Rightarrow> nat"

text \<open>
  The value of a tensor in one run: the variables \<open>vs\<close>, the feed \<open>fd\<close> and the
  random state \<open>g\<close> of the run. A variable is read from the session, its initial
  value is not evaluated. An operation has no value.
\<close>

fun eval ::
  "'a tf_kernel \<Rightarrow> ('a tensor \<rightharpoonup> 'a) \<Rightarrow> ('a tensor \<times> 'a fed) list \<Rightarrow> nat \<Rightarrow> 'a tensor \<Rightarrow> 'a" where
  "eval K vs fd g (NdArray x) = x"
| "eval K vs fd g (Truncated_normal shape stddev) = k_truncated_normal K g shape stddev"
| "eval K vs fd g (Constant c shape) = k_constant K c shape"
| "eval K vs fd g (Placeholder dtype shape name) =
     k_placeholder K (map_of fd (Placeholder dtype shape name))"
| "eval K vs fd g (Variable initial name) =
     (case vs (Variable initial name) of None \<Rightarrow> k_uninitialized K | Some x \<Rightarrow> x)"
| "eval K vs fd g (Matmul a b) = k_matmul K (eval K vs fd g a) (eval K vs fd g b)"
| "eval K vs fd g (Add a b) = k_add K (eval K vs fd g a) (eval K vs fd g b)"
| "eval K vs fd g (Sigmoid a) = k_sigmoid K (eval K vs fd g a)"
| "eval K vs fd g (Tanh a) = k_tanh K (eval K vs fd g a)"
| "eval K vs fd g (Relu a) = k_relu K (eval K vs fd g a)"
| "eval K vs fd g (Dropout a kp) =
     k_dropout K g (Dropout a kp) (eval K vs fd g a) (eval K vs fd g kp)"
| "eval K vs fd g (Argmax a axis) = k_argmax K (eval K vs fd g a) axis"
| "eval K vs fd g (Equal a b) = k_equal K (eval K vs fd g a) (eval K vs fd g b)"
| "eval K vs fd g (Cast a dtype) = k_cast K (eval K vs fd g a) dtype"
| "eval K vs fd g (Reduce_mean a) = k_reduce_mean K (eval K vs fd g a)"
| "eval K vs fd g (Scalar_summary tag a) = k_scalar_summary K tag (eval K vs fd g a)"
| "eval K vs fd g (Merge_summary ns) = k_merge_summary K (map (eval K vs fd g) ns)"
| "eval K vs fd g (Cost_node name a b) = k_cost K name (eval K vs fd g a) (eval K vs fd g b)"
| "eval K vs fd g (Train_step opt_name lr mom c) = k_uninitialized K"

text \<open>
  \<^verbatim>\<open>Session.run(fetches, feed_dict)\<close>. A fetch or a feed key that is None, or a
  fed value that is None, is a TypeError. Otherwise every fetched tensor is evaluated
  on the variables as the run finds them, a fetched operation returns None and updates
  the variables, and the random state advances.
\<close>

definition session_run ::
  "'a tf_kernel \<Rightarrow> 'a tensor option list \<Rightarrow> ('a tensor option \<times> 'a fed) list \<Rightarrow>
   'a session \<Rightarrow> py_error + ('a option list \<times> 'a session)" where
  "session_run K fetches feed_dict sess =
     (if None \<in> set fetches \<or> None \<in> set (map fst feed_dict) \<or> PyNone \<in> set (map snd feed_dict)
      then Inl TypeError
      else
        (let fd = map (\<lambda>kv. (the (fst kv), snd kv)) feed_dict;
             ns = map the fetches
         in Inr (map (\<lambda>n. if is_operation n then None
                             else Some (eval K (variables sess) fd (rng sess) n)) ns,
                 sess\<lparr>variables :=
                        foldl (\<lambda>vs n. if is_operation n then k_train_step K n fd (rng sess) vs
                                       else vs) (variables sess) ns,
                      rng := k_next_rng K (rng sess)\<rparr>)))"

text \<open>The saver of the base class, and the summary writer.\<close>

datatype saver = Saver

datatype summary_writer = SummaryWriter

section \<open>The object\<close>

text \<open>
  The keyword arguments of \<^verbatim>\<open>__init__\<close>, under their Python names. The per-layer
  options are lists; the fine-tuning options are single values.
\<close>

record sdae_args =
  layers :: "int list"
  model_name :: string
  main_dir :: string
  enc_act_func :: "string list"
  dec_act_func :: "string list"
  loss_func :: "string list"
  num_epochs :: "int list"
  batch_size :: "int list"
  dataset :: string
  opt :: "string list"
  learning_rate :: "real list"
  momentum :: real
  dropout :: real
  corr_type :: string
  corr_frac :: real
  verbose :: int
  finetune_loss_func :: string
  finetune_act_func :: string
  finetune_opt :: string
  finetune_learning_rate :: real
  finetune_num_epochs :: int
  finetune_batch_size :: int
  do_pretrain :: bool

text \<open>
  The default arguments of \<^verbatim>\<open>__init__\<close> (lines 16-22) for a given \<^verbatim>\<open>layers\<close>.
\<close>

definition default_args :: "int list \<Rightarrow> sdae_args" where
  "default_args ls =
     \<lparr> layers = ls, model_name = ''sdae'', main_dir = ''sdae/'',
       enc_act_func = [''tanh''], dec_act_func = [''none''],
       loss_func = [''mean_squared''], num_epochs = [10], batch_size = [10],
       dataset = ''mnist'', opt = [''gradient_descent''], learning_rate = [0.01],
       momentum = 0.5, dropout = 1, corr_type = ''none'', corr_frac = 0, verbose = 1,
       finetune_loss_func = ''cross_entropy'', finetune_act_func = ''relu'',
       finetune_opt = ''gradient_descent'', finetune_learning_rate = 0.001,
       finetune_num_epochs = 10, finetune_batch_size = 20, do_pretrain = True \<rparr>"

text \<open>
  The keyword arguments \<^verbatim>\<open>__init__\<close> passes to the constructor of
  \<^verbatim>\<open>DenoisingAutoencoder\<close> (lines 80-86). That class is not in the source tree:
  its constructor is a parameter \<open>new_dae\<close> of the model, applied to these arguments.
\<close>

record dae_kwargs =
  kw_n_components :: int
  kw_main_dir :: string
  kw_enc_act_func :: string
  kw_dec_act_func :: string
  kw_loss_func :: string
  kw_opt :: string
  kw_learning_rate :: real
  kw_momentum :: real
  kw_corr_type :: string
  kw_corr_frac :: real
  kw_verbose :: int
  kw_num_epochs :: int
  kw_batch_size :: int
  kw_dataset :: string

text \<open>
  The attributes of the object beyond the stored arguments. \<open>'ae\<close> is the type of a
  \<^verbatim>\<open>DenoisingAutoencoder\<close> object. \<^verbatim>\<open>encoding_w_\<close> and \<^verbatim>\<open>encoding_b_\<close> lose their
  trailing underscore, which Isabelle does not accept in a name. The base class
  \<^verbatim>\<open>model.Model\<close> is not in the source tree: its
  \<^verbatim>\<open>_initialize_training_parameters\<close> is taken to store each of its arguments under
  the attribute of the same name, which is where lines 82-86 read them back.
\<close>

record ('ae, 'a) sdae = sdae_args +
  input_data :: "'a tensor option"
  input_labels :: "'a tensor option"
  keep_prob :: "'a tensor option"
  layer_nodes :: "'a tensor list"
  softmax_out :: "'a tensor option"
  encoding_w :: "'a tensor list"
  encoding_b :: "'a tensor list"
  softmax_W :: "'a tensor option"
  softmax_b :: "'a tensor option"
  autoencoders :: "'ae list"
  cost :: "'a tensor option"
  train_step :: "'a tensor option"
  model_predictions :: "'a tensor option"
  accuracy :: "'a tensor option"
  tf_session :: "'a session option"
  tf_saver :: "saver option"
  tf_merged_summaries :: "'a tensor option"
  tf_summary_writer :: "summary_writer option"

section \<open>Construction\<close>

text \<open>
  One iteration of the loop of lines 79-86: the keyword arguments are evaluated left to
  right, so the first per-layer list that is too short for index \<open>l\<close> raises IndexError.
\<close>

definition dae_kwargs_for :: "sdae_args \<Rightarrow> int \<Rightarrow> int \<Rightarrow> py_error + dae_kwargs" where
  "dae_kwargs_for a l layer =
     bind_res (getitem (enc_act_func a) l) (\<lambda>ea.
     bind_res (getitem (dec_act_func a) l) (\<lambda>da.
     bind_res (getitem (loss_func a) l) (\<lambda>lf.
     bind_res (getitem (opt a) l) (\<lambda>op.
     bind_res (getitem (learning_rate a) l) (\<lambda>lr.
     bind_res (getitem (num_epochs a) l) (\<lambda>ne.
     bind_res (getitem (batch_size a) l) (\<lambda>bs.
       Inr \<lparr> kw_n_components = layer, kw_main_dir = main_dir a,
             kw_enc_act_func = ea, kw_dec_act_func = da, kw_loss_func = lf,
             kw_opt = op, kw_learning_rate = lr, kw_momentum = momentum a,
             kw_corr_type = corr_type a, kw_corr_frac = corr_frac a,
             kw_verbose = verbose a, kw_num_epochs = ne, kw_batch_size = bs,
             kw_dataset = dataset a \<rparr>)))))))"

fun init_autoencoders ::
  "(dae_kwargs \<Rightarrow> 'ae) \<Rightarrow> sdae_args \<Rightarrow> 'ae list \<Rightarrow> (nat \<times> int) list \<Rightarrow> py_error + 'ae list" where
  "init_autoencoders new_dae a acc [] = Inr acc"
| "init_autoencoders new_dae a acc ((l, layer) # rest) =
     (case dae_kwargs_for a (int l) layer of
        Inl e \<Rightarrow> Inl e
      | Inr kw \<Rightarrow> init_autoencoders new_dae a (acc @ [new_dae kw]) rest)"

text \<open>
  \<^verbatim>\<open>__init__\<close> (lines 16-86). The attributes are set, then the loop fills
  \<^verbatim>\<open>self.autoencoders\<close>; an exception in the loop leaves the caller without an object.
  The attributes that only \<^verbatim>\<open>build_model\<close> sets, and the TensorFlow objects that the
  base class sets up when fitting starts (\<^verbatim>\<open>tf_session\<close>, \<^verbatim>\<open>tf_saver\<close>,
  \<^verbatim>\<open>tf_merged_summaries\<close>, \<^verbatim>\<open>tf_summary_writer\<close>), are None until then.
\<close>

definition init :: "(dae_kwargs \<Rightarrow> 'ae) \<Rightarrow> sdae_args \<Rightarrow> py_error + ('ae, 'a) sdae" where
  "init new_dae a =
     (case init_autoencoders new_dae a [] (enumerate 0 (layers a)) of
        Inl e \<Rightarrow> Inl e
      | Inr aes \<Rightarrow>
          Inr (sdae_args.extend a
            \<lparr> input_data = None, input_labels = None, keep_prob = None,
              layer_nodes = [], softmax_out = None,
              encoding_w = [], encoding_b = [],
              softmax_W = None, softmax_b = None,
              autoencoders = aes,
              cost = None, train_step = None,
              model_predictions = None, accuracy = None,
              tf_session = None, tf_saver = None,
              tf_merged_summaries = None, tf_summary_writer = None \<rparr>))"

section \<open>Layer-wise pretraining\<close>

text \<open>
  The methods of \<^verbatim>\<open>DenoisingAutoencoder\<close> that pretraining calls. The class is not
  in the source tree, so its methods are parameters: each takes the autoencoder object
  and returns either an exception or its result with the object as it leaves it.
  \<open>'d\<close> is the type of a data set as pretraining passes it around (the default
  \<^verbatim>\<open>validation_set=None\<close> is a value of that type); \<open>nd_shape\<close> is the attribute
  \<^verbatim>\<open>.shape\<close> of a data set; \<^verbatim>\<open>get_model_parameters\<close> returns a dictionary.
\<close>

record ('ae, 'd, 'a) dae_api =
  dae_build_model :: "int \<Rightarrow> 'ae \<Rightarrow> py_error + unit \<times> 'ae"
  dae_fit :: "'d \<Rightarrow> 'd \<Rightarrow> 'ae \<Rightarrow> py_error + unit \<times> 'ae"
  dae_get_model_parameters :: "'ae \<Rightarrow> py_error + (string \<rightharpoonup> 'a) \<times> 'ae"
  dae_transform :: "'d \<Rightarrow> 'ae \<Rightarrow> py_error + 'd \<times> 'ae"
  nd_shape :: "'d \<Rightarrow> py_error + int list"

text \<open>
  What the methods do to the world outside the object, in the order they do it. In
  pretraining: the line printed, the calls on the autoencoder at a given position of
  \<^verbatim>\<open>self.autoencoders\<close>, and \<^verbatim>\<open>ops.reset_default_graph()\<close>. In fine-tuning: the
  call of \<^verbatim>\<open>np.random.shuffle\<close> with the list as it finds and as it leaves it, every
  \<^verbatim>\<open>Session.run\<close> with its fetches and its feed, the summary handed to the summary
  writer with its epoch, and the accuracy printed.
\<close>

datatype ('d, 'a) effect =
    Print_training_layer int
  | Call_build_model nat int
  | Call_fit nat 'd 'd
  | Call_get_model_parameters nat
  | Call_transform nat 'd
  | Reset_default_graph
  | Np_random_shuffle "('a \<times> 'a) list" "('a \<times> 'a) list"
  | Session_run "'a tensor option list" "('a tensor option \<times> 'a fed) list"
  | Add_summary "'a option" int
  | Print_accuracy int "'a option"

record ('ae, 'a, 'd) run_state =
  obj :: "('ae, 'a) sdae"
  effects :: "('d, 'a) effect list"

text \<open>
  A method call on \<^verbatim>\<open>autoenc\<close>, the object at position \<open>i\<close> of
  \<^verbatim>\<open>self.autoencoders\<close> (the loop variable is a reference to it, so the call mutates
  the list's element). The call is recorded when it is made. When it raises, the
  autoencoder is left as it was before the call: what an interrupted call does to its
  object is not known.
\<close>

definition call_dae ::
  "nat \<Rightarrow> ('d, 'a) effect \<Rightarrow> ('ae \<Rightarrow> py_error + 'x \<times> 'ae) \<Rightarrow> (('ae, 'a, 'd) run_state, 'x) stmt" where
  "call_dae i ev m st =
     (let st1 = st\<lparr>effects := effects st @ [ev]\<rparr> in
      case m (autoencoders (obj st) ! i) of
        Inl e \<Rightarrow> (Inl e, st1)
      | Inr (x, ae') \<Rightarrow>
          (Inr x, st1\<lparr>obj := (obj st1)\<lparr>autoencoders := (autoencoders (obj st1))[i := ae']\<rparr>\<rparr>))"

definition append_encoding_w :: "'a \<Rightarrow> ('ae, 'a, 'd) run_state \<Rightarrow> ('ae, 'a, 'd) run_state" where
  "append_encoding_w w st = st\<lparr>obj := (obj st)\<lparr>encoding_w := encoding_w (obj st) @ [NdArray w]\<rparr>\<rparr>"

definition append_encoding_b :: "'a \<Rightarrow> ('ae, 'a, 'd) run_state \<Rightarrow> ('ae, 'a, 'd) run_state" where
  "append_encoding_b b st = st\<lparr>obj := (obj st)\<lparr>encoding_b := encoding_b (obj st) @ [NdArray b]\<rparr>\<rparr>"

text \<open>\<^verbatim>\<open>_pretrain_autoencoder_and_gen_feed\<close> (lines 108-128), for the autoencoder at position \<open>i\<close>.\<close>

definition pretrain_autoencoder_and_gen_feed ::
  "('ae, 'd, 'a) dae_api \<Rightarrow> nat \<Rightarrow> 'd \<Rightarrow> 'd \<Rightarrow> (('ae, 'a, 'd) run_state, 'd \<times> 'd) stmt" where
  "pretrain_autoencoder_and_gen_feed api i train_set validation_set =
     seq (lift_res (nd_shape api train_set)) (\<lambda>shape.
     seq (lift_res (getitem shape 1)) (\<lambda>n.
     seq (call_dae i (Call_build_model i n) (dae_build_model api n)) (\<lambda>_.
     seq (call_dae i (Call_fit i train_set validation_set)
            (dae_fit api train_set validation_set)) (\<lambda>_.
     seq (call_dae i (Call_get_model_parameters i) (dae_get_model_parameters api)) (\<lambda>params.
     seq (lift_res (dict_get params ''enc_w'')) (\<lambda>w.
     seq (modify (append_encoding_w w)) (\<lambda>_.
     seq (lift_res (dict_get params ''enc_b'')) (\<lambda>b.
     seq (modify (append_encoding_b b)) (\<lambda>_.
     seq (call_dae i (Call_transform i train_set) (dae_transform api train_set)) (\<lambda>next_train.
     seq (call_dae i (Call_transform i validation_set)
            (dae_transform api validation_set)) (\<lambda>next_valid.
     ret (next_train, next_valid))))))))))))"

text \<open>
  The loop of \<^verbatim>\<open>pretrain\<close> (lines 99-104) over the positions of
  \<^verbatim>\<open>self.autoencoders\<close>, with \<^verbatim>\<open>(next_train, next_valid)\<close> as its loop state.
\<close>

fun pretrain_loop ::
  "('ae, 'd, 'a) dae_api \<Rightarrow> nat list \<Rightarrow> 'd \<times> 'd \<Rightarrow> (('ae, 'a, 'd) run_state, 'd \<times> 'd) stmt" where
  "pretrain_loop api [] nxt st = (Inr nxt, st)"
| "pretrain_loop api (l # ls) nxt st =
     (let st1 = st\<lparr>effects := effects st @ [Print_training_layer (int l + 1)]\<rparr> in
      case pretrain_autoencoder_and_gen_feed api l (fst nxt) (snd nxt) st1 of
        (Inl e, st2) \<Rightarrow> (Inl e, st2)
      | (Inr nxt', st2) \<Rightarrow>
          pretrain_loop api ls nxt' (st2\<lparr>effects := effects st2 @ [Reset_default_graph]\<rparr>))"

text \<open>\<^verbatim>\<open>pretrain\<close> (lines 88-106).\<close>

definition pretrain ::
  "('ae, 'd, 'a) dae_api \<Rightarrow> 'd \<Rightarrow> 'd \<Rightarrow> (('ae, 'a, 'd) run_state, 'd \<times> 'd) stmt" where
  "pretrain api train_set validation_set st =
     pretrain_loop api [0..<length (autoencoders (obj st))] (train_set, validation_set) st"

text \<open>Successive calls of \<^verbatim>\<open>pretrain\<close> on the same object, one per pair of data sets.\<close>

fun pretrain_calls ::
  "('ae, 'd, 'a) dae_api \<Rightarrow> ('d \<times> 'd) list \<Rightarrow> (('ae, 'a, 'd) run_state, unit) stmt" where
  "pretrain_calls api [] st = (Inr (), st)"
| "pretrain_calls api (tv # rest) st =
     (case pretrain api (fst tv) (snd tv) st of
        (Inl e, st') \<Rightarrow> (Inl e, st')
      | (Inr _, st') \<Rightarrow> pretrain_calls api rest st')"

text \<open>
  The layer-wise algorithm as the specification words it, without the object: one layer
  takes its autoencoder and the current train and validation data, and gives the input
  width it was built for, the fitted autoencoder, its weight and bias, and the two
  encoded data sets.
\<close>

definition spec_layer ::
  "('ae, 'd, 'a) dae_api \<Rightarrow> 'ae \<Rightarrow> 'd \<Rightarrow> 'd \<Rightarrow> py_error + (int \<times> 'ae \<times> 'a \<times> 'a \<times> 'd \<times> 'd)" where
  "spec_layer api ae t v =
     bind_res (nd_shape api t) (\<lambda>shape.
     bind_res (getitem shape 1) (\<lambda>n.
     bind_res (dae_build_model api n ae) (\<lambda>(_, built).
     bind_res (dae_fit api t v built) (\<lambda>(_, fitted).
     bind_res (dae_get_model_parameters api fitted) (\<lambda>(params, ae3).
     bind_res (dict_get params ''enc_w'') (\<lambda>w.
     bind_res (dict_get params ''enc_b'') (\<lambda>b.
     bind_res (dae_transform api t ae3) (\<lambda>(t', ae4).
     bind_res (dae_transform api v ae4) (\<lambda>(v', ae5).
       Inr (n, ae5, w, b, t', v'))))))))))"

text \<open>
  The layers in order from position \<open>l\<close>: the effects, the weights and biases stored,
  the autoencoders as they are left, and the data encoded by the deepest layer.
\<close>

fun spec_layers ::
  "('ae, 'd, 'a) dae_api \<Rightarrow> nat \<Rightarrow> 'ae list \<Rightarrow> 'd \<Rightarrow> 'd \<Rightarrow>
   py_error + (('d, 'a) effect list \<times> 'a list \<times> 'a list \<times> 'ae list \<times> 'd \<times> 'd)" where
  "spec_layers api l [] t v = Inr ([], [], [], [], t, v)"
| "spec_layers api l (ae # aes) t v =
     (case spec_layer api ae t v of
        Inl e \<Rightarrow> Inl e
      | Inr (n, ae', w, b, t', v') \<Rightarrow>
          (case spec_layers api (Suc l) aes t' v' of
             Inl e \<Rightarrow> Inl e
           | Inr (evs, ws, bs, aes', out_t, out_v) \<Rightarrow>
               Inr ([Print_training_layer (int l + 1), Call_build_model l n, Call_fit l t v,
                     Call_get_model_parameters l, Call_transform l t, Call_transform l v,
                     Reset_default_graph] @ evs,
                    w # ws, b # bs, ae' # aes', out_t, out_v)))"

section \<open>Conditions on the per-layer option lists\<close>

text \<open>Every per-layer option list has at least \<open>n\<close> entries.\<close>

definition option_lists_reach :: "sdae_args \<Rightarrow> nat \<Rightarrow> bool" where
  "option_lists_reach a n \<longleftrightarrow>
     n \<le> length (enc_act_func a) \<and> n \<le> length (dec_act_func a) \<and>
     n \<le> length (loss_func a) \<and> n \<le> length (opt a) \<and> n \<le> length (learning_rate a) \<and>
     n \<le> length (num_epochs a) \<and> n \<le> length (batch_size a)"

text \<open>Every per-layer option list has exactly as many entries as \<^verbatim>\<open>layers\<close>.\<close>

definition option_lists_match :: "sdae_args \<Rightarrow> bool" where
  "option_lists_match a \<longleftrightarrow>
     length (enc_act_func a) = length (layers a) \<and> length (dec_act_func a) = length (layers a) \<and>
     length (loss_func a) = length (layers a) \<and> length (opt a) = length (layers a) \<and>
     length (learning_rate a) = length (layers a) \<and> length (num_epochs a) = length (layers a) \<and>
     length (batch_size a) = length (layers a)"

section \<open>A small stand-in for the collaborators\<close>

text \<open>
  A concrete autoencoder to run the model on: an array is represented by its shape, an
  autoencoder by its constructor arguments and the input width it was built for. Its
  encoder maps data of shape \<open>[N, F]\<close> to shape \<open>[N, n_components]\<close>, and its weight
  and bias have the shapes \<open>[F, n_components]\<close> and \<open>[n_components]\<close>.
\<close>

definition toy_new_dae :: "dae_kwargs \<Rightarrow> dae_kwargs \<times> int" where
  "toy_new_dae kw = (kw, 0)"

definition toy_api :: "(dae_kwargs \<times> int, int list, int list) dae_api" where
  "toy_api =
     \<lparr> dae_build_model = (\<lambda>n ae. Inr ((), (fst ae, n))),
       dae_fit = (\<lambda>t v ae. Inr ((), ae)),
       dae_get_model_parameters = (\<lambda>ae.
          Inr ([''enc_w'' \<mapsto> [snd ae, kw_n_components (fst ae)],
                ''enc_b'' \<mapsto> [kw_n_components (fst ae)]], ae)),
       dae_transform = (\<lambda>d ae. Inr ([hd d, kw_n_components (fst ae)], ae)),
       nd_shape = (\<lambda>d. Inr d) \<rparr>"

text \<open>Two hidden layers of 100 and 50 units, every per-layer option given twice.\<close>

definition two_layer_args :: sdae_args where
  "two_layer_args =
     (default_args [100, 50])
       \<lparr> enc_act_func := [''tanh'', ''tanh''], dec_act_func := [''none'', ''none''],
         loss_func := [''mean_squared'', ''mean_squared''], num_epochs := [10, 10],
         batch_size := [10, 10], opt := [''gradient_descent'', ''gradient_descent''],
         learning_rate := [0.01, 0.01] \<rparr>"

text \<open>The object \<^verbatim>\<open>__init__\<close> returns for these arguments, before any call on it.\<close>

definition toy_fresh :: "(dae_kwargs \<times> int, int list, int list) run_state" where
  "toy_fresh = \<lparr>obj = projr (init toy_new_dae two_layer_args), effects = []\<rparr>"

text \<open>The stand-in object after one call of \<^verbatim>\<open>pretrain\<close>, and after a second one.\<close>

definition toy_after_one :: "(dae_kwargs \<times> int, int list, int list) run_state" where
  "toy_after_one = snd (pretrain_calls toy_api [([5, 784], [2, 784])] toy_fresh)"

definition toy_after_two :: "(dae_kwargs \<times> int, int list, int list) run_state" where
  "toy_after_two = snd (pretrain toy_api [5, 784] [2, 784] toy_after_one)"

section \<open>Building the fine-tuning graph\<close>

text \<open>
  The \<^verbatim>\<open>tf\<close> functions the file calls build nodes. A Python value that may be None is
  an option; TensorFlow cannot convert None to a tensor, so a function that is given
  None where it needs a tensor raises. TensorFlow's other checks of its arguments (the
  static shapes of a product, a negative dimension) are not modelled: building a node
  from tensors always gives the node.
\<close>

definition tf_tensor_arg :: "'a tensor option \<Rightarrow> py_error + 'a tensor" where
  "tf_tensor_arg x = (case x of None \<Rightarrow> Inl TensorFlowError | Some t \<Rightarrow> Inr t)"

definition tf_matmul :: "'a tensor option \<Rightarrow> 'a tensor option \<Rightarrow> py_error + 'a tensor" where
  "tf_matmul a b =
     bind_res (tf_tensor_arg a) (\<lambda>x. bind_res (tf_tensor_arg b) (\<lambda>y. Inr (Matmul x y)))"

definition tf_nn_dropout :: "'a tensor option \<Rightarrow> 'a tensor option \<Rightarrow> py_error + 'a tensor" where
  "tf_nn_dropout x kp =
     bind_res (tf_tensor_arg x) (\<lambda>t. bind_res (tf_tensor_arg kp) (\<lambda>k. Inr (Dropout t k)))"

definition tf_argmax :: "'a tensor option \<Rightarrow> int \<Rightarrow> py_error + 'a tensor" where
  "tf_argmax x axis = bind_res (tf_tensor_arg x) (\<lambda>t. Inr (Argmax t axis))"

text \<open>Python's \<^verbatim>\<open>'{}'.format(l)\<close> for a position \<open>l\<close>: its decimal digits.\<close>

fun str_nat :: "nat \<Rightarrow> string" where
  "str_nat n =
     (if n < 10 then [''0123456789'' ! n]
      else str_nat (n div 10) @ [''0123456789'' ! (n mod 10)])"

declare str_nat.simps [simp del]

text \<open>\<^verbatim>\<open>_create_placeholders\<close> (lines 259-269).\<close>

definition create_placeholders :: "int \<Rightarrow> int \<Rightarrow> ('ae, 'a) sdae \<Rightarrow> ('ae, 'a) sdae" where
  "create_placeholders n_features n_classes s =
     s\<lparr> input_data := Some (Placeholder ''float'' (Some [None, Some n_features]) ''x-input''),
        input_labels := Some (Placeholder ''float'' (Some [None, Some n_classes]) ''y-input''),
        keep_prob := Some (Placeholder ''float'' None ''keep-probs'') \<rparr>"

text \<open>
  One iteration of the loop of \<^verbatim>\<open>_create_variables_no_pretrain\<close> (lines 293-300), at
  position \<open>l\<close> of \<^verbatim>\<open>self.layers\<close>.
\<close>

definition no_pretrain_variables :: "int \<Rightarrow> nat \<Rightarrow> (('ae, 'a) sdae, unit) stmt" where
  "no_pretrain_variables n_features l s =
     seq (lift_res (if l = 0 then Inr n_features else getitem (layers s) (int l - 1))) (\<lambda>n_in.
     seq (lift_res (getitem (layers s) (int l))) (\<lambda>n_out.
     seq (modify (\<lambda>s. s\<lparr>encoding_w := encoding_w s @
                          [Variable (Truncated_normal [n_in, n_out] 0.01) None]\<rparr>)) (\<lambda>_.
     seq (lift_res (getitem (layers s) (int l))) (\<lambda>n_b.
     modify (\<lambda>s. s\<lparr>encoding_b := encoding_b s @
                          [Variable (Constant 0.01 [n_b]) None]\<rparr>))))) s"

fun no_pretrain_loop :: "int \<Rightarrow> nat list \<Rightarrow> (('ae, 'a) sdae, unit) stmt" where
  "no_pretrain_loop n_features [] s = (Inr (), s)"
| "no_pretrain_loop n_features (l # ls) s =
     (case no_pretrain_variables n_features l s of
        (Inl e, s') \<Rightarrow> (Inl e, s')
      | (Inr _, s') \<Rightarrow> no_pretrain_loop n_features ls s')"

text \<open>\<^verbatim>\<open>_create_variables_no_pretrain\<close> (lines 283-300): the two lists are emptied first.\<close>

definition create_variables_no_pretrain :: "int \<Rightarrow> (('ae, 'a) sdae, unit) stmt" where
  "create_variables_no_pretrain n_features s =
     no_pretrain_loop n_features [0..<length (layers s)] (s\<lparr>encoding_w := [], encoding_b := []\<rparr>)"

text \<open>
  One iteration of the loop of \<^verbatim>\<open>_create_variables_pretrain\<close> (lines 308-310): entry
  \<open>l\<close> of each list is read and replaced by a variable with that initial value.
\<close>

definition pretrain_variables :: "nat \<Rightarrow> (('ae, 'a) sdae, unit) stmt" where
  "pretrain_variables l =
     seq (\<lambda>s. lift_res (getitem (encoding_w s) (int l)) s) (\<lambda>w.
     seq (modify (\<lambda>s. s\<lparr>encoding_w :=
            (encoding_w s)[l := Variable w (Some (''enc-w-'' @ str_nat l))]\<rparr>)) (\<lambda>_.
     seq (\<lambda>s. lift_res (getitem (encoding_b s) (int l)) s) (\<lambda>b.
     modify (\<lambda>s. s\<lparr>encoding_b :=
            (encoding_b s)[l := Variable b (Some (''enc-b-'' @ str_nat l))]\<rparr>))))"

fun pretrain_variables_loop :: "nat list \<Rightarrow> (('ae, 'a) sdae, unit) stmt" where
  "pretrain_variables_loop [] s = (Inr (), s)"
| "pretrain_variables_loop (l # ls) s =
     (case pretrain_variables l s of
        (Inl e, s') \<Rightarrow> (Inl e, s')
      | (Inr _, s') \<Rightarrow> pretrain_variables_loop ls s')"

definition create_variables_pretrain :: "(('ae, 'a) sdae, unit) stmt" where
  "create_variables_pretrain s = pretrain_variables_loop [0..<length (layers s)] s"

text \<open>\<^verbatim>\<open>_create_variables\<close> (lines 271-281).\<close>

definition create_variables :: "int \<Rightarrow> (('ae, 'a) sdae, unit) stmt" where
  "create_variables n_features s =
     (if do_pretrain s then create_variables_pretrain s
      else create_variables_no_pretrain n_features s)"

text \<open>
  The activation chosen by \<^verbatim>\<open>self.finetune_act_func\<close> (lines 327-337): a node for
  \<^verbatim>\<open>'sigmoid'\<close>, \<^verbatim>\<open>'tanh'\<close> and \<^verbatim>\<open>'relu'\<close>, and None for any other name.
\<close>

definition layer_activation :: "string \<Rightarrow> 'a tensor \<Rightarrow> 'a tensor option" where
  "layer_activation act y_act =
     (if act = ''sigmoid'' then Some (Sigmoid y_act)
      else if act = ''tanh'' then Some (Tanh y_act)
      else if act = ''relu'' then Some (Relu y_act)
      else None)"

text \<open>
  One iteration of the loop of \<^verbatim>\<open>_create_encoding_layers\<close> (lines 321-342), with
  \<^verbatim>\<open>next_train\<close> as the loop carries it; it returns the new \<^verbatim>\<open>next_train\<close>.
\<close>

definition encoding_layer ::
  "nat \<Rightarrow> 'a tensor option \<Rightarrow> (('ae, 'a) sdae, 'a tensor option) stmt" where
  "encoding_layer l next_train s =
     seq (lift_res (getitem (encoding_w s) (int l))) (\<lambda>w.
     seq (lift_res (tf_matmul next_train (Some w))) (\<lambda>product.
     seq (lift_res (getitem (encoding_b s) (int l))) (\<lambda>b.
     seq (lift_res (tf_nn_dropout (layer_activation (finetune_act_func s) (Add product b))
                      (keep_prob s))) (\<lambda>dropped.
     seq (modify (\<lambda>s. s\<lparr>layer_nodes := layer_nodes s @ [dropped]\<rparr>)) (\<lambda>_.
     ret (Some dropped)))))) s"

fun encoding_layers_loop ::
  "nat list \<Rightarrow> 'a tensor option \<Rightarrow> (('ae, 'a) sdae, 'a tensor option) stmt" where
  "encoding_layers_loop [] next_train s = (Inr next_train, s)"
| "encoding_layers_loop (l # ls) next_train s =
     (case encoding_layer l next_train s of
        (Inl e, s') \<Rightarrow> (Inl e, s')
      | (Inr next_train', s') \<Rightarrow> encoding_layers_loop ls next_train' s')"

text \<open>\<^verbatim>\<open>_create_encoding_layers\<close> (lines 312-344).\<close>

definition create_encoding_layers :: "(('ae, 'a) sdae, 'a tensor option) stmt" where
  "create_encoding_layers s =
     encoding_layers_loop [0..<length (layers s)] (input_data s) (s\<lparr>layer_nodes := []\<rparr>)"

text \<open>\<^verbatim>\<open>_create_softmax_layer\<close> (lines 346-359).\<close>

definition create_softmax_layer ::
  "'a tensor option \<Rightarrow> int \<Rightarrow> (('ae, 'a) sdae, unit) stmt" where
  "create_softmax_layer last_layer n_classes s =
     seq (lift_res (getitem (layers s) (- 1))) (\<lambda>n_last.
     seq (modify (\<lambda>s. s\<lparr>softmax_W :=
            Some (Variable (Truncated_normal [n_last, n_classes] 0.01) (Some ''sm-weigths''))\<rparr>)) (\<lambda>_.
     seq (modify (\<lambda>s. s\<lparr>softmax_b :=
            Some (Variable (Constant 0.01 [n_classes]) (Some ''sm-biases''))\<rparr>)) (\<lambda>_.
     seq (\<lambda>s. lift_res (tf_matmul last_layer (softmax_W s)) s) (\<lambda>product.
     seq (\<lambda>s. lift_res (tf_tensor_arg (softmax_b s)) s) (\<lambda>b.
     seq (modify (\<lambda>s. s\<lparr>softmax_out := Some (Add product b)\<rparr>)) (\<lambda>_.
     modify (\<lambda>s. s\<lparr>layer_nodes := layer_nodes s @ [Add product b]\<rparr>))))))) s"

text \<open>
  Modelled from the spec: \<^verbatim>\<open>_create_cost_function_node\<close> and
  \<^verbatim>\<open>_create_train_step_node\<close> belong to the base class \<^verbatim>\<open>model.Model\<close>, which is not
  in the source tree. The specification says that graph construction "attaches: scalar
  loss (configurable loss family), an optimizer step bound to the fine-tune learning
  rate/momentum": the first stores in \<^verbatim>\<open>self.cost\<close> a loss node of the named family
  over the model's output and the reference labels, the second stores in
  \<^verbatim>\<open>self.train_step\<close> the optimizer's step on that loss.
\<close>

definition create_cost_function_node ::
  "string \<Rightarrow> 'a tensor option \<Rightarrow> 'a tensor option \<Rightarrow> (('ae, 'a) sdae, unit) stmt" where
  "create_cost_function_node loss model_output ref_input =
     seq (lift_res (tf_tensor_arg model_output)) (\<lambda>out.
     seq (lift_res (tf_tensor_arg ref_input)) (\<lambda>ref.
     modify (\<lambda>s. s\<lparr>cost := Some (Cost_node loss out ref)\<rparr>)))"

definition create_train_step_node :: "string \<Rightarrow> real \<Rightarrow> real \<Rightarrow> (('ae, 'a) sdae, unit) stmt" where
  "create_train_step_node opt_name lr mom =
     seq (\<lambda>s. lift_res (tf_tensor_arg (cost s)) s) (\<lambda>c.
     modify (\<lambda>s. s\<lparr>train_step := Some (Train_step opt_name lr mom c)\<rparr>))"

text \<open>
  \<^verbatim>\<open>_create_test_node\<close> (lines 361-371). The scalar summary of the last line goes to
  the graph's collection of summaries, which is not an attribute of the object.
\<close>

definition create_test_node :: "(('ae, 'a) sdae, unit) stmt" where
  "create_test_node =
     seq (\<lambda>s. lift_res (tf_argmax (softmax_out s) 1) s) (\<lambda>predictions.
     seq (modify (\<lambda>s. s\<lparr>model_predictions := Some predictions\<rparr>)) (\<lambda>_.
     seq (\<lambda>s. lift_res (tf_argmax (input_labels s) 1) s) (\<lambda>truth.
     modify (\<lambda>s. s\<lparr>accuracy :=
        Some (Reduce_mean (Cast (Equal predictions truth) ''float''))\<rparr>))))"

text \<open>\<^verbatim>\<open>build_model\<close> (lines 237-257).\<close>

definition build_model :: "int \<Rightarrow> int \<Rightarrow> (('ae, 'a) sdae, unit) stmt" where
  "build_model n_features n_classes =
     seq (modify (create_placeholders n_features n_classes)) (\<lambda>_.
     seq (create_variables n_features) (\<lambda>_.
     seq create_encoding_layers (\<lambda>next_train.
     seq (create_softmax_layer next_train n_classes) (\<lambda>_.
     seq (\<lambda>s. create_cost_function_node (finetune_loss_func s) (softmax_out s)
                 (input_labels s) s) (\<lambda>_.
     seq (\<lambda>s. create_train_step_node (finetune_opt s) (finetune_learning_rate s)
                 (momentum s) s) (\<lambda>_.
     create_test_node))))))"

section \<open>Fine-tuning\<close>

text \<open>
  \<^verbatim>\<open>np.random.shuffle\<close> on a Python list: numpy walks the positions from the last one
  down to 1 and swaps each with a position drawn at or below it. The draws come from
  numpy's global generator; here \<open>r i\<close> is what the generator gives for position \<open>i\<close>,
  reduced to the range \<open>0..i\<close>.
\<close>

fun shuffle_from :: "(nat \<Rightarrow> nat) \<Rightarrow> nat \<Rightarrow> 'x list \<Rightarrow> 'x list" where
  "shuffle_from r 0 xs = xs"
| "shuffle_from r (Suc i) xs =
     shuffle_from r i
       (xs[Suc i := xs ! (r (Suc i) mod Suc (Suc i)),
           r (Suc i) mod Suc (Suc i) := xs ! Suc i])"

definition np_random_shuffle :: "(nat \<Rightarrow> nat) \<Rightarrow> 'x list \<Rightarrow> 'x list" where
  "np_random_shuffle r xs = shuffle_from r (length xs - 1) xs"

text \<open>
  Modelled from the spec: \<^verbatim>\<open>utilities.gen_batches\<close> is not in the source tree. The
  specification gives it as \<^verbatim>\<open>split_into_batches(paired_samples, batch_size)\<close>, a
  partition "into fixed-size mini-batches (last batch may be short)": the data are cut
  from the front into consecutive pieces of \<open>batch_size\<close> elements, the last piece
  holding what is left. The specification says nothing for a batch size that is not
  positive; the model raises there, so that nothing is claimed for it.
\<close>

fun batches_of :: "nat \<Rightarrow> 'x list \<Rightarrow> 'x list list" where
  "batches_of b xs =
     (if b = 0 \<or> xs = [] then [] else take b xs # batches_of b (drop b xs))"

declare batches_of.simps [simp del]

definition gen_batches :: "'x list \<Rightarrow> int \<Rightarrow> py_error + 'x list list" where
  "gen_batches data b = (if b \<le> 0 then Inl ValueError else Inr (batches_of (nat b) data))"

text \<open>
  \<^verbatim>\<open>self.tf_session.run(fetches, feed_dict)\<close> from a method: the session is the
  object's attribute, and the call is recorded.
\<close>

definition tf_session_run ::
  "'a tf_kernel \<Rightarrow> 'a tensor option list \<Rightarrow> ('a tensor option \<times> 'a fed) list \<Rightarrow>
   (('ae, 'a, 'd) run_state, 'a option list) stmt" where
  "tf_session_run K fetches feed_dict st =
     (case tf_session (obj st) of
        None \<Rightarrow> (Inl AttributeError, st)
      | Some sess \<Rightarrow>
          (let st1 = st\<lparr>effects := effects st @ [Session_run fetches feed_dict]\<rparr> in
           case session_run K fetches feed_dict sess of
             Inl e \<Rightarrow> (Inl e, st1)
           | Inr (vals, sess') \<Rightarrow>
               (Inr vals, st1\<lparr>obj := (obj st1)\<lparr>tf_session := Some sess'\<rparr>\<rparr>)))"

text \<open>\<^verbatim>\<open>self.tf_summary_writer.add_summary(summary_str, epoch)\<close>.\<close>

definition add_summary :: "'a option \<Rightarrow> int \<Rightarrow> (('ae, 'a, 'd) run_state, unit) stmt" where
  "add_summary summary_str epoch st =
     (case tf_summary_writer (obj st) of
        None \<Rightarrow> (Inl AttributeError, st)
      | Some _ \<Rightarrow> (Inr (), st\<lparr>effects := effects st @ [Add_summary summary_str epoch]\<rparr>))"

text \<open>\<^verbatim>\<open>_run_validation_error_and_summaries\<close> (lines 176-193).\<close>

definition run_validation_error_and_summaries ::
  "'a tf_kernel \<Rightarrow> int \<Rightarrow> 'a fed \<Rightarrow> 'a fed \<Rightarrow> (('ae, 'a, 'd) run_state, unit) stmt" where
  "run_validation_error_and_summaries K epoch validation_set validation_labels st =
     seq (tf_session_run K [tf_merged_summaries (obj st), accuracy (obj st)]
            [(input_data (obj st), validation_set),
             (input_labels (obj st), validation_labels),
             (keep_prob (obj st), Scalar 1)]) (\<lambda>result.
     seq (lift_res (getitem result 0)) (\<lambda>summary_str.
     seq (lift_res (getitem result 1)) (\<lambda>acc.
     seq (add_summary summary_str epoch) (\<lambda>_.
     (\<lambda>st. if verbose (obj st) = 1
            then (Inr (), st\<lparr>effects := effects st @ [Print_accuracy epoch acc]\<rparr>)
            else (Inr (), st)))))) st"

text \<open>
  One pass of the inner loop of \<^verbatim>\<open>_train_model\<close> (lines 167-171):
  \<^verbatim>\<open>zip(*batch)\<close> takes the batch of pairs apart (and cannot unpack an empty one), then
  the training step runs on the samples and labels with the configured dropout.
\<close>

definition train_on_batch ::
  "'a tf_kernel \<Rightarrow> ('a \<times> 'a) list \<Rightarrow> (('ae, 'a, 'd) run_state, unit) stmt" where
  "train_on_batch K batch st =
     (if batch = [] then (Inl ValueError, st)
      else
        seq (tf_session_run K [train_step (obj st)]
               [(input_data (obj st), Rows (map fst batch)),
                (input_labels (obj st), Rows (map snd batch)),
                (keep_prob (obj st), Scalar (dropout (obj st)))]) (\<lambda>_. ret ()) st)"

fun train_on_batches ::
  "'a tf_kernel \<Rightarrow> ('a \<times> 'a) list list \<Rightarrow> (('ae, 'a, 'd) run_state, unit) stmt" where
  "train_on_batches K [] st = (Inr (), st)"
| "train_on_batches K (batch # rest) st =
     (case train_on_batch K batch st of
        (Inl e, st') \<Rightarrow> (Inl e, st')
      | (Inr _, st') \<Rightarrow> train_on_batches K rest st')"

text \<open>
  One epoch of \<^verbatim>\<open>_train_model\<close> (lines 164-174) on the list \<^verbatim>\<open>shuff\<close>: it returns
  the list as the shuffle leaves it, for the next epoch. \<open>r\<close> is what numpy's generator
  gives in this epoch.
\<close>

definition train_epoch ::
  "'a tf_kernel \<Rightarrow> (nat \<Rightarrow> nat) \<Rightarrow> 'a fed \<Rightarrow> 'a fed \<Rightarrow> int \<Rightarrow> ('a \<times> 'a) list \<Rightarrow>
   (('ae, 'a, 'd) run_state, ('a \<times> 'a) list) stmt" where
  "train_epoch K r validation_set validation_labels i shuff =
     seq (modify (\<lambda>st. st\<lparr>effects := effects st @
            [Np_random_shuffle shuff (np_random_shuffle r shuff)]\<rparr>)) (\<lambda>_.
     seq (\<lambda>st. lift_res (gen_batches (np_random_shuffle r shuff)
                            (finetune_batch_size (obj st))) st) (\<lambda>batches.
     seq (train_on_batches K batches) (\<lambda>_.
     seq (if validation_set \<noteq> PyNone
          then run_validation_error_and_summaries K i validation_set validation_labels
          else ret ()) (\<lambda>_.
     ret (np_random_shuffle r shuff)))))"

fun train_epochs ::
  "'a tf_kernel \<Rightarrow> (int \<Rightarrow> nat \<Rightarrow> nat) \<Rightarrow> 'a fed \<Rightarrow> 'a fed \<Rightarrow> int list \<Rightarrow> ('a \<times> 'a) list \<Rightarrow>
   (('ae, 'a, 'd) run_state, unit) stmt" where
  "train_epochs K rnd validation_set validation_labels [] shuff st = (Inr (), st)"
| "train_epochs K rnd validation_set validation_labels (i # rest) shuff st =
     (case train_epoch K (rnd i) validation_set validation_labels i shuff st of
        (Inl e, st') \<Rightarrow> (Inl e, st')
      | (Inr shuff', st') \<Rightarrow>
          train_epochs K rnd validation_set validation_labels rest shuff' st')"

text \<open>
  \<^verbatim>\<open>_train_model\<close> (lines 150-174). \<^verbatim>\<open>zip\<close> pairs the samples with the labels
  (Python 2: a list, as long as the shorter of the two); the epochs are
  \<^verbatim>\<open>range(self.finetune_num_epochs)\<close>; \<open>rnd i\<close> is what numpy's generator gives in
  epoch \<open>i\<close>.
\<close>

definition train_model ::
  "'a tf_kernel \<Rightarrow> (int \<Rightarrow> nat \<Rightarrow> nat) \<Rightarrow> 'a list \<Rightarrow> 'a list \<Rightarrow> 'a fed \<Rightarrow> 'a fed \<Rightarrow>
   (('ae, 'a, 'd) run_state, unit) stmt" where
  "train_model K rnd train_set train_labels validation_set validation_labels st =
     train_epochs K rnd validation_set validation_labels
       [0..finetune_num_epochs (obj st) - 1] (zip train_set train_labels) st"

section \<open>Inference\<close>

text \<open>
  \<^verbatim>\<open>tf.Session()\<close>: a new session has no variable values yet; \<open>g\<close> is the state its
  random generator starts in. \<^verbatim>\<open>self.tf_saver.restore(session, self.model_path)\<close>
  gives the session the variable values of the checkpoint at the model's path;
  \<open>ckpt\<close> is what is stored there, None when there is no checkpoint.
\<close>

definition new_session :: "nat \<Rightarrow> 'a session" where
  "new_session g = \<lparr>variables = Map.empty, rng = g\<rparr>"

definition saver_restore ::
  "saver option \<Rightarrow> ('a tensor \<rightharpoonup> 'a) option \<Rightarrow> 'a session \<Rightarrow> py_error + 'a session" where
  "saver_restore sv ckpt sess =
     (case sv of
        None \<Rightarrow> Inl AttributeError
      | Some _ \<Rightarrow>
          (case ckpt of
             None \<Rightarrow> Inl TensorFlowError
           | Some vs \<Rightarrow> Inr (sess\<lparr>variables := vs\<rparr>)))"

text \<open>\<^verbatim>\<open>node.eval(feed_dict)\<close> in the session of the enclosing \<^verbatim>\<open>with\<close> block.\<close>

definition tensor_eval ::
  "'a tf_kernel \<Rightarrow> 'a tensor option \<Rightarrow> ('a tensor option \<times> 'a fed) list \<Rightarrow> 'a session \<Rightarrow>
   py_error + ('a option \<times> 'a session)" where
  "tensor_eval K node feed_dict sess =
     (case node of
        None \<Rightarrow> Inl AttributeError
      | Some t \<Rightarrow>
          bind_res (session_run K [Some t] feed_dict sess) (\<lambda>(vals, sess').
          bind_res (getitem vals 0) (\<lambda>v. Inr (v, sess'))))"

text \<open>
  The start of each inference method: the new session becomes \<^verbatim>\<open>self.tf_session\<close>
  and the checkpoint is restored into it.
\<close>

definition open_restored_session ::
  "('a tensor \<rightharpoonup> 'a) option \<Rightarrow> nat \<Rightarrow> (('ae, 'a) sdae, 'a session) stmt" where
  "open_restored_session ckpt g s =
     (case saver_restore (tf_saver s) ckpt (new_session g) of
        Inl e \<Rightarrow> (Inl e, s\<lparr>tf_session := Some (new_session g)\<rparr>)
      | Inr sess \<Rightarrow> (Inr sess, s\<lparr>tf_session := Some sess\<rparr>))"

text \<open>
  One evaluation inside the \<^verbatim>\<open>with\<close> block: the session attribute follows the
  session.
\<close>

definition eval_in_session ::
  "'a tf_kernel \<Rightarrow> 'a tensor option \<Rightarrow> ('a tensor option \<times> 'a fed) list \<Rightarrow> 'a session \<Rightarrow>
   (('ae, 'a) sdae, 'a option \<times> 'a session) stmt" where
  "eval_in_session K node feed_dict sess s =
     (case tensor_eval K node feed_dict sess of
        Inl e \<Rightarrow> (Inl e, s)
      | Inr (v, sess') \<Rightarrow> (Inr (v, sess'), s\<lparr>tf_session := Some sess'\<rparr>))"

text \<open>\<^verbatim>\<open>compute_accuracy\<close> (lines 223-235).\<close>

definition compute_accuracy ::
  "'a tf_kernel \<Rightarrow> ('a tensor \<rightharpoonup> 'a) option \<Rightarrow> nat \<Rightarrow> 'a list \<Rightarrow> 'a list \<Rightarrow>
   (('ae, 'a) sdae, 'a option) stmt" where
  "compute_accuracy K ckpt g test_set test_labels =
     seq (open_restored_session ckpt g) (\<lambda>sess.
     seq (\<lambda>s. eval_in_session K (accuracy s)
                 [(input_data s, Rows test_set),
                  (input_labels s, Rows test_labels),
                  (keep_prob s, Scalar 1)] sess s) (\<lambda>(v, sess').
     ret v))"

text \<open>\<^verbatim>\<open>predict\<close> (lines 211-221).\<close>

definition predict ::
  "'a tf_kernel \<Rightarrow> ('a tensor \<rightharpoonup> 'a) option \<Rightarrow> nat \<Rightarrow> 'a list \<Rightarrow> (('ae, 'a) sdae, 'a option) stmt" where
  "predict K ckpt g test_set =
     seq (open_restored_session ckpt g) (\<lambda>sess.
     seq (\<lambda>s. eval_in_session K (model_predictions s)
                 [(input_data s, Rows test_set), (keep_prob s, Scalar 1)] sess s) (\<lambda>(v, sess').
     ret v))"

text \<open>
  The loop of \<^verbatim>\<open>get_layers_output\<close> (lines 206-208) over the nodes of
  \<^verbatim>\<open>self.layer_nodes\<close>, with the list \<^verbatim>\<open>layers_out\<close> and the session as it goes.
\<close>

fun layers_output_loop ::
  "'a tf_kernel \<Rightarrow> 'a list \<Rightarrow> 'a tensor list \<Rightarrow> 'a option list \<Rightarrow> 'a session \<Rightarrow>
   (('ae, 'a) sdae, 'a option list) stmt" where
  "layers_output_loop K data [] layers_out sess s = (Inr layers_out, s)"
| "layers_output_loop K data (l # rest) layers_out sess s =
     (case eval_in_session K (Some l)
             [(input_data s, Rows data), (keep_prob s, Scalar 1)] sess s of
        (Inl e, s') \<Rightarrow> (Inl e, s')
      | (Inr (v, sess'), s') \<Rightarrow> layers_output_loop K data rest (layers_out @ [v]) sess' s')"

text \<open>\<^verbatim>\<open>get_layers_output\<close> (lines 195-209).\<close>

definition get_layers_output ::
  "'a tf_kernel \<Rightarrow> ('a tensor \<rightharpoonup> 'a) option \<Rightarrow> nat \<Rightarrow> 'a list \<Rightarrow>
   (('ae, 'a) sdae, 'a option list) stmt" where
  "get_layers_output K ckpt g data =
     seq (open_restored_session ckpt g) (\<lambda>sess.
     (\<lambda>s. layers_output_loop K data (layer_nodes s) [] sess s))"

section \<open>The graph and the properties the claims speak of\<close>

text \<open>
  The variables of layer \<open>l\<close> when nothing was pretrained, as the specification words
  them: a weight drawn truncated-normal with standard deviation 0.01, whose input width
  is the number of features for the first layer and the width of the layer before
  otherwise, and a bias filled with 0.01.
\<close>

definition fresh_weight :: "int \<Rightarrow> int list \<Rightarrow> nat \<Rightarrow> 'a tensor" where
  "fresh_weight n_features ls l =
     Variable (Truncated_normal [if l = 0 then n_features else ls ! (l - 1), ls ! l] 0.01) None"

definition fresh_bias :: "int list \<Rightarrow> nat \<Rightarrow> 'a tensor" where
  "fresh_bias ls l = Variable (Constant 0.01 [ls ! l]) None"

text \<open>The activations the fine-tuning graph knows, and the node each one makes.\<close>

definition known_activation :: "string \<Rightarrow> bool" where
  "known_activation act \<longleftrightarrow> act = ''sigmoid'' \<or> act = ''tanh'' \<or> act = ''relu''"

definition activation_node :: "string \<Rightarrow> 'a tensor \<Rightarrow> 'a tensor" where
  "activation_node act y =
     (if act = ''sigmoid'' then Sigmoid y else if act = ''tanh'' then Tanh y else Relu y)"

text \<open>
  The forward pass as the specification words it: each layer computes the activation of
  the previous output times its weight plus its bias, then applies dropout with the
  keep-probability \<open>kp\<close>; the list holds the post-dropout output of every layer in
  order.
\<close>

fun encoder_nodes ::
  "string \<Rightarrow> 'a tensor \<Rightarrow> 'a tensor \<Rightarrow> ('a tensor \<times> 'a tensor) list \<Rightarrow> 'a tensor list" where
  "encoder_nodes act kp x [] = []"
| "encoder_nodes act kp x (wb # rest) =
     Dropout (activation_node act (Add (Matmul x (fst wb)) (snd wb))) kp
       # encoder_nodes act kp
           (Dropout (activation_node act (Add (Matmul x (fst wb)) (snd wb))) kp) rest"

text \<open>The three placeholders of \<^verbatim>\<open>_create_placeholders\<close>.\<close>

definition x_input :: "int \<Rightarrow> 'a tensor" where
  "x_input n_features = Placeholder ''float'' (Some [None, Some n_features]) ''x-input''"

definition y_input :: "int \<Rightarrow> 'a tensor" where
  "y_input n_classes = Placeholder ''float'' (Some [None, Some n_classes]) ''y-input''"

definition keep_probs :: "'a tensor" where
  "keep_probs = Placeholder ''float'' None ''keep-probs''"

text \<open>
  The object with the complete fine-tuning graph over the encoding weights \<open>ws\<close> and
  biases \<open>bs\<close>: the hidden layers, the softmax layer on the last of them, the loss, the
  training step, the predictions and the accuracy.
\<close>

definition built_graph ::
  "int \<Rightarrow> int \<Rightarrow> 'a tensor list \<Rightarrow> 'a tensor list \<Rightarrow> ('ae, 'a) sdae \<Rightarrow> ('ae, 'a) sdae" where
  "built_graph n_features n_classes ws bs s =
     (let hidden = encoder_nodes (finetune_act_func s) keep_probs (x_input n_features)
                     (take (length (layers s)) (zip ws bs));
          sm_W = Variable (Truncated_normal [last (layers s), n_classes] 0.01) (Some ''sm-weigths'');
          sm_b = Variable (Constant 0.01 [n_classes]) (Some ''sm-biases'');
          logits = Add (Matmul (last (x_input n_features # hidden)) sm_W) sm_b;
          loss = Cost_node (finetune_loss_func s) logits (y_input n_classes)
      in s\<lparr> input_data := Some (x_input n_features),
             input_labels := Some (y_input n_classes),
             keep_prob := Some keep_probs,
             layer_nodes := hidden @ [logits],
             softmax_out := Some logits,
             encoding_w := ws,
             encoding_b := bs,
             softmax_W := Some sm_W,
             softmax_b := Some sm_b,
             cost := Some loss,
             train_step := Some (Train_step (finetune_opt s) (finetune_learning_rate s)
                                   (momentum s) loss),
             model_predictions := Some (Argmax logits 1),
             accuracy := Some (Reduce_mean (Cast (Equal (Argmax logits 1)
                                 (Argmax (y_input n_classes) 1)) ''float'')) \<rparr>)"

definition is_variable :: "'a tensor \<Rightarrow> bool" where
  "is_variable t = (case t of Variable i n \<Rightarrow> True | _ \<Rightarrow> False)"

text \<open>An attribute that, when it is set, holds a tensor and not an operation.\<close>

definition tensor_attr :: "'a tensor option \<Rightarrow> bool" where
  "tensor_attr x = (case x of None \<Rightarrow> True | Some n \<Rightarrow> \<not> is_operation n)"

text \<open>An effect other than a call of \<^verbatim>\<open>np.random.shuffle\<close>.\<close>

definition no_shuffle :: "('d, 'a) effect \<Rightarrow> bool" where
  "no_shuffle e = (case e of Np_random_shuffle b a \<Rightarrow> False | _ \<Rightarrow> True)"

text \<open>
  A tensor whose value does not read the random state under the feed \<open>fd\<close>: every
  dropout in it takes its keep-probability from a placeholder that is fed the number 1,
  and nothing in it draws a truncated normal (a variable is read from the session, its
  initial value is not drawn again).
\<close>

fun rng_free :: "('a tensor \<times> 'a fed) list \<Rightarrow> 'a tensor \<Rightarrow> bool" where
  "rng_free fd (Dropout a (Placeholder dtype shape name)) =
     (rng_free fd a \<and> map_of fd (Placeholder dtype shape name) = Some (Scalar 1))"
| "rng_free fd (Dropout a kp) = False"
| "rng_free fd (Truncated_normal shape stddev) = False"
| "rng_free fd (Matmul a b) = (rng_free fd a \<and> rng_free fd b)"
| "rng_free fd (Add a b) = (rng_free fd a \<and> rng_free fd b)"
| "rng_free fd (Sigmoid a) = rng_free fd a"
| "rng_free fd (Tanh a) = rng_free fd a"
| "rng_free fd (Relu a) = rng_free fd a"
| "rng_free fd (Argmax a axis) = rng_free fd a"
| "rng_free fd (Equal a b) = (rng_free fd a \<and> rng_free fd b)"
| "rng_free fd (Cast a dtype) = rng_free fd a"
| "rng_free fd (Reduce_mean a) = rng_free fd a"
| "rng_free fd (Scalar_summary tag a) = rng_free fd a"
| "rng_free fd (Merge_summary ns) = list_all (rng_free fd) ns"
| "rng_free fd (Cost_node name a b) = (rng_free fd a \<and> rng_free fd b)"
| "rng_free fd n = True"

text \<open>
  The kernel's dropout at keep-probability 1: TensorFlow scales the input by the
  inverse of the keep-probability and multiplies it by a mask that is 1 wherever the
  keep-probability plus a uniform draw from \<open>[0, 1)\<close> reaches 1, so at
  keep-probability 1 the output is the input, whatever is drawn.
\<close>

definition dropout_off :: "'a tf_kernel \<Rightarrow> bool" where
  "dropout_off K \<longleftrightarrow> (\<forall>g n x. k_dropout K g n x (k_placeholder K (Some (Scalar 1))) = x)"

section \<open>A small stand-in for TensorFlow's kernels\<close>

text \<open>
  A concrete kernel to run the model on: a tensor value is an integer, fed rows are
  summed, a fed number counts as 1 when it is 1 and as 0 otherwise, dropout returns its
  input at keep-probability 1 and scales it by the random state otherwise, a training
  step adds 1 to every variable, and a run advances the random state by 1.
\<close>

definition toy_kernel :: "int tf_kernel" where
  "toy_kernel =
     \<lparr> k_placeholder = (\<lambda>v. case v of
            Some (Rows xs) \<Rightarrow> sum_list xs
          | Some (Scalar r) \<Rightarrow> (if r = 1 then 1 else 0)
          | _ \<Rightarrow> 0),
       k_uninitialized = 0,
       k_truncated_normal = (\<lambda>g shape stddev. int g),
       k_constant = (\<lambda>c shape. 0),
       k_matmul = (\<lambda>a b. a * b),
       k_add = (\<lambda>a b. a + b),
       k_sigmoid = (\<lambda>a. a),
       k_tanh = (\<lambda>a. a),
       k_relu = (\<lambda>a. max 0 a),
       k_dropout = (\<lambda>g n x kp. if kp = 1 then x else x * int g),
       k_argmax = (\<lambda>a axis. a),
       k_equal = (\<lambda>a b. if a = b then 1 else 0),
       k_cast = (\<lambda>a dtype. a),
       k_reduce_mean = (\<lambda>a. a),
       k_scalar_summary = (\<lambda>tag a. a),
       k_merge_summary = sum_list,
       k_cost = (\<lambda>name a b. a - b),
       k_train_step = (\<lambda>n fd g vs. (\<lambda>t. map_option (\<lambda>v. v + 1) (vs t))),
       k_next_rng = Suc \<rparr>"

text \<open>
  One hidden layer of two units, no pretraining, dropout at keep-probability 0.5 while
  training, one epoch of fine-tuning in batches of two; the object \<^verbatim>\<open>__init__\<close> returns for it, and that object after
  \<^verbatim>\<open>build_model(3, 2)\<close>.
\<close>

definition small_args :: sdae_args where
  "small_args =
     (default_args [2])\<lparr>do_pretrain := False, dropout := 0.5, finetune_num_epochs := 1,
                         finetune_batch_size := 2\<rparr>"

definition small_obj :: "(dae_kwargs \<times> int, int) sdae" where
  "small_obj = projr (init toy_new_dae small_args)"

definition small_built :: "(dae_kwargs \<times> int, int) sdae" where
  "small_built = snd (build_model 3 2 small_obj)"

text \<open>
  The built object while fitting runs: a session, a saver, the merged summaries (here
  the accuracy summary of \<^verbatim>\<open>_create_test_node\<close>) and a summary writer, as the base
  class sets them up.
\<close>

definition small_fitting :: "(dae_kwargs \<times> int, int, unit) run_state" where
  "small_fitting =
     \<lparr> obj = small_built
         \<lparr> tf_session := Some \<lparr>variables = Map.empty, rng = 0\<rparr>,
           tf_saver := Some Saver,
           tf_merged_summaries :=
             map_option (\<lambda>a. Merge_summary [Scalar_summary ''accuracy'' a]) (accuracy small_built),
           tf_summary_writer := Some SummaryWriter \<rparr>,
       effects = [] \<rparr>"

text \<open>The same configuration with the activation \<^verbatim>\<open>'none'\<close>, and one with no layer.\<close>

definition none_obj :: "(dae_kwargs \<times> int, int) sdae" where
  "none_obj =
     projr (init toy_new_dae ((default_args [2])\<lparr>do_pretrain := False,
                                                 finetune_act_func := ''none''\<rparr>))"

definition none_ready :: "(dae_kwargs \<times> int, int) sdae" where
  "none_ready = snd (create_variables 3 (create_placeholders 3 2 none_obj))"


section \<open>Construction and repeated pretraining, as the specification describes them\<close>

text \<open>
  The keyword arguments the specification gives the autoencoder of position \<open>l\<close>: the
  width \<^verbatim>\<open>layers[l]\<close>, entry \<open>l\<close> of each per-layer list, and the shared options.
\<close>

definition kwargs_at :: "sdae_args \<Rightarrow> nat \<Rightarrow> dae_kwargs" where
  "kwargs_at a l =
     \<lparr> kw_n_components = layers a ! l, kw_main_dir = main_dir a,
       kw_enc_act_func = enc_act_func a ! l, kw_dec_act_func = dec_act_func a ! l,
       kw_loss_func = loss_func a ! l, kw_opt = opt a ! l,
       kw_learning_rate = learning_rate a ! l, kw_momentum = momentum a,
       kw_corr_type = corr_type a, kw_corr_frac = corr_frac a, kw_verbose = verbose a,
       kw_num_epochs = num_epochs a ! l, kw_batch_size = batch_size a ! l,
       kw_dataset = dataset a \<rparr>"

text \<open>
  The layer-wise algorithm run once per pair of data sets, each run on the autoencoders
  the run before left: the weights and the biases of all the runs, in the order of the
  runs and within a run in layer order, and the autoencoders after the last run.
\<close>

fun spec_calls ::
  "('ae, 'd, 'a) dae_api \<Rightarrow> 'ae list \<Rightarrow> ('d \<times> 'd) list
     \<Rightarrow> py_error + ('a list \<times> 'a list \<times> 'ae list)" where
  "spec_calls api aes [] = Inr ([], [], aes)"
| "spec_calls api aes (tv # rest) =
     (case spec_layers api 0 aes (fst tv) (snd tv) of
        Inl e \<Rightarrow> Inl e
      | Inr (evs, ws, bs, aes', out) \<Rightarrow>
          (case spec_calls api aes' rest of
             Inl e \<Rightarrow> Inl e
           | Inr (ws', bs', aes'') \<Rightarrow> Inr (ws @ ws', bs @ bs', aes'')))"

section \<open>What a fine-tuning run does to the world\<close>

text \<open>
  The run of the training step on one batch, as the specification words it: "one
  optimizer step per batch using the configured dropout keep-probability", on the
  samples and the labels of the batch.
\<close>

definition step_effect :: "('ae, 'a) sdae \<Rightarrow> ('a \<times> 'a) list \<Rightarrow> ('d, 'a) effect" where
  "step_effect s batch =
     Session_run [train_step s]
       [(input_data s, Rows (map fst batch)),
        (input_labels s, Rows (map snd batch)),
        (keep_prob s, Scalar (dropout s))]"

text \<open>
  An effect of the validation at the end of epoch \<open>epoch\<close>: the run of the merged
  summaries and the accuracy on the validation data at keep-probability 1, the summary
  handed to the writer, or the accuracy printed.
\<close>

definition validation_effect ::
  "('ae, 'a) sdae \<Rightarrow> int \<Rightarrow> 'a fed \<Rightarrow> 'a fed \<Rightarrow> ('d, 'a) effect \<Rightarrow> bool" where
  "validation_effect s epoch vset vlab e =
     (case e of
        Session_run fetches fd \<Rightarrow>
          fetches = [tf_merged_summaries s, accuracy s]
          \<and> fd = [(input_data s, vset), (input_labels s, vlab), (keep_prob s, Scalar 1)]
      | Add_summary x i \<Rightarrow> i = epoch
      | Print_accuracy i x \<Rightarrow> i = epoch
      | _ \<Rightarrow> False)"

text \<open>A \<^verbatim>\<open>Session.run\<close> with a single fetch, as the training loop makes it.\<close>

fun is_train_run :: "('d, 'a) effect \<Rightarrow> bool" where
  "is_train_run (Session_run fetches fd) = (length fetches = 1)"
| "is_train_run e = False"

section \<open>Runs of the small model\<close>

text \<open>
  Fine-tuning on three samples with the labels 10, 20 and 30, with a generator that
  always gives 0: the state it leaves.
\<close>

definition small_trained :: "(dae_kwargs \<times> int, int, unit) run_state" where
  "small_trained =
     snd (train_model toy_kernel (\<lambda>i k. 0) [1, 2, 3] [10, 20, 30] PyNone PyNone small_fitting)"

text \<open>
  The validation of epoch 0 when every variable of the session holds 1: the state it
  leaves.
\<close>

definition small_validated :: "(dae_kwargs \<times> int, int, unit) run_state" where
  "small_validated =
     snd (run_validation_error_and_summaries toy_kernel 0 (Rows [1, 2]) (Rows [2, 3])
            (small_fitting\<lparr>obj := (obj small_fitting)
               \<lparr>tf_session := Some \<lparr>variables = (\<lambda>t. Some 1), rng = 0\<rparr>\<rparr>\<rparr>))"


section \<open>Construction: the length of the per-layer lists\<close>

lemma getitem_nat:
  "getitem xs (int l) = (if l < length xs then Inr (xs ! l) else Inl IndexError)"
  by (simp add: getitem_def)

lemma dae_kwargs_for_cases:
  "dae_kwargs_for a (int l) layer =
     (if option_lists_reach a (Suc l)
      then Inr \<lparr> kw_n_components = layer, kw_main_dir = main_dir a,
             kw_enc_act_func = enc_act_func a ! l, kw_dec_act_func = dec_act_func a ! l,
             kw_loss_func = loss_func a ! l,
             kw_opt = opt a ! l, kw_learning_rate = learning_rate a ! l,
             kw_momentum = momentum a,
             kw_corr_type = corr_type a, kw_corr_frac = corr_frac a,
             kw_verbose = verbose a, kw_num_epochs = num_epochs a ! l,
             kw_batch_size = batch_size a ! l,
             kw_dataset = dataset a \<rparr>
      else Inl IndexError)"
  by (simp add: dae_kwargs_for_def getitem_nat bind_res_def option_lists_reach_def)

lemma init_autoencoders_enum:
  "init_autoencoders new_dae a acc (enumerate n xs) =
     (if xs = [] \<or> option_lists_reach a (n + length xs)
      then Inr (acc @ map (\<lambda>(l, layer). new_dae (projr (dae_kwargs_for a (int l) layer)))
                        (enumerate n xs))
      else Inl IndexError)"
proof (induction xs arbitrary: n acc)
  case Nil
  then show ?case by simp
next
  case (Cons x xs)
  have mono: "option_lists_reach a (Suc (n + length xs)) \<Longrightarrow> option_lists_reach a (Suc n)"
    by (simp add: option_lists_reach_def)
  show ?case
    using mono by (auto simp add: Cons.IH dae_kwargs_for_cases option_lists_reach_def)
qed

lemma init_fresh:
  assumes "init new_dae a = Inr s0"
  shows "encoding_w s0 = [] \<and> encoding_b s0 = [] \<and> length (autoencoders s0) = length (layers a)
         \<and> layers s0 = layers a"
  using assms init_autoencoders_enum [of new_dae a "[]" 0 "layers a"]
  by (auto simp add: init_def sdae_args.defs split: sum.splits if_splits)

lemmas toy_eval =
  init_def dae_kwargs_for_def getitem_def bind_res_def default_args_def two_layer_args_def
  toy_api_def toy_new_dae_def toy_fresh_def pretrain_def pretrain_autoencoder_and_gen_feed_def
  seq_def lift_res_def ret_def modify_def call_dae_def append_encoding_w_def
  append_encoding_b_def dict_get_def Let_def sdae_args.defs upt_rec
  option_lists_match_def option_lists_reach_def

lemma map_enumerate_nth:
  "map (\<lambda>(l, x). f l x) (enumerate n xs) = map (\<lambda>l. f l (xs ! (l - n))) [n..<n + length xs]"
  by (rule nth_equalityI) (simp_all add: nth_enumerate_eq)

lemma init_autoencoders_layers:
  assumes "option_lists_reach a (length (layers a))"
  shows "init_autoencoders new_dae a [] (enumerate 0 (layers a)) =
           Inr (map (\<lambda>l. new_dae (kwargs_at a l)) [0..<length (layers a)])"
proof -
  have reach: "\<And>l. l < length (layers a) \<Longrightarrow> option_lists_reach a (Suc l)"
    using assms by (simp add: option_lists_reach_def)
  have "map (\<lambda>(l, layer). new_dae (projr (dae_kwargs_for a (int l) layer))) (enumerate 0 (layers a))
        = map (\<lambda>l. new_dae (projr (dae_kwargs_for a (int l) (layers a ! (l - 0)))))
            [0..<0 + length (layers a)]"
    by (rule map_enumerate_nth)
  also have "\<dots> = map (\<lambda>l. new_dae (kwargs_at a l)) [0..<length (layers a)]"
    using reach by (auto simp add: dae_kwargs_for_cases kwargs_at_def)
  finally show ?thesis
    using init_autoencoders_enum [of new_dae a "[]" 0 "layers a"] assms by simp
qed

text \<open>
  C3 (as amended). Nothing in \<^verbatim>\<open>__init__\<close> compares lengths: the loop of lines 79-86
  reads entry \<open>l\<close> of each per-layer list for every position \<open>l\<close> of \<^verbatim>\<open>layers\<close>. So
  construction raises, with IndexError, exactly when some per-layer list is shorter than
  \<^verbatim>\<open>layers\<close>. When every list has at least as many entries as \<^verbatim>\<open>layers\<close>, and in
  particular when all the lengths are equal, it returns an object that keeps the
  arguments as they were passed, has empty lists of encoding weights, encoding biases
  and layer nodes, and has one autoencoder per layer, in layer order: the autoencoder of
  position \<open>l\<close> is constructed from the width \<^verbatim>\<open>layers[l]\<close>, entry \<open>l\<close> of each per-layer
  list and the shared options (\<open>kwargs_at\<close>). No entry at a position from
  \<^verbatim>\<open>len(layers)\<close> on takes part in any autoencoder.
\<close>

theorem init_raises_iff_option_list_too_short:
  "(option_lists_match a \<longrightarrow> \<not> isl (init new_dae a :: py_error + ('ae, 'a) sdae))
   \<and> (if option_lists_reach a (length (layers a))
      then \<exists>s :: ('ae, 'a) sdae.
             init new_dae a = Inr s
             \<and> autoencoders s = map (\<lambda>l. new_dae (kwargs_at a l)) [0..<length (layers a)]
             \<and> sdae_args.truncate s = a
             \<and> encoding_w s = [] \<and> encoding_b s = [] \<and> layer_nodes s = []
      else (init new_dae a :: py_error + ('ae, 'a) sdae) = Inl IndexError)"
proof (cases "option_lists_reach a (length (layers a))")
  case True
  then show ?thesis
    using init_autoencoders_layers [OF True, of new_dae]
    by (simp add: init_def sdae_args.defs)
next
  case False
  then have ne: "layers a \<noteq> []" by (auto simp add: option_lists_reach_def)
  have "\<not> option_lists_match a"
    using False by (auto simp add: option_lists_match_def option_lists_reach_def)
  then show ?thesis
    using False ne init_autoencoders_enum [of new_dae a "[]" 0 "layers a"]
    by (simp add: init_def)
qed

theorem init_raises_iff_option_list_too_short_witness:
  "option_lists_match two_layer_args
   \<and> \<not> isl (init toy_new_dae two_layer_args :: py_error + (dae_kwargs \<times> int, int list) sdae)
   \<and> option_lists_reach ((default_args [100])\<lparr>enc_act_func := [''tanh'', ''sigmoid'']\<rparr>) 1
   \<and> map_sum id autoencoders
        (init toy_new_dae ((default_args [100])\<lparr>enc_act_func := [''tanh'', ''sigmoid'']\<rparr>)
           :: py_error + (dae_kwargs \<times> int, int list) sdae)
       = Inr [(\<lparr> kw_n_components = 100, kw_main_dir = ''sdae/'',
                  kw_enc_act_func = ''tanh'', kw_dec_act_func = ''none'',
                  kw_loss_func = ''mean_squared'', kw_opt = ''gradient_descent'',
                  kw_learning_rate = 0.01, kw_momentum = 0.5,
                  kw_corr_type = ''none'', kw_corr_frac = 0, kw_verbose = 1,
                  kw_num_epochs = 10, kw_batch_size = 10, kw_dataset = ''mnist'' \<rparr>, 0)]"
proof -
  let ?a = "(default_args [100])\<lparr>enc_act_func := [''tanh'', ''sigmoid'']\<rparr>"
  have m: "option_lists_match two_layer_args"
    by (simp add: toy_eval)
  have r: "option_lists_reach ?a (length (layers ?a))"
    by (simp add: toy_eval)
  from init_raises_iff_option_list_too_short [of two_layer_args toy_new_dae] m
  have 1: "\<not> isl (init toy_new_dae two_layer_args :: py_error + (dae_kwargs \<times> int, int list) sdae)"
    by blast
  from init_raises_iff_option_list_too_short [of ?a toy_new_dae] r
  obtain s :: "(dae_kwargs \<times> int, int list) sdae" where
    "init toy_new_dae ?a = Inr s"
    "autoencoders s = map (\<lambda>l. toy_new_dae (kwargs_at ?a l)) [0..<length (layers ?a)]"
    by auto
  then have 2: "map_sum id autoencoders
        (init toy_new_dae ?a :: py_error + (dae_kwargs \<times> int, int list) sdae)
       = Inr [(\<lparr> kw_n_components = 100, kw_main_dir = ''sdae/'',
                  kw_enc_act_func = ''tanh'', kw_dec_act_func = ''none'',
                  kw_loss_func = ''mean_squared'', kw_opt = ''gradient_descent'',
                  kw_learning_rate = 0.01, kw_momentum = 0.5,
                  kw_corr_type = ''none'', kw_corr_frac = 0, kw_verbose = 1,
                  kw_num_epochs = 10, kw_batch_size = 10, kw_dataset = ''mnist'' \<rparr>, 0)]"
    by (simp add: kwargs_at_def default_args_def toy_new_dae_def)
  from m 1 r 2 show ?thesis by (simp add: default_args_def)
qed

text \<open>
  The claim as stated fails: with one hidden layer and two encoder activations the
  lengths disagree, and construction returns an object.
\<close>

theorem init_accepts_longer_option_list:
  "length (enc_act_func ((default_args [100])\<lparr>enc_act_func := [''tanh'', ''sigmoid'']\<rparr>))
     \<noteq> length (layers ((default_args [100])\<lparr>enc_act_func := [''tanh'', ''sigmoid'']\<rparr>))
   \<and> \<not> isl (init toy_new_dae ((default_args [100])\<lparr>enc_act_func := [''tanh'', ''sigmoid'']\<rparr>)
              :: py_error + (dae_kwargs \<times> int, int list) sdae)"
  by (simp add: toy_eval)

section \<open>Pretraining follows the layer-wise algorithm\<close>

lemma layer_refines_ok:
  assumes "i < length (autoencoders (obj st))"
      and "spec_layer api (autoencoders (obj st) ! i) t v = Inr (n, ae', w, b, t', v')"
  shows "pretrain_autoencoder_and_gen_feed api i t v st =
           (Inr (t', v'),
            st\<lparr>effects := effects st @ [Call_build_model i n, Call_fit i t v,
                    Call_get_model_parameters i, Call_transform i t, Call_transform i v],
               obj := (obj st)\<lparr>encoding_w := encoding_w (obj st) @ [NdArray w],
                               encoding_b := encoding_b (obj st) @ [NdArray b],
                               autoencoders := (autoencoders (obj st))[i := ae']\<rparr>\<rparr>)"
  using assms
  by (auto simp add: pretrain_autoencoder_and_gen_feed_def spec_layer_def seq_def lift_res_def
        bind_res_def call_dae_def modify_def ret_def append_encoding_w_def append_encoding_b_def
        Let_def split: sum.splits prod.splits)

lemma layer_refines_err:
  assumes "i < length (autoencoders (obj st))"
      and "spec_layer api (autoencoders (obj st) ! i) t v = Inl e"
  shows "fst (pretrain_autoencoder_and_gen_feed api i t v st) = Inl e"
  using assms
  by (auto simp add: pretrain_autoencoder_and_gen_feed_def spec_layer_def seq_def lift_res_def
        bind_res_def call_dae_def modify_def ret_def append_encoding_w_def append_encoding_b_def
        Let_def split: sum.splits prod.splits)

lemma drop_eq_Cons_nth:
  assumes "drop k xs = a # rest"
  shows "k < length xs \<and> xs ! k = a \<and> drop (Suc k) xs = rest"
proof -
  have k: "k < length xs"
  proof (rule ccontr)
    assume "\<not> k < length xs"
    then have "drop k xs = []" by simp
    with assms show False by simp
  qed
  from Cons_nth_drop_Suc [OF k] assms show ?thesis
    using k by simp
qed

lemma loop_refines_ok:
  assumes "drop k (autoencoders (obj st)) = rest"
      and "spec_layers api k rest t v = Inr (evs, ws, bs, aes', ot, ov)"
  shows "pretrain_loop api [k..<k + length rest] (t, v) st =
           (Inr (ot, ov),
            st\<lparr>effects := effects st @ evs,
               obj := (obj st)\<lparr>encoding_w := encoding_w (obj st) @ map NdArray ws,
                               encoding_b := encoding_b (obj st) @ map NdArray bs,
                               autoencoders := take k (autoencoders (obj st)) @ aes'\<rparr>\<rparr>)"
  using assms
proof (induction rest arbitrary: k st t v evs ws bs aes' ot ov)
  case Nil
  then show ?case by simp
next
  case (Cons ae rest)
  from Cons.prems(1) have k: "k < length (autoencoders (obj st))"
    and ae: "autoencoders (obj st) ! k = ae"
    and rest: "drop (Suc k) (autoencoders (obj st)) = rest"
    using drop_eq_Cons_nth [of k "autoencoders (obj st)" ae rest] by simp_all
  obtain n ae1 w b t1 v1 where L: "spec_layer api ae t v = Inr (n, ae1, w, b, t1, v1)"
    using Cons.prems(2) by (auto split: sum.splits)
  obtain evs1 ws1 bs1 aes1 where
    R: "spec_layers api (Suc k) rest t1 v1 = Inr (evs1, ws1, bs1, aes1, ot, ov)"
    and evs: "evs = [Print_training_layer (int k + 1), Call_build_model k n, Call_fit k t v,
                     Call_get_model_parameters k, Call_transform k t, Call_transform k v,
                     Reset_default_graph] @ evs1"
    and ws: "ws = w # ws1" and bs: "bs = b # bs1" and aes: "aes' = ae1 # aes1"
    using Cons.prems(2) L by (auto split: sum.splits)
  let ?st1 = "st\<lparr>effects := effects st @ [Print_training_layer (int k + 1)]\<rparr>"
  let ?st2 = "?st1\<lparr>effects := effects ?st1 @ [Call_build_model k n, Call_fit k t v,
                    Call_get_model_parameters k, Call_transform k t, Call_transform k v],
               obj := (obj ?st1)\<lparr>encoding_w := encoding_w (obj ?st1) @ [NdArray w],
                               encoding_b := encoding_b (obj ?st1) @ [NdArray b],
                               autoencoders := (autoencoders (obj ?st1))[k := ae1]\<rparr>\<rparr>"
  let ?st3 = "?st2\<lparr>effects := effects ?st2 @ [Reset_default_graph]\<rparr>"
  have step: "pretrain_autoencoder_and_gen_feed api k t v ?st1 = (Inr (t1, v1), ?st2)"
    using layer_refines_ok [of k ?st1 api t v n ae1 w b t1 v1] k ae L by simp
  have d: "drop (Suc k) (autoencoders (obj ?st3)) = rest"
    using rest by simp
  have IH: "pretrain_loop api [Suc k..<Suc k + length rest] (t1, v1) ?st3 =
           (Inr (ot, ov),
            ?st3\<lparr>effects := effects ?st3 @ evs1,
               obj := (obj ?st3)\<lparr>encoding_w := encoding_w (obj ?st3) @ map NdArray ws1,
                               encoding_b := encoding_b (obj ?st3) @ map NdArray bs1,
                               autoencoders := take (Suc k) (autoencoders (obj ?st3)) @ aes1\<rparr>\<rparr>)"
    by (rule Cons.IH [OF d R])
  have upt: "[k..<k + length (ae # rest)] = k # [Suc k..<Suc k + length rest]"
    by (subst upt_rec) simp
  have tk: "take (Suc k) ((autoencoders (obj st))[k := ae1]) = take k (autoencoders (obj st)) @ [ae1]"
    using k by (simp add: take_Suc_conv_app_nth)
  show ?case
    unfolding upt using IH
    by (simp add: step Let_def evs ws bs aes tk del: upt_Suc)
qed

lemma loop_refines_err:
  assumes "drop k (autoencoders (obj st)) = rest"
      and "spec_layers api k rest t v = Inl e"
  shows "fst (pretrain_loop api [k..<k + length rest] (t, v) st) = Inl e"
  using assms
proof (induction rest arbitrary: k st t v)
  case Nil
  then show ?case by simp
next
  case (Cons ae rest)
  from Cons.prems(1) have k: "k < length (autoencoders (obj st))"
    and ae: "autoencoders (obj st) ! k = ae"
    and rest: "drop (Suc k) (autoencoders (obj st)) = rest"
    using drop_eq_Cons_nth [of k "autoencoders (obj st)" ae rest] by simp_all
  have upt: "[k..<k + length (ae # rest)] = k # [Suc k..<Suc k + length rest]"
    by (subst upt_rec) simp
  let ?st1 = "st\<lparr>effects := effects st @ [Print_training_layer (int k + 1)]\<rparr>"
  show ?case
  proof (cases "spec_layer api ae t v")
    case (Inl e')
    then have "e' = e" using Cons.prems(2) by simp
    then have "fst (pretrain_autoencoder_and_gen_feed api k t v ?st1) = Inl e"
      using layer_refines_err [of k ?st1 api t v e'] k ae Inl by simp
    then show ?thesis
      unfolding upt
      by (cases "pretrain_autoencoder_and_gen_feed api k t v ?st1")
         (simp add: Let_def del: upt_Suc)
  next
    case (Inr p)
    obtain n ae1 w b t1 v1 where p: "p = (n, ae1, w, b, t1, v1)"
      by (cases p) auto
    have R: "spec_layers api (Suc k) rest t1 v1 = Inl e"
      using Cons.prems(2) Inr p by (auto split: sum.splits)
    let ?st2 = "?st1\<lparr>effects := effects ?st1 @ [Call_build_model k n, Call_fit k t v,
                    Call_get_model_parameters k, Call_transform k t, Call_transform k v],
               obj := (obj ?st1)\<lparr>encoding_w := encoding_w (obj ?st1) @ [NdArray w],
                               encoding_b := encoding_b (obj ?st1) @ [NdArray b],
                               autoencoders := (autoencoders (obj ?st1))[k := ae1]\<rparr>\<rparr>"
    let ?st3 = "?st2\<lparr>effects := effects ?st2 @ [Reset_default_graph]\<rparr>"
    have step: "pretrain_autoencoder_and_gen_feed api k t v ?st1 = (Inr (t1, v1), ?st2)"
      using layer_refines_ok [of k ?st1 api t v n ae1 w b t1 v1] k ae Inr p by simp
    have d: "drop (Suc k) (autoencoders (obj ?st3)) = rest"
      using rest by simp
    have "fst (pretrain_loop api [Suc k..<Suc k + length rest] (t1, v1) ?st3) = Inl e"
      by (rule Cons.IH [OF d R])
    then show ?thesis
      unfolding upt using step by (simp add: Let_def del: upt_Suc)
  qed
qed

lemma spec_layers_lengths:
  "spec_layers api k aes t v = Inr (evs, ws, bs, aes', ot, ov) \<Longrightarrow>
     length ws = length aes \<and> length bs = length aes \<and> length aes' = length aes
     \<and> length evs = 7 * length aes"
  by (induction aes arbitrary: k t v evs ws bs aes' ot ov) (auto split: sum.splits)

lemma pretrain_returns:
  assumes "pretrain api t v st = (Inr out, st')"
  shows "\<exists>evs ws bs aes'.
           spec_layers api 0 (autoencoders (obj st)) t v = Inr (evs, ws, bs, aes', out) \<and>
           st' = st\<lparr>effects := effects st @ evs,
                    obj := (obj st)\<lparr>encoding_w := encoding_w (obj st) @ map NdArray ws,
                                    encoding_b := encoding_b (obj st) @ map NdArray bs,
                                    autoencoders := aes'\<rparr>\<rparr>"
proof (cases "spec_layers api 0 (autoencoders (obj st)) t v")
  case (Inl e)
  from loop_refines_err [of 0 st "autoencoders (obj st)" api t v e] Inl assms
  show ?thesis by (simp add: pretrain_def)
next
  case (Inr p)
  obtain evs ws bs aes' ot ov where p: "p = (evs, ws, bs, aes', ot, ov)"
    by (cases p) auto
  from loop_refines_ok [of 0 st "autoencoders (obj st)" api t v evs ws bs aes' ot ov] Inr p assms
  show ?thesis by (simp add: pretrain_def)
qed

lemma pretrain_lengths:
  assumes "pretrain api t v st = (Inr out, st')"
  shows "length (autoencoders (obj st')) = length (autoencoders (obj st))
       \<and> length (encoding_w (obj st')) = length (encoding_w (obj st)) + length (autoencoders (obj st))
       \<and> length (encoding_b (obj st')) = length (encoding_b (obj st)) + length (autoencoders (obj st))
       \<and> take (length (encoding_w (obj st))) (encoding_w (obj st')) = encoding_w (obj st)
       \<and> take (length (encoding_b (obj st))) (encoding_b (obj st')) = encoding_b (obj st)"
proof -
  from pretrain_returns [OF assms] obtain evs ws bs aes' where
    S: "spec_layers api 0 (autoencoders (obj st)) t v = Inr (evs, ws, bs, aes', out)"
    and st': "st' = st\<lparr>effects := effects st @ evs,
                    obj := (obj st)\<lparr>encoding_w := encoding_w (obj st) @ map NdArray ws,
                                    encoding_b := encoding_b (obj st) @ map NdArray bs,
                                    autoencoders := aes'\<rparr>\<rparr>"
    by blast
  obtain ot ov where out: "out = (ot, ov)" by (cases out) auto
  from spec_layers_lengths [of api 0 "autoencoders (obj st)" t v evs ws bs aes' ot ov] S out
  show ?thesis by (simp add: st')
qed

lemma pretrain_calls_lengths:
  "pretrain_calls api inputs st = (Inr (), st') \<Longrightarrow>
     length (autoencoders (obj st')) = length (autoencoders (obj st))
     \<and> length (encoding_w (obj st')) =
         length (encoding_w (obj st)) + length inputs * length (autoencoders (obj st))
     \<and> length (encoding_b (obj st')) =
         length (encoding_b (obj st)) + length inputs * length (autoencoders (obj st))"
proof (induction inputs arbitrary: st)
  case Nil
  then show ?case by simp
next
  case (Cons tv rest)
  obtain r st1 where P: "pretrain api (fst tv) (snd tv) st = (r, st1)"
    by (cases "pretrain api (fst tv) (snd tv) st") auto
  with Cons.prems obtain out where r: "r = Inr out"
    and R: "pretrain_calls api rest st1 = (Inr (), st')"
    by (cases r) auto
  from pretrain_lengths [of api "fst tv" "snd tv" st out st1] P r Cons.IH [OF R]
  show ?case by (simp add: algebra_simps)
qed

text \<open>
  C1. \<^verbatim>\<open>pretrain\<close> does what the layer-wise algorithm \<open>spec_layers\<close> says, layer by
  layer from position 0: it returns (or raises) what the algorithm does, and when the
  algorithm runs through it leaves the object with the algorithm's effects appended in
  order, one weight and one bias per layer appended to the stored lists, and the
  autoencoders as fitted. By the definition of \<open>spec_layers\<close>, the effects of layer \<open>l\<close>
  are: the printed line, \<^verbatim>\<open>build_model\<close> with the width \<^verbatim>\<open>shape[1]\<close> of the current
  train data, \<^verbatim>\<open>fit\<close> on the current train and validation data,
  \<^verbatim>\<open>get_model_parameters\<close>, \<^verbatim>\<open>transform\<close> of the train and then of the validation data
  by the fitted autoencoder, and the reset of the default graph; the data of layer
  \<open>l + 1\<close> are the two transformed sets, and the value returned is the pair transformed by
  the last layer. The autoencoder of a layer is the one \<^verbatim>\<open>__init__\<close> made for it:
  \<^verbatim>\<open>pretrain\<close> calls its \<^verbatim>\<open>build_model\<close>, it does not construct a new object.
\<close>

theorem pretrain_is_layerwise:
  "fst (pretrain api train_set validation_set st) =
     map_sum id (\<lambda>(evs, ws, bs, aes', out). out)
       (spec_layers api 0 (autoencoders (obj st)) train_set validation_set)
   \<and> (case spec_layers api 0 (autoencoders (obj st)) train_set validation_set of
        Inl e \<Rightarrow> True
      | Inr (evs, ws, bs, aes', out) \<Rightarrow>
          snd (pretrain api train_set validation_set st) =
            st\<lparr>effects := effects st @ evs,
               obj := (obj st)\<lparr>encoding_w := encoding_w (obj st) @ map NdArray ws,
                               encoding_b := encoding_b (obj st) @ map NdArray bs,
                               autoencoders := aes'\<rparr>\<rparr>)"
proof (cases "spec_layers api 0 (autoencoders (obj st)) train_set validation_set")
  case (Inl e)
  from loop_refines_err [of 0 st "autoencoders (obj st)" api train_set validation_set e] Inl
  show ?thesis by (simp add: pretrain_def)
next
  case (Inr p)
  obtain evs ws bs aes' ot ov where p: "p = (evs, ws, bs, aes', ot, ov)"
    by (cases p) auto
  from loop_refines_ok [of 0 st "autoencoders (obj st)" api train_set validation_set
         evs ws bs aes' ot ov] Inr p
  show ?thesis by (simp add: pretrain_def)
qed

lemma pretrain_calls_refines:
  "pretrain_calls api inputs st = (Inr (), st') \<Longrightarrow>
     \<exists>ws bs. spec_calls api (autoencoders (obj st)) inputs = Inr (ws, bs, autoencoders (obj st'))
       \<and> encoding_w (obj st') = encoding_w (obj st) @ map NdArray ws
       \<and> encoding_b (obj st') = encoding_b (obj st) @ map NdArray bs"
proof (induction inputs arbitrary: st)
  case Nil
  then show ?case by auto
next
  case (Cons tv rest)
  obtain r st1 where P: "pretrain api (fst tv) (snd tv) st = (r, st1)"
    by (cases "pretrain api (fst tv) (snd tv) st") auto
  with Cons.prems obtain out where r: "r = Inr out"
    and R: "pretrain_calls api rest st1 = (Inr (), st')"
    by (cases r) auto
  from pretrain_returns [OF P [unfolded r]] obtain evs ws bs aes' where
    S: "spec_layers api 0 (autoencoders (obj st)) (fst tv) (snd tv) = Inr (evs, ws, bs, aes', out)"
    and st1: "st1 = st\<lparr>effects := effects st @ evs,
                    obj := (obj st)\<lparr>encoding_w := encoding_w (obj st) @ map NdArray ws,
                                    encoding_b := encoding_b (obj st) @ map NdArray bs,
                                    autoencoders := aes'\<rparr>\<rparr>"
    by blast
  from Cons.IH [OF R] obtain ws' bs' where
    C: "spec_calls api (autoencoders (obj st1)) rest = Inr (ws', bs', autoencoders (obj st'))"
    and w: "encoding_w (obj st') = encoding_w (obj st1) @ map NdArray ws'"
    and b: "encoding_b (obj st') = encoding_b (obj st1) @ map NdArray bs'"
    by blast
  have a1: "autoencoders (obj st1) = aes'" by (simp add: st1)
  have "spec_calls api (autoencoders (obj st)) (tv # rest) = Inr (ws @ ws', bs @ bs', autoencoders (obj st'))"
    using S C a1 by simp
  moreover have "encoding_w (obj st') = encoding_w (obj st) @ map NdArray (ws @ ws')"
    using w by (simp add: st1)
  moreover have "encoding_b (obj st') = encoding_b (obj st) @ map NdArray (bs @ bs')"
    using b by (simp add: st1)
  ultimately show ?case by blast
qed

text \<open>
  C9. \<^verbatim>\<open>pretrain\<close> appends to \<^verbatim>\<open>encoding_w_\<close> and \<^verbatim>\<open>encoding_b_\<close> and never clears
  them. On an object as \<^verbatim>\<open>__init__\<close> returns it, after \<open>k\<close> calls of \<^verbatim>\<open>pretrain\<close>
  that returned, each list has \<open>k * len(layers)\<close> entries, and they are the encoding
  weights, respectively the encoding biases, that the layer-wise algorithm obtained
  from the fitted autoencoders in those calls, call after call and within a call in
  layer order (\<open>spec_calls\<close>). A further call that returns keeps those entries as a
  prefix and appends the weights, respectively the biases, of its own layers, one per
  configured layer and in layer order, which brings the length to
  \<open>(k + 1) * len(layers)\<close>. With \<open>k = 0\<close>: after exactly one call the lists hold the
  \<open>len(layers)\<close> weights and the \<open>len(layers)\<close> biases of that call.
\<close>

theorem pretrain_accumulates:
  assumes "init new_dae a = Inr s0"
      and "pretrain_calls api before \<lparr>obj = s0, effects = []\<rparr> = (Inr (), st)"
      and "pretrain api t v st = (Inr out, st')"
  shows "length (encoding_w (obj st)) = length before * length (layers a)
       \<and> length (encoding_b (obj st)) = length before * length (layers a)
       \<and> length (encoding_w (obj st')) = (length before + 1) * length (layers a)
       \<and> length (encoding_b (obj st')) = (length before + 1) * length (layers a)
       \<and> take (length (encoding_w (obj st))) (encoding_w (obj st')) = encoding_w (obj st)
       \<and> take (length (encoding_b (obj st))) (encoding_b (obj st')) = encoding_b (obj st)
       \<and> (\<exists>ws bs. spec_calls api (autoencoders s0) before = Inr (ws, bs, autoencoders (obj st))
             \<and> encoding_w (obj st) = map NdArray ws
             \<and> encoding_b (obj st) = map NdArray bs)
       \<and> (\<exists>evs ws bs aes'.
             spec_layers api 0 (autoencoders (obj st)) t v = Inr (evs, ws, bs, aes', out)
             \<and> length ws = length (layers a) \<and> length bs = length (layers a)
             \<and> encoding_w (obj st') = encoding_w (obj st) @ map NdArray ws
             \<and> encoding_b (obj st') = encoding_b (obj st) @ map NdArray bs)"
proof -
  note F = init_fresh [OF assms(1)]
  note L = pretrain_calls_lengths [OF assms(2)]
  note P = pretrain_lengths [OF assms(3)]
  from pretrain_calls_refines [OF assms(2)] F
  have k: "\<exists>ws bs. spec_calls api (autoencoders s0) before = Inr (ws, bs, autoencoders (obj st))
             \<and> encoding_w (obj st) = map NdArray ws
             \<and> encoding_b (obj st) = map NdArray bs"
    by simp
  from pretrain_returns [OF assms(3)] obtain evs ws bs aes' where
    S: "spec_layers api 0 (autoencoders (obj st)) t v = Inr (evs, ws, bs, aes', out)"
    and st': "st' = st\<lparr>effects := effects st @ evs,
                    obj := (obj st)\<lparr>encoding_w := encoding_w (obj st) @ map NdArray ws,
                                    encoding_b := encoding_b (obj st) @ map NdArray bs,
                                    autoencoders := aes'\<rparr>\<rparr>"
    by blast
  obtain ot ov where out: "out = (ot, ov)" by (cases out) auto
  from spec_layers_lengths [of api 0 "autoencoders (obj st)" t v evs ws bs aes' ot ov] S out L F
  have len: "length ws = length (layers a)" "length bs = length (layers a)"
    by simp_all
  have one: "\<exists>evs ws bs aes'.
             spec_layers api 0 (autoencoders (obj st)) t v = Inr (evs, ws, bs, aes', out)
             \<and> length ws = length (layers a) \<and> length bs = length (layers a)
             \<and> encoding_w (obj st') = encoding_w (obj st) @ map NdArray ws
             \<and> encoding_b (obj st') = encoding_b (obj st) @ map NdArray bs"
    using S len by (auto simp add: st')
  have lens: "length (encoding_w (obj st)) = length before * length (layers a)
       \<and> length (encoding_b (obj st)) = length before * length (layers a)
       \<and> length (encoding_w (obj st')) = (length before + 1) * length (layers a)
       \<and> length (encoding_b (obj st')) = (length before + 1) * length (layers a)
       \<and> take (length (encoding_w (obj st))) (encoding_w (obj st')) = encoding_w (obj st)
       \<and> take (length (encoding_b (obj st))) (encoding_b (obj st')) = encoding_b (obj st)"
    using F L P by (simp add: algebra_simps)
  from lens k one show ?thesis by (intro conjI) blast+
qed

theorem pretrain_accumulates_witness:
  "init toy_new_dae two_layer_args = Inr (obj toy_fresh)
   \<and> pretrain_calls toy_api [([5, 784], [2, 784])] toy_fresh = (Inr (), toy_after_one)
   \<and> pretrain toy_api [5, 784] [2, 784] toy_after_one = (Inr ([5, 50], [2, 50]), toy_after_two)
   \<and> length (layers two_layer_args) = 2
   \<and> length (encoding_w (obj toy_after_one)) = 2
   \<and> length (encoding_b (obj toy_after_one)) = 2
   \<and> length (encoding_w (obj toy_after_two)) = 4
   \<and> length (encoding_b (obj toy_after_two)) = 4
   \<and> encoding_w (obj toy_after_one) = [NdArray [784, 100], NdArray [100, 50]]
   \<and> encoding_b (obj toy_after_one) = [NdArray [100], NdArray [50]]
   \<and> encoding_w (obj toy_after_two) =
       [NdArray [784, 100], NdArray [100, 50], NdArray [784, 100], NdArray [100, 50]]
   \<and> encoding_b (obj toy_after_two) = [NdArray [100], NdArray [50], NdArray [100], NdArray [50]]"
proof -
  have h1: "init toy_new_dae two_layer_args = Inr (obj toy_fresh)"
    by (simp add: toy_eval)
  have f: "toy_fresh = \<lparr>obj = obj toy_fresh, effects = []\<rparr>"
    by (simp add: toy_fresh_def)
  have e1: "fst (pretrain_calls toy_api [([5, 784], [2, 784])] toy_fresh) = Inr ()"
    by (simp add: toy_eval split: prod.splits sum.splits)
  have h2: "pretrain_calls toy_api [([5, 784], [2, 784])] \<lparr>obj = obj toy_fresh, effects = []\<rparr>
              = (Inr (), toy_after_one)"
    using e1 f by (simp add: toy_after_one_def prod_eq_iff)
  have e3: "fst (pretrain toy_api [5, 784] [2, 784] toy_after_one) = Inr ([5, 50], [2, 50])"
    by (simp add: toy_after_one_def toy_eval)
  have h3: "pretrain toy_api [5, 784] [2, 784] toy_after_one
              = (Inr ([5, 50], [2, 50]), toy_after_two)"
    using e3 by (simp add: toy_after_two_def prod_eq_iff)
  have l: "length (layers two_layer_args) = 2"
    by (simp add: toy_eval)
  have w: "encoding_w (obj toy_after_one) = [NdArray [784, 100], NdArray [100, 50]]"
          "encoding_b (obj toy_after_one) = [NdArray [100], NdArray [50]]"
    by (simp_all add: toy_after_one_def toy_eval)
  have w2: "encoding_w (obj toy_after_two) =
       [NdArray [784, 100], NdArray [100, 50], NdArray [784, 100], NdArray [100, 50]]"
     "encoding_b (obj toy_after_two) = [NdArray [100], NdArray [50], NdArray [100], NdArray [50]]"
    by (simp_all add: toy_after_two_def toy_after_one_def toy_eval)
  from pretrain_accumulates [OF h1 h2 h3] h1 h2 h3 l w w2 f show ?thesis
    by simp
qed

section \<open>What build_model builds\<close>

lemma getitem_0:
  "getitem xs 0 = (if 0 < length xs then Inr (xs ! 0) else Inl IndexError)"
  using getitem_nat [of xs 0] by simp

lemma getitem_pred:
  "0 < l \<Longrightarrow> getitem xs (int l - 1) = (if l - 1 < length xs then Inr (xs ! (l - 1)) else Inl IndexError)"
  using getitem_nat [of xs "l - 1"] by (simp add: of_nat_diff)

lemma no_pretrain_variables_ok:
  "l < length (layers s) \<Longrightarrow>
     no_pretrain_variables n_features l s =
       (Inr (), s\<lparr>encoding_w := encoding_w s @ [fresh_weight n_features (layers s) l],
                  encoding_b := encoding_b s @ [fresh_bias (layers s) l]\<rparr>)"
  by (cases "l = 0")
     (simp_all add: no_pretrain_variables_def seq_def lift_res_def modify_def getitem_nat getitem_0
        getitem_pred fresh_weight_def fresh_bias_def)

lemma no_pretrain_loop_ok:
  "\<forall>l\<in>set ls. l < length (layers s) \<Longrightarrow>
     no_pretrain_loop n_features ls s =
       (Inr (), s\<lparr>encoding_w := encoding_w s @ map (fresh_weight n_features (layers s)) ls,
                  encoding_b := encoding_b s @ map (fresh_bias (layers s)) ls\<rparr>)"
  by (induction ls arbitrary: s) (simp_all add: no_pretrain_variables_ok)

lemma create_variables_no_pretrain_ok:
  "create_variables_no_pretrain n_features s =
     (Inr (), s\<lparr>encoding_w := map (fresh_weight n_features (layers s)) [0..<length (layers s)],
                encoding_b := map (fresh_bias (layers s)) [0..<length (layers s)]\<rparr>)"
  by (simp add: create_variables_no_pretrain_def no_pretrain_loop_ok)

lemma layer_activation_known:
  "known_activation act \<Longrightarrow> layer_activation act y = Some (activation_node act y)"
  by (auto simp add: known_activation_def layer_activation_def activation_node_def)

lemma layer_activation_unknown:
  "\<not> known_activation act \<Longrightarrow> layer_activation act y = None"
  by (auto simp add: known_activation_def layer_activation_def)

lemma encoding_layer_ok:
  assumes "known_activation (finetune_act_func s)" and "keep_prob s = Some kp"
      and "l < length (encoding_w s)" and "l < length (encoding_b s)"
  shows "encoding_layer l (Some x) s =
           (Inr (Some (Dropout (activation_node (finetune_act_func s)
                          (Add (Matmul x (encoding_w s ! l)) (encoding_b s ! l))) kp)),
            s\<lparr>layer_nodes := layer_nodes s @
                 [Dropout (activation_node (finetune_act_func s)
                          (Add (Matmul x (encoding_w s ! l)) (encoding_b s ! l))) kp]\<rparr>)"
  using assms
  by (simp add: encoding_layer_def seq_def lift_res_def modify_def ret_def getitem_nat getitem_0
      tf_matmul_def tf_nn_dropout_def tf_tensor_arg_def bind_res_def layer_activation_known)

lemma encoding_layer_err:
  assumes "\<not> (known_activation (finetune_act_func s) \<and> keep_prob s \<noteq> None \<and> nt \<noteq> None
             \<and> l < length (encoding_w s) \<and> l < length (encoding_b s))"
  shows "\<exists>e. encoding_layer l nt s = (Inl e, s)"
  using assms
  by (auto simp add: encoding_layer_def seq_def lift_res_def modify_def ret_def getitem_nat getitem_0
      tf_matmul_def tf_nn_dropout_def tf_tensor_arg_def bind_res_def layer_activation_unknown
      layer_activation_known
      split: option.splits)

lemma encoding_layer_unknown_activation:
  assumes "\<not> known_activation (finetune_act_func s)"
      and "keep_prob s = Some kp" and "l < length (encoding_w s)" and "l < length (encoding_b s)"
  shows "encoding_layer l (Some x) s = (Inl TensorFlowError, s)"
  using assms
  by (simp add: encoding_layer_def seq_def lift_res_def modify_def ret_def getitem_nat getitem_0
      tf_matmul_def tf_nn_dropout_def tf_tensor_arg_def bind_res_def layer_activation_unknown)

lemma upt_add_Suc: "[k..<k + Suc m] = k # [Suc k..<Suc k + m]"
  by (subst upt_rec) simp

lemma encoding_layers_loop_ok:
  assumes "known_activation (finetune_act_func s)" and "keep_prob s = Some kp"
      and "k + m \<le> length (encoding_w s)" and "k + m \<le> length (encoding_b s)"
  shows "encoding_layers_loop [k..<k + m] (Some x) s =
           (Inr (Some (last (x # encoder_nodes (finetune_act_func s) kp x
                                (take m (drop k (zip (encoding_w s) (encoding_b s))))))),
            s\<lparr>layer_nodes := layer_nodes s @
                 encoder_nodes (finetune_act_func s) kp x
                   (take m (drop k (zip (encoding_w s) (encoding_b s))))\<rparr>)"
  using assms
proof (induction m arbitrary: k x s)
  case 0
  then show ?case by simp
next
  case (Suc m)
  let ?zs = "zip (encoding_w s) (encoding_b s)"
  let ?d = "Dropout (activation_node (finetune_act_func s)
                          (Add (Matmul x (encoding_w s ! k)) (encoding_b s ! k))) kp"
  let ?s1 = "s\<lparr>layer_nodes := layer_nodes s @ [?d]\<rparr>"
  have k: "k < length (encoding_w s)" "k < length (encoding_b s)"
    using Suc.prems by simp_all
  have step: "encoding_layer k (Some x) s = (Inr (Some ?d), ?s1)"
    using encoding_layer_ok [OF Suc.prems(1,2) k] .
  have tk: "take (Suc m) (drop k ?zs) = (encoding_w s ! k, encoding_b s ! k) # take m (drop (Suc k) ?zs)"
    using k Cons_nth_drop_Suc [of k ?zs] by (metis length_zip min_less_iff_conj nth_zip take_Suc_Cons)
  have IH: "encoding_layers_loop [Suc k..<Suc k + m] (Some ?d) ?s1 =
           (Inr (Some (last (?d # encoder_nodes (finetune_act_func ?s1) kp ?d
                                (take m (drop (Suc k) (zip (encoding_w ?s1) (encoding_b ?s1))))))),
            ?s1\<lparr>layer_nodes := layer_nodes ?s1 @
                 encoder_nodes (finetune_act_func ?s1) kp ?d
                   (take m (drop (Suc k) (zip (encoding_w ?s1) (encoding_b ?s1))))\<rparr>)"
    using Suc.prems by (intro Suc.IH) simp_all
  show ?case
    unfolding upt_add_Suc using IH by (simp add: step tk del: upt_Suc)
qed

lemma encoding_layers_loop_err:
  assumes "0 < m"
      and "\<not> (known_activation (finetune_act_func s) \<and> keep_prob s \<noteq> None \<and> nt \<noteq> None
             \<and> k + m \<le> length (encoding_w s) \<and> k + m \<le> length (encoding_b s))"
  shows "\<exists>e s'. encoding_layers_loop [k..<k + m] nt s = (Inl e, s')"
  using assms
proof (induction m arbitrary: k nt s)
  case 0
  then show ?case by simp
next
  case (Suc m)
  show ?case
  proof (cases "known_activation (finetune_act_func s) \<and> keep_prob s \<noteq> None \<and> nt \<noteq> None
             \<and> k < length (encoding_w s) \<and> k < length (encoding_b s)")
    case False
    from encoding_layer_err [OF False] show ?thesis
      unfolding upt_add_Suc by auto
  next
    case True
    then obtain kp x where kp: "keep_prob s = Some kp" and x: "nt = Some x" by auto
    let ?d = "Dropout (activation_node (finetune_act_func s)
                          (Add (Matmul x (encoding_w s ! k)) (encoding_b s ! k))) kp"
    let ?s1 = "s\<lparr>layer_nodes := layer_nodes s @ [?d]\<rparr>"
    have step: "encoding_layer k (Some x) s = (Inr (Some ?d), ?s1)"
      using encoding_layer_ok [of s kp k x] True kp by simp
    have m: "0 < m" using Suc.prems True by (cases m) auto
    have "\<not> (known_activation (finetune_act_func ?s1) \<and> keep_prob ?s1 \<noteq> None \<and> Some ?d \<noteq> None
             \<and> Suc k + m \<le> length (encoding_w ?s1) \<and> Suc k + m \<le> length (encoding_b ?s1))"
      using Suc.prems(2) True x by simp
    from Suc.IH [OF m this] show ?thesis
      unfolding upt_add_Suc using step x by (simp del: upt_Suc)
  qed
qed

lemma pretrain_variables_cases:
  "pretrain_variables l s =
     (if l < length (encoding_w s) \<and> l < length (encoding_b s)
      then (Inr (), s\<lparr>encoding_w := (encoding_w s)[l := Variable (encoding_w s ! l)
                                                      (Some (''enc-w-'' @ str_nat l))],
                      encoding_b := (encoding_b s)[l := Variable (encoding_b s ! l)
                                                      (Some (''enc-b-'' @ str_nat l))]\<rparr>)
      else if l < length (encoding_w s)
      then (Inl IndexError, s\<lparr>encoding_w := (encoding_w s)[l := Variable (encoding_w s ! l)
                                                      (Some (''enc-w-'' @ str_nat l))]\<rparr>)
      else (Inl IndexError, s))"
  by (simp add: pretrain_variables_def seq_def lift_res_def modify_def getitem_nat getitem_0)

lemma only_encoding_trans:
  assumes "s1 = s0\<lparr>encoding_w := encoding_w s1, encoding_b := encoding_b s1\<rparr>"
      and "s2 = s1\<lparr>encoding_w := encoding_w s2, encoding_b := encoding_b s2\<rparr>"
  shows "s2 = s0\<lparr>encoding_w := encoding_w s2, encoding_b := encoding_b s2\<rparr>"
proof -
  have "s2 = (s0\<lparr>encoding_w := encoding_w s1, encoding_b := encoding_b s1\<rparr>)
               \<lparr>encoding_w := encoding_w s2, encoding_b := encoding_b s2\<rparr>"
    using assms by simp
  then show ?thesis by simp
qed

lemma pretrain_variables_loop_frame:
  "pretrain_variables_loop ls s = (out, s') \<Longrightarrow>
     s' = s\<lparr>encoding_w := encoding_w s', encoding_b := encoding_b s'\<rparr>
     \<and> length (encoding_w s') = length (encoding_w s)
     \<and> length (encoding_b s') = length (encoding_b s)"
proof (induction ls arbitrary: s)
  case Nil
  then show ?case by auto
next
  case (Cons l ls)
  obtain r s1 where P: "pretrain_variables l s = (r, s1)"
    by (cases "pretrain_variables l s") auto
  then have f1: "s1 = s\<lparr>encoding_w := encoding_w s1, encoding_b := encoding_b s1\<rparr>
     \<and> length (encoding_w s1) = length (encoding_w s)
     \<and> length (encoding_b s1) = length (encoding_b s)"
    by (auto simp add: pretrain_variables_cases split: if_splits)
  show ?case
  proof (cases r)
    case (Inl e)
    then show ?thesis using Cons.prems P f1 by auto
  next
    case (Inr u)
    then have "pretrain_variables_loop ls s1 = (out, s')" using Cons.prems P by simp
    from Cons.IH [OF this] f1 only_encoding_trans [of s1 s s'] show ?thesis
      by simp
  qed
qed

lemma pretrain_variables_loop_ok:
  "pretrain_variables_loop [k..<k + m] s = (Inr (), s') \<Longrightarrow>
     \<forall>l<k. is_variable (encoding_w s ! l) \<and> is_variable (encoding_b s ! l) \<Longrightarrow>
     k \<le> length (encoding_w s) \<and> k \<le> length (encoding_b s) \<Longrightarrow>
     k + m \<le> length (encoding_w s') \<and> k + m \<le> length (encoding_b s')
     \<and> (\<forall>l<k + m. is_variable (encoding_w s' ! l) \<and> is_variable (encoding_b s' ! l))"
proof (induction m arbitrary: k s)
  case 0
  then show ?case by simp
next
  case (Suc m)
  obtain r s1 where P: "pretrain_variables k s = (r, s1)"
    by (cases "pretrain_variables k s") auto
  with Suc.prems(1) have r: "r = Inr ()"
    and R: "pretrain_variables_loop [Suc k..<Suc k + m] s1 = (Inr (), s')"
    unfolding upt_add_Suc by (auto split: sum.splits)
  from P r have k: "k < length (encoding_w s)" "k < length (encoding_b s)"
    and s1: "s1 = s\<lparr>encoding_w := (encoding_w s)[k := Variable (encoding_w s ! k)
                                                      (Some (''enc-w-'' @ str_nat k))],
                      encoding_b := (encoding_b s)[k := Variable (encoding_b s ! k)
                                                      (Some (''enc-b-'' @ str_nat k))]\<rparr>"
    by (auto simp add: pretrain_variables_cases split: if_splits)
  have "\<forall>l<Suc k. is_variable (encoding_w s1 ! l) \<and> is_variable (encoding_b s1 ! l)"
    using Suc.prems(2) k by (auto simp add: s1 nth_list_update is_variable_def less_Suc_eq)
  moreover have "Suc k \<le> length (encoding_w s1) \<and> Suc k \<le> length (encoding_b s1)"
    using k by (simp add: s1)
  ultimately show ?case using Suc.IH [OF R] by simp
qed

lemma getitem_last:
  "getitem xs (- 1) = (if xs = [] then Inl IndexError else Inr (last xs))"
proof (cases "xs = []")
  case True
  then show ?thesis by (simp add: getitem_def)
next
  case False
  then have l: "Suc 0 \<le> length xs" by (cases xs) auto
  have "nat (int (length xs) + - 1) = length xs - 1" by simp
  then show ?thesis using False l by (simp add: getitem_def last_conv_nth)
qed

lemma create_encoding_layers_ok:
  assumes "known_activation (finetune_act_func s)" and "keep_prob s = Some kp"
      and "input_data s = Some x"
      and "length (layers s) \<le> length (encoding_w s)"
      and "length (layers s) \<le> length (encoding_b s)"
  shows "create_encoding_layers s =
           (Inr (Some (last (x # encoder_nodes (finetune_act_func s) kp x
                                (take (length (layers s)) (zip (encoding_w s) (encoding_b s)))))),
            s\<lparr>layer_nodes := encoder_nodes (finetune_act_func s) kp x
                   (take (length (layers s)) (zip (encoding_w s) (encoding_b s)))\<rparr>)"
  using encoding_layers_loop_ok [of "s\<lparr>layer_nodes := []\<rparr>" kp 0 "length (layers s)" x] assms
  by (simp add: create_encoding_layers_def)

lemma create_encoding_layers_err:
  assumes "layers s \<noteq> []"
      and "\<not> (known_activation (finetune_act_func s) \<and> keep_prob s \<noteq> None \<and> input_data s \<noteq> None
             \<and> length (layers s) \<le> length (encoding_w s)
             \<and> length (layers s) \<le> length (encoding_b s))"
  shows "\<exists>e s'. create_encoding_layers s = (Inl e, s')"
  using encoding_layers_loop_err [of "length (layers s)" "s\<lparr>layer_nodes := []\<rparr>" "input_data s" 0] assms
  by (simp add: create_encoding_layers_def)

lemma create_encoding_layers_empty:
  "layers s = [] \<Longrightarrow> create_encoding_layers s = (Inr (input_data s), s\<lparr>layer_nodes := []\<rparr>)"
  by (simp add: create_encoding_layers_def)

lemma create_softmax_layer_empty:
  "layers s = [] \<Longrightarrow> create_softmax_layer last_layer n_classes s = (Inl IndexError, s)"
  by (simp add: create_softmax_layer_def seq_def lift_res_def getitem_last)

lemma create_softmax_layer_ok:
  "layers s \<noteq> [] \<Longrightarrow>
     create_softmax_layer (Some t) n_classes s =
       (Inr (),
        s\<lparr>softmax_W := Some (Variable (Truncated_normal [last (layers s), n_classes] 0.01)
                               (Some ''sm-weigths'')),
          softmax_b := Some (Variable (Constant 0.01 [n_classes]) (Some ''sm-biases'')),
          softmax_out := Some (Add (Matmul t
              (Variable (Truncated_normal [last (layers s), n_classes] 0.01) (Some ''sm-weigths'')))
              (Variable (Constant 0.01 [n_classes]) (Some ''sm-biases''))),
          layer_nodes := layer_nodes s @ [Add (Matmul t
              (Variable (Truncated_normal [last (layers s), n_classes] 0.01) (Some ''sm-weigths'')))
              (Variable (Constant 0.01 [n_classes]) (Some ''sm-biases''))]\<rparr>)"
  by (simp add: create_softmax_layer_def seq_def lift_res_def modify_def getitem_last
      tf_matmul_def tf_tensor_arg_def bind_res_def)

lemma attach_nodes_ok:
  assumes "softmax_out s = Some logits" and "input_labels s = Some y"
  shows "seq (\<lambda>s. create_cost_function_node (finetune_loss_func s) (softmax_out s)
                 (input_labels s) s) (\<lambda>_.
         seq (\<lambda>s. create_train_step_node (finetune_opt s) (finetune_learning_rate s)
                 (momentum s) s) (\<lambda>_.
         create_test_node)) s =
         (Inr (),
          s\<lparr>cost := Some (Cost_node (finetune_loss_func s) logits y),
            train_step := Some (Train_step (finetune_opt s) (finetune_learning_rate s)
                                   (momentum s) (Cost_node (finetune_loss_func s) logits y)),
            model_predictions := Some (Argmax logits 1),
            accuracy := Some (Reduce_mean (Cast (Equal (Argmax logits 1) (Argmax y 1)) ''float''))\<rparr>)"
  using assms
  by (simp add: create_cost_function_node_def create_train_step_node_def create_test_node_def
      seq_def lift_res_def modify_def tf_tensor_arg_def tf_argmax_def bind_res_def)

lemma build_model_after_variables:
  assumes "create_variables n_features (create_placeholders n_features n_classes s) = (Inr (), s1)"
      and "s1 = (create_placeholders n_features n_classes s)\<lparr>encoding_w := ws, encoding_b := bs\<rparr>"
      and "layers s \<noteq> []" and "known_activation (finetune_act_func s)"
      and "length (layers s) \<le> length ws" and "length (layers s) \<le> length bs"
  shows "build_model n_features n_classes s = (Inr (), built_graph n_features n_classes ws bs s)"
proof -
  let ?hidden = "encoder_nodes (finetune_act_func s) keep_probs (x_input n_features)
                     (take (length (layers s)) (zip ws bs))"
  have E: "create_encoding_layers s1 =
             (Inr (Some (last (x_input n_features # ?hidden))), s1\<lparr>layer_nodes := ?hidden\<rparr>)"
    using create_encoding_layers_ok [of s1 keep_probs "x_input n_features"] assms(2-6)
    by (simp add: create_placeholders_def keep_probs_def x_input_def)
  let ?s2 = "s1\<lparr>layer_nodes := ?hidden\<rparr>"
  let ?sm_W = "Variable (Truncated_normal [last (layers s), n_classes] 0.01) (Some ''sm-weigths'')"
  let ?sm_b = "Variable (Constant 0.01 [n_classes]) (Some ''sm-biases'')"
  let ?logits = "Add (Matmul (last (x_input n_features # ?hidden)) ?sm_W) ?sm_b"
  let ?s3 = "?s2\<lparr>softmax_W := Some ?sm_W, softmax_b := Some ?sm_b, softmax_out := Some ?logits,
                  layer_nodes := layer_nodes ?s2 @ [?logits]\<rparr>"
  have S: "create_softmax_layer (Some (last (x_input n_features # ?hidden))) n_classes ?s2
             = (Inr (), ?s3)"
    using create_softmax_layer_ok [of ?s2 "last (x_input n_features # ?hidden)" n_classes] assms(2,3)
    by (simp add: create_placeholders_def)
  have A: "seq (\<lambda>s. create_cost_function_node (finetune_loss_func s) (softmax_out s)
                 (input_labels s) s) (\<lambda>_.
         seq (\<lambda>s. create_train_step_node (finetune_opt s) (finetune_learning_rate s)
                 (momentum s) s) (\<lambda>_.
         create_test_node)) ?s3 = (Inr (), built_graph n_features n_classes ws bs s)"
    using attach_nodes_ok [of ?s3 ?logits "y_input n_classes"] assms(2)
    by (simp add: create_placeholders_def built_graph_def Let_def y_input_def x_input_def
        keep_probs_def)
  show ?thesis
    using assms(1) E S A
    by (simp add: build_model_def seq_def [of "modify f" for f] seq_def [of "create_variables n" for n]
        seq_def [of create_encoding_layers] seq_def [of "create_softmax_layer a b" for a b] modify_def)
qed

lemma create_encoding_layers_unknown:
  assumes "\<not> known_activation (finetune_act_func s)" and "layers s \<noteq> []"
  shows "\<exists>e. create_encoding_layers s = (Inl e, s\<lparr>layer_nodes := []\<rparr>)"
proof -
  obtain m where m: "length (layers s) = Suc m"
    using assms(2) by (cases "layers s") auto
  have "\<exists>e. encoding_layer 0 (input_data s) (s\<lparr>layer_nodes := []\<rparr>) = (Inl e, s\<lparr>layer_nodes := []\<rparr>)"
    using encoding_layer_err [of "s\<lparr>layer_nodes := []\<rparr>" "input_data s" 0] assms(1) by simp
  then show ?thesis
    using upt_add_Suc [of 0 m] by (auto simp add: create_encoding_layers_def m simp del: upt_Suc)
qed

lemma create_encoding_layers_unknown_ready:
  assumes "\<not> known_activation (finetune_act_func s)" and "layers s \<noteq> []"
      and "input_data s = Some x" and "keep_prob s = Some kp"
      and "encoding_w s \<noteq> []" and "encoding_b s \<noteq> []"
  shows "create_encoding_layers s = (Inl TensorFlowError, s\<lparr>layer_nodes := []\<rparr>)"
proof -
  obtain m where m: "length (layers s) = Suc m"
    using assms(2) by (cases "layers s") auto
  have "encoding_layer 0 (Some x) (s\<lparr>layer_nodes := []\<rparr>) = (Inl TensorFlowError, s\<lparr>layer_nodes := []\<rparr>)"
    using encoding_layer_unknown_activation [of "s\<lparr>layer_nodes := []\<rparr>" kp 0 x] assms by simp
  then show ?thesis
    using upt_add_Suc [of 0 m] assms(3)
    by (auto simp add: create_encoding_layers_def m simp del: upt_Suc)
qed

lemma fresh_lists:
  "length (map (fresh_weight nf ls) [0..<length ls]) = length ls"
  "length (map (fresh_bias ls) [0..<length ls]) = length ls"
  by simp_all

lemma create_variables_no_pretrain_build:
  assumes "\<not> do_pretrain s"
  shows "create_variables nf (create_placeholders nf nc s) =
           (Inr (), (create_placeholders nf nc s)
              \<lparr>encoding_w := map (fresh_weight nf (layers s)) [0..<length (layers s)],
               encoding_b := map (fresh_bias (layers s)) [0..<length (layers s)]\<rparr>)"
  using assms create_variables_no_pretrain_ok [of nf "create_placeholders nf nc s"]
  by (simp add: create_variables_def create_placeholders_def)

text \<open>
  C4 (as amended). A fine-tuning activation other than \<^verbatim>\<open>'sigmoid'\<close>, \<^verbatim>\<open>'tanh'\<close> and
  \<^verbatim>\<open>'relu'\<close> is not refused where the activation is chosen: the choice gives None, a
  null node and not a pass-through of the pre-activation. With no layer the loop body
  never runs and \<^verbatim>\<open>_create_encoding_layers\<close> returns the input placeholder. With at
  least one layer the None is the argument of \<^verbatim>\<open>tf.nn.dropout\<close>, and
  \<^verbatim>\<open>_create_encoding_layers\<close> raises in the first layer, leaving \<^verbatim>\<open>layer_nodes\<close> empty;
  on an object whose placeholders and variables exist, the exception is TensorFlow's
  refusal of None.
\<close>

theorem unknown_activation_gives_none:
  assumes "\<not> known_activation (finetune_act_func s)"
  shows "layer_activation (finetune_act_func s) y_act = None
       \<and> (layers s = [] \<longrightarrow>
            create_encoding_layers s = (Inr (input_data s), s\<lparr>layer_nodes := []\<rparr>))
       \<and> (layers s \<noteq> [] \<longrightarrow>
            (\<exists>e. create_encoding_layers s = (Inl e, s\<lparr>layer_nodes := []\<rparr>)))
       \<and> (layers s \<noteq> [] \<and> input_data s \<noteq> None \<and> keep_prob s \<noteq> None
            \<and> encoding_w s \<noteq> [] \<and> encoding_b s \<noteq> [] \<longrightarrow>
            create_encoding_layers s = (Inl TensorFlowError, s\<lparr>layer_nodes := []\<rparr>))"
  using layer_activation_unknown [OF assms] create_encoding_layers_empty [of s]
    create_encoding_layers_unknown [OF assms] create_encoding_layers_unknown_ready [OF assms]
  by auto

lemma none_ready_fields:
  "finetune_act_func none_ready = ''none''" "layers none_ready = [2]"
  "input_data none_ready \<noteq> None" "keep_prob none_ready \<noteq> None"
  "encoding_w none_ready \<noteq> []" "encoding_b none_ready \<noteq> []"
proof -
  have f: "do_pretrain none_obj = False" "layers none_obj = [2]"
          "finetune_act_func none_obj = ''none''"
    by (simp_all add: none_obj_def toy_eval)
  have eq: "none_ready = (create_placeholders 3 2 none_obj)
              \<lparr>encoding_w := map (fresh_weight 3 (layers none_obj)) [0..<length (layers none_obj)],
               encoding_b := map (fresh_bias (layers none_obj)) [0..<length (layers none_obj)]\<rparr>"
    using create_variables_no_pretrain_build [of none_obj 3 2] f(1)
    by (simp add: none_ready_def)
  show "finetune_act_func none_ready = ''none''" "layers none_ready = [2]"
    "input_data none_ready \<noteq> None" "keep_prob none_ready \<noteq> None"
    "encoding_w none_ready \<noteq> []" "encoding_b none_ready \<noteq> []"
    unfolding eq by (simp_all add: f create_placeholders_def)
qed

theorem unknown_activation_gives_none_witness:
  "\<not> known_activation (finetune_act_func none_ready)
   \<and> layer_activation (finetune_act_func none_ready) (NdArray 0) = (None :: int tensor option)
   \<and> layers none_ready = [2]
   \<and> create_encoding_layers none_ready = (Inl TensorFlowError, none_ready\<lparr>layer_nodes := []\<rparr>)"
proof -
  have k: "\<not> known_activation (finetune_act_func none_ready)"
    by (simp add: none_ready_fields known_activation_def)
  from unknown_activation_gives_none [OF k, of "NdArray (0 :: int)"] k none_ready_fields
  show ?thesis by simp
qed

text \<open>
  The claim as stated fails: with the activation \<^verbatim>\<open>'none'\<close> and one hidden layer,
  building the encoding layers raises.
\<close>

theorem none_activation_raises:
  "finetune_act_func none_ready = ''none''
   \<and> fst (create_encoding_layers none_ready) = Inl TensorFlowError"
proof -
  have k: "\<not> known_activation (finetune_act_func none_ready)"
    by (simp add: none_ready_fields known_activation_def)
  have n: "layers none_ready \<noteq> []" by (simp add: none_ready_fields)
  obtain x kp where x: "input_data none_ready = Some x" and kp: "keep_prob none_ready = Some kp"
    using none_ready_fields(3,4) by auto
  from create_encoding_layers_unknown_ready [OF k n x kp none_ready_fields(5,6)]
  show ?thesis by (simp add: none_ready_fields)
qed









lemma build_model_returns:
  assumes "build_model n_features n_classes s = (Inr (), s')"
  shows "layers s \<noteq> [] \<and> known_activation (finetune_act_func s)
       \<and> (\<exists>ws bs. length (layers s) \<le> length ws \<and> length (layers s) \<le> length bs
            \<and> (\<forall>l<length (layers s). is_variable (ws ! l) \<and> is_variable (bs ! l))
            \<and> s' = built_graph n_features n_classes ws bs s)"
proof -
  let ?s0 = "create_placeholders n_features n_classes s"
  obtain r1 s1 where V: "create_variables n_features ?s0 = (r1, s1)"
    by (cases "create_variables n_features ?s0") auto
  have r1: "r1 = Inr ()"
    using assms V
    by (cases r1) (auto simp add: build_model_def seq_def [of "modify f" for f]
        seq_def [of "create_variables n" for n] modify_def)
  have frame: "s1 = ?s0\<lparr>encoding_w := encoding_w s1, encoding_b := encoding_b s1\<rparr>"
  proof (cases "do_pretrain s")
    case True
    then show ?thesis
      using V pretrain_variables_loop_frame [of "[0..<length (layers ?s0)]" ?s0 r1 s1]
      by (simp add: create_variables_def create_variables_pretrain_def create_placeholders_def)
  next
    case False
    then show ?thesis
      using V create_variables_no_pretrain_build [OF False, of n_features n_classes] by auto
  qed
  have vars: "length (layers s) \<le> length (encoding_w s1) \<and> length (layers s) \<le> length (encoding_b s1)
            \<and> (\<forall>l<length (layers s). is_variable (encoding_w s1 ! l) \<and> is_variable (encoding_b s1 ! l))"
  proof (cases "do_pretrain s")
    case True
    then have "pretrain_variables_loop [0..<0 + length (layers s)] ?s0 = (Inr (), s1)"
      using V r1
      by (simp add: create_variables_def create_variables_pretrain_def create_placeholders_def)
    from pretrain_variables_loop_ok [OF this] show ?thesis by simp
  next
    case False
    then show ?thesis
      using V create_variables_no_pretrain_build [OF False, of n_features n_classes]
      by (auto simp add: fresh_weight_def fresh_bias_def is_variable_def)
  qed
  obtain r2 s2 where E: "create_encoding_layers s1 = (r2, s2)"
    by (cases "create_encoding_layers s1") auto
  have unf: "build_model n_features n_classes s =
               (case r2 of
                  Inl e \<Rightarrow> (Inl e, s2)
                | Inr nt \<Rightarrow>
                    seq (create_softmax_layer nt n_classes) (\<lambda>_.
                    seq (\<lambda>s. create_cost_function_node (finetune_loss_func s) (softmax_out s)
                                (input_labels s) s) (\<lambda>_.
                    seq (\<lambda>s. create_train_step_node (finetune_opt s) (finetune_learning_rate s)
                                (momentum s) s) (\<lambda>_.
                    create_test_node))) s2)"
    using V r1 E
    by (simp add: build_model_def seq_def [of "modify f" for f] seq_def [of "create_variables n" for n]
        seq_def [of create_encoding_layers] modify_def)
  have l1: "layers s1 = layers s" "finetune_act_func s1 = finetune_act_func s"
       "input_data s1 \<noteq> None" "keep_prob s1 \<noteq> None"
    by (subst frame, simp add: create_placeholders_def)+
  have ne: "layers s \<noteq> []"
  proof
    assume e: "layers s = []"
    then have "layers s1 = []" using l1 by simp
    from create_encoding_layers_empty [OF this] E
    have "r2 = Inr (input_data s1)" "s2 = s1\<lparr>layer_nodes := []\<rparr>" by simp_all
    moreover have "create_softmax_layer (input_data s1) n_classes (s1\<lparr>layer_nodes := []\<rparr>)
                     = (Inl IndexError, s1\<lparr>layer_nodes := []\<rparr>)"
      using create_softmax_layer_empty [of "s1\<lparr>layer_nodes := []\<rparr>"] e l1 by simp
    ultimately show False
      using assms by (simp add: unf seq_def [of "create_softmax_layer a b" for a b])
  qed
  have known: "known_activation (finetune_act_func s)"
  proof (rule ccontr)
    assume "\<not> known_activation (finetune_act_func s)"
    then have "\<exists>e s'. create_encoding_layers s1 = (Inl e, s')"
      using create_encoding_layers_err [of s1] ne l1 by simp
    then show False using assms E by (auto simp add: unf)
  qed
  have "build_model n_features n_classes s =
          (Inr (), built_graph n_features n_classes (encoding_w s1) (encoding_b s1) s)"
    using build_model_after_variables [OF V [unfolded r1] frame ne known] vars by simp
  then have "s' = built_graph n_features n_classes (encoding_w s1) (encoding_b s1) s"
    using assms by simp
  with ne known vars show ?thesis by blast
qed

text \<open>The small model: its attributes after \<^verbatim>\<open>build_model\<close>, and while fitting runs.\<close>

lemma small_obj_fields:
  "do_pretrain small_obj = False" "layers small_obj = [2]" "finetune_act_func small_obj = ''relu''"
  "finetune_num_epochs small_obj = 1" "finetune_batch_size small_obj = 2"
  "verbose small_obj = 1" "dropout small_obj = 0.5"
  by (simp_all add: small_obj_def small_args_def toy_eval)

lemma build_model_no_pretrain_ok:
  assumes "\<not> do_pretrain s" and "layers s \<noteq> []" and "known_activation (finetune_act_func s)"
  shows "build_model nf nc s =
           (Inr (), built_graph nf nc (map (fresh_weight nf (layers s)) [0..<length (layers s)])
                      (map (fresh_bias (layers s)) [0..<length (layers s)]) s)"
  using build_model_after_variables
          [OF create_variables_no_pretrain_build [OF assms(1), of nf nc] refl assms(2,3)]
  by simp

lemma small_build:
  "build_model 3 2 small_obj = (Inr (), small_built)"
  "small_built = built_graph 3 2 [fresh_weight 3 [2] 0] [fresh_bias [2] 0] small_obj"
  using build_model_no_pretrain_ok [of small_obj 3 2]
  by (simp_all add: small_built_def small_obj_fields known_activation_def)

lemma small_fitting_fields:
  "finetune_batch_size (obj small_fitting) = 2"
  "finetune_num_epochs (obj small_fitting) = 1"
  "dropout (obj small_fitting) = 0.5"
  "verbose (obj small_fitting) = 1"
  "tf_session (obj small_fitting) = Some \<lparr>variables = Map.empty, rng = 0\<rparr>"
  "tf_summary_writer (obj small_fitting) = Some SummaryWriter"
  "input_data (obj small_fitting) = Some (x_input 3)"
  "input_labels (obj small_fitting) = Some (y_input 2)"
  "keep_prob (obj small_fitting) = Some keep_probs"
  "effects small_fitting = []"
  by (simp_all add: small_fitting_def small_build(2) built_graph_def Let_def small_obj_fields)

lemma small_fitting_nodes:
  "train_step (obj small_fitting) \<noteq> None"
  "None \<noteq> train_step (obj small_fitting)"
  "None \<noteq> accuracy (obj small_fitting)"
  "None \<noteq> tf_merged_summaries (obj small_fitting)"
  "is_operation (the (train_step (obj small_fitting)))"
  "accuracy (obj small_fitting) \<noteq> None"
  "\<not> is_operation (the (accuracy (obj small_fitting)))"
  "tf_merged_summaries (obj small_fitting) \<noteq> None"
  "\<not> is_operation (the (tf_merged_summaries (obj small_fitting)))"
  by (simp_all add: small_fitting_def small_build(2) built_graph_def Let_def)

lemma small_fitting_obj:
  "obj small_fitting =
     small_built\<lparr>tf_session := Some \<lparr>variables = Map.empty, rng = 0\<rparr>,
                 tf_saver := Some Saver,
                 tf_merged_summaries :=
                   map_option (\<lambda>a. Merge_summary [Scalar_summary ''accuracy'' a])
                     (accuracy small_built),
                 tf_summary_writer := Some SummaryWriter\<rparr>"
  by (simp add: small_fitting_def)

lemmas graph_eval =
  small_fitting_def small_build(2) built_graph_def x_input_def y_input_def keep_probs_def
  fresh_weight_def fresh_bias_def activation_node_def small_obj_fields Let_def

section \<open>Mini-batches\<close>

lemma ceil_nat_div:
  fixes n b :: nat
  assumes "0 < b"
  shows "\<lceil>real n / real b\<rceil> = int ((n + b - 1) div b)"
proof (rule ceiling_unique)
  let ?q = "(n + b - 1) div b"
  have m: "n + b - 1 = ?q * b + (n + b - 1) mod b" by simp
  have r: "(n + b - 1) mod b < b" using assms by simp
  have up: "n \<le> ?q * b"
  proof -
    have "n + b - 1 < ?q * b + b" using m r by linarith
    then show ?thesis using assms by linarith
  qed
  have lo: "?q * b < n + b"
  proof -
    have "?q * b \<le> n + b - 1" using m by linarith
    then show ?thesis using assms by linarith
  qed
  show "real n / real b \<le> of_int (int ?q)"
    using assms up by (simp add: field_simps) (metis of_nat_le_iff of_nat_mult mult.commute)
  show "of_int (int ?q) - 1 < real n / real b"
    using assms lo by (simp add: field_simps) (metis of_nat_less_iff of_nat_mult of_nat_add mult.commute add.commute)
qed

lemma concat_batches_of: "0 < b \<Longrightarrow> concat (batches_of b xs) = xs"
  by (induction b xs rule: batches_of.induct) (subst batches_of.simps, simp)

lemma batches_of_Nil [simp]: "batches_of b [] = []"
  by (subst batches_of.simps) simp

lemma batches_of_eq_Nil [simp]: "0 < b \<Longrightarrow> batches_of b xs = [] \<longleftrightarrow> xs = []"
  by (subst batches_of.simps) simp

lemma length_batches_of: "0 < b \<Longrightarrow> length (batches_of b xs) = (length xs + b - 1) div b"
proof (induction b xs rule: batches_of.induct)
  case (1 b xs)
  show ?case
  proof (cases "xs = []")
    case True
    with 1 show ?thesis by simp
  next
    case False
    have IH: "length (batches_of b (drop b xs)) = (length (drop b xs) + b - 1) div b"
      using 1 False by simp
    have "length (batches_of b xs) = Suc ((length xs - b + b - 1) div b)"
      using 1(2) False IH by (subst batches_of.simps) simp
    also have "\<dots> = (length xs + b - 1) div b"
    proof (cases "b \<le> length xs")
      case True
      then have "length xs - b + b - 1 = length xs - 1" by simp
      moreover have "(length xs - 1 + b) div b = Suc ((length xs - 1) div b)"
        using 1(2) by simp
      moreover have "length xs + b - 1 = length xs - 1 + b"
        using False by (cases xs) auto
      ultimately show ?thesis by simp
    next
      case F: False
      then have a: "length xs - b + b - 1 = b - 1" by simp
      have "(b - 1) div b = 0" using 1(2) by simp
      moreover have "(length xs + b - 1) div b = 1"
      proof -
        have "0 < length xs" using False by simp
        then have "1 * b \<le> length xs + b - 1" "length xs + b - 1 < Suc 1 * b"
          using F by (simp_all, arith+)
        then show ?thesis
          using div_nat_eqI [where m = "length xs + b - 1" and n = b and q = 1] by simp
      qed
      ultimately show ?thesis using a by simp
    qed
    finally show ?thesis .
  qed
qed

lemma batches_of_sizes:
  "0 < b \<Longrightarrow> batch \<in> set (batches_of b xs) \<Longrightarrow> 0 < length batch \<and> length batch \<le> b"
proof (induction b xs rule: batches_of.induct)
  case (1 b xs)
  show ?case
  proof (cases "xs = []")
    case True
    with 1(3) show ?thesis by simp
  next
    case False
    from 1(3) have "batch = take b xs \<or> batch \<in> set (batches_of b (drop b xs))"
      using 1(2) False by (subst (asm) batches_of.simps) simp
    then show ?thesis
      using 1 False by auto
  qed
qed

lemma batches_of_full:
  "0 < b \<Longrightarrow> Suc k < length (batches_of b xs) \<Longrightarrow> length (batches_of b xs ! k) = b"
proof (induction b xs arbitrary: k rule: batches_of.induct)
  case (1 b xs)
  have ne: "xs \<noteq> []" using 1(3) by auto
  have unf: "batches_of b xs = take b xs # batches_of b (drop b xs)"
    using 1(2) ne by (subst batches_of.simps) simp
  have rest: "batches_of b (drop b xs) \<noteq> []"
    using 1(3) unf by auto
  then have "drop b xs \<noteq> []" using 1(2) by auto
  then have len: "b \<le> length xs" by simp
  show ?case
  proof (cases k)
    case 0
    then show ?thesis using unf len by simp
  next
    case (Suc k')
    then have "Suc k' < length (batches_of b (drop b xs))"
      using 1(3) unf by simp
    then have "length (batches_of b (drop b xs) ! k') = b"
      using 1(1) [of k'] 1(2) ne by simp
    then show ?thesis using unf Suc by simp
  qed
qed

section \<open>The shuffle is one permutation of positions\<close>

lemma length_shuffle_from [simp]: "length (shuffle_from r i xs) = length xs"
  by (induction i arbitrary: xs) simp_all

lemma mset_shuffle_from: "i < length xs \<Longrightarrow> mset (shuffle_from r i xs) = mset xs"
proof (induction i arbitrary: xs)
  case 0
  then show ?case by simp
next
  case (Suc i)
  let ?j = "r (Suc i) mod Suc (Suc i)"
  have j: "?j < length xs"
    using Suc.prems by (meson Suc_leI le_trans mod_less_divisor not_le zero_less_Suc)
  have "mset (xs[Suc i := xs ! ?j, ?j := xs ! Suc i]) = mset xs"
    using mset_swap [of ?j xs "Suc i"] j Suc.prems by simp
  then show ?case
    using Suc.IH [of "xs[Suc i := xs ! ?j, ?j := xs ! Suc i]"] Suc.prems by simp
qed

lemma map_shuffle_from:
  "i < length xs \<Longrightarrow> map f (shuffle_from r i xs) = shuffle_from r i (map f xs)"
proof (induction i arbitrary: xs)
  case 0
  then show ?case by simp
next
  case (Suc i)
  let ?j = "r (Suc i) mod Suc (Suc i)"
  have j: "?j < length xs"
    using Suc.prems by (meson Suc_leI le_trans mod_less_divisor not_le zero_less_Suc)
  show ?case
    using Suc.IH [of "xs[Suc i := xs ! ?j, ?j := xs ! Suc i]"] Suc.prems j
    by (simp add: map_update)
qed

lemma mset_np_random_shuffle: "mset (np_random_shuffle r xs) = mset xs"
  by (cases xs) (simp_all add: np_random_shuffle_def mset_shuffle_from)

lemma map_np_random_shuffle: "map f (np_random_shuffle r xs) = np_random_shuffle r (map f xs)"
  by (cases xs) (simp_all add: np_random_shuffle_def map_shuffle_from)

lemma np_random_shuffle_positions:
  "np_random_shuffle r xs = map (nth xs) (np_random_shuffle r [0..<length xs])"
  using map_np_random_shuffle [of "nth xs" r "[0..<length xs]"] by (simp add: map_nth)

section \<open>What an epoch of fine-tuning does\<close>

lemma only_session_trans:
  assumes "s1 = s0\<lparr>tf_session := tf_session s1\<rparr>" and "s2 = s1\<lparr>tf_session := tf_session s2\<rparr>"
  shows "s2 = s0\<lparr>tf_session := tf_session s2\<rparr>"
proof -
  have "s2 = (s0\<lparr>tf_session := tf_session s1\<rparr>)\<lparr>tf_session := tf_session s2\<rparr>"
    using assms by simp
  then show ?thesis by simp
qed

lemma tf_session_run_effects:
  assumes "tf_session_run K fetches fd st = (out, st')"
  shows "effects st' = effects st \<or> effects st' = effects st @ [Session_run fetches fd]"
    and "obj st' = (obj st)\<lparr>tf_session := tf_session (obj st')\<rparr>"
  using assms
  by (auto simp add: tf_session_run_def Let_def split: option.splits sum.splits prod.splits)

lemma train_on_batch_effects:
  assumes "train_on_batch K batch st = (out, st')"
  shows "\<forall>e\<in>set (effects st'). e \<in> set (effects st) \<or> no_shuffle e"
    and "obj st' = (obj st)\<lparr>tf_session := tf_session (obj st')\<rparr>"
  using assms
  by (auto simp add: train_on_batch_def tf_session_run_def seq_def ret_def Let_def no_shuffle_def
      split: option.splits sum.splits prod.splits if_splits)

lemma train_on_batches_effects:
  "train_on_batches K bs st = (out, st') \<Longrightarrow>
     (\<forall>e\<in>set (effects st'). e \<in> set (effects st) \<or> no_shuffle e)
     \<and> obj st' = (obj st)\<lparr>tf_session := tf_session (obj st')\<rparr>"
proof (induction bs arbitrary: st)
  case Nil
  then show ?case by auto
next
  case (Cons b bs)
  obtain r st1 where B: "train_on_batch K b st = (r, st1)"
    by (cases "train_on_batch K b st") auto
  note E = train_on_batch_effects [OF B]
  show ?case
  proof (cases r)
    case (Inl e)
    then show ?thesis using Cons.prems B E by auto
  next
    case (Inr u)
    then have R: "train_on_batches K bs st1 = (out, st')"
      using Cons.prems B by simp
    from Cons.IH [OF R] E only_session_trans [of "obj st1" "obj st" "obj st'"] show ?thesis
      by blast
  qed
qed

lemma validation_effects:
  assumes "run_validation_error_and_summaries K epoch vset vlab st = (out, st')"
  shows "\<forall>e\<in>set (effects st'). e \<in> set (effects st) \<or>
           e = Session_run [tf_merged_summaries (obj st), accuracy (obj st)]
                 [(input_data (obj st), vset), (input_labels (obj st), vlab),
                  (keep_prob (obj st), Scalar 1)]
           \<or> (\<exists>x. e = Add_summary x epoch) \<or> (\<exists>x. e = Print_accuracy epoch x)"
    and "obj st' = (obj st)\<lparr>tf_session := tf_session (obj st')\<rparr>"
  using assms
  by (auto simp add: run_validation_error_and_summaries_def tf_session_run_def add_summary_def
      seq_def ret_def lift_res_def Let_def
      split: option.splits sum.splits prod.splits if_splits)

lemma validation_no_shuffle:
  assumes "run_validation_error_and_summaries K epoch vset vlab st = (out, st')"
  shows "\<forall>e\<in>set (effects st'). e \<in> set (effects st) \<or> no_shuffle e"
  using validation_effects(1) [OF assms] by (auto simp add: no_shuffle_def)

lemma train_epoch_effects:
  assumes "train_epoch K r vset vlab i shuff st = (out, st')"
  shows "(\<forall>e\<in>set (effects st'). e \<in> set (effects st) \<or> no_shuffle e
            \<or> e = Np_random_shuffle shuff (np_random_shuffle r shuff))
         \<and> obj st' = (obj st)\<lparr>tf_session := tf_session (obj st')\<rparr>
         \<and> (\<forall>sh. out = Inr sh \<longrightarrow> sh = np_random_shuffle r shuff)"
proof -
  let ?st0 = "st\<lparr>effects := effects st @ [Np_random_shuffle shuff (np_random_shuffle r shuff)]\<rparr>"
  show ?thesis
  proof (cases "gen_batches (np_random_shuffle r shuff) (finetune_batch_size (obj st))")
    case (Inl e)
    then show ?thesis using assms
      by (auto simp add: train_epoch_def seq_def modify_def lift_res_def)
  next
    case (Inr bs)
    obtain r1 st1 where T: "train_on_batches K bs ?st0 = (r1, st1)"
      by (cases "train_on_batches K bs ?st0") auto
    note E1 = train_on_batches_effects [OF T]
    show ?thesis
    proof (cases r1)
      case (Inl e)
      then show ?thesis using assms Inr T E1
        by (auto simp add: train_epoch_def seq_def modify_def lift_res_def)
    next
      case U: (Inr u)
      show ?thesis
      proof (cases "vset = PyNone")
        case True
        then show ?thesis using assms Inr T E1 U
          by (auto simp add: train_epoch_def seq_def modify_def lift_res_def ret_def)
      next
        case False
        obtain r2 st2 where V: "run_validation_error_and_summaries K i vset vlab st1 = (r2, st2)"
          by (cases "run_validation_error_and_summaries K i vset vlab st1") auto
        note E2 = validation_no_shuffle [OF V] validation_effects(2) [OF V]
        have o: "obj st2 = (obj st)\<lparr>tf_session := tf_session (obj st2)\<rparr>"
          using only_session_trans [of "obj st1" "obj st" "obj st2"] E1 E2 by simp
        have e: "\<forall>e\<in>set (effects st2). e \<in> set (effects st) \<or> no_shuffle e
                  \<or> e = Np_random_shuffle shuff (np_random_shuffle r shuff)"
          using E1 E2 by auto
        have "st' = st2 \<and> (\<forall>sh. out = Inr sh \<longrightarrow> sh = np_random_shuffle r shuff)"
          using assms Inr T U False V
          by (auto simp add: train_epoch_def seq_def modify_def lift_res_def ret_def
              split: sum.splits)
        then show ?thesis using o e by simp
      qed
    qed
  qed
qed

lemma train_epochs_effects:
  "train_epochs K rnd vset vlab is shuff st = (out, st') \<Longrightarrow>
     (\<forall>e\<in>set (effects st'). e \<in> set (effects st) \<or> no_shuffle e
          \<or> (\<exists>b r. e = Np_random_shuffle b (np_random_shuffle r b) \<and> mset b = mset shuff))
     \<and> obj st' = (obj st)\<lparr>tf_session := tf_session (obj st')\<rparr>"
proof (induction "is" arbitrary: shuff st)
  case Nil
  then show ?case by auto
next
  case (Cons i rest)
  obtain r1 st1 where T: "train_epoch K (rnd i) vset vlab i shuff st = (r1, st1)"
    by (cases "train_epoch K (rnd i) vset vlab i shuff st") auto
  note E = train_epoch_effects [OF T]
  show ?case
  proof (cases r1)
    case (Inl e)
    then have "st' = st1" using Cons.prems T by simp
    then show ?thesis using E by blast
  next
    case (Inr sh)
    then have sh: "sh = np_random_shuffle (rnd i) shuff" using E by simp
    have R: "train_epochs K rnd vset vlab rest sh st1 = (out, st')"
      using Cons.prems T Inr by simp
    note I = Cons.IH [OF R]
    have m: "mset sh = mset shuff" by (simp add: sh mset_np_random_shuffle)
    have o: "obj st' = (obj st)\<lparr>tf_session := tf_session (obj st')\<rparr>"
      using only_session_trans [of "obj st1" "obj st" "obj st'"] E I by simp
    have "\<forall>e\<in>set (effects st'). e \<in> set (effects st) \<or> no_shuffle e
          \<or> (\<exists>b r. e = Np_random_shuffle b (np_random_shuffle r b) \<and> mset b = mset shuff)"
    proof
      fix e assume "e \<in> set (effects st')"
      with I have "e \<in> set (effects st1) \<or> no_shuffle e
          \<or> (\<exists>b r. e = Np_random_shuffle b (np_random_shuffle r b) \<and> mset b = mset sh)"
        by blast
      then show "e \<in> set (effects st) \<or> no_shuffle e
          \<or> (\<exists>b r. e = Np_random_shuffle b (np_random_shuffle r b) \<and> mset b = mset shuff)"
        using E m by auto
    qed
    with o show ?thesis by simp
  qed
qed

lemma step_effect_session [simp]:
  "step_effect (s\<lparr>tf_session := x\<rparr>) = step_effect s"
  by (simp add: step_effect_def fun_eq_iff)

lemma validation_effect_session [simp]:
  "validation_effect (s\<lparr>tf_session := x\<rparr>) = validation_effect s"
  by (auto simp add: validation_effect_def fun_eq_iff split: effect.splits)

lemma train_on_batch_steps:
  assumes "train_on_batch K batch st = (out, st')"
  shows "(effects st' = effects st \<and> isl out) \<or> 
         (effects st' = effects st @ [step_effect (obj st) batch] \<and> batch \<noteq> [])"
    and "obj st' = (obj st)\<lparr>tf_session := tf_session (obj st')\<rparr>"
  using assms
  by (auto simp add: train_on_batch_def tf_session_run_def seq_def ret_def Let_def step_effect_def
      split: option.splits sum.splits prod.splits if_splits)

lemma train_on_batches_steps:
  "train_on_batches K bs st = (out, st') \<Longrightarrow>
     (\<exists>n \<le> length bs. effects st' = effects st @ map (step_effect (obj st)) (take n bs)
         \<and> (\<not> isl out \<longrightarrow> n = length bs))
     \<and> (\<not> isl out \<longrightarrow> [] \<notin> set bs)
     \<and> obj st' = (obj st)\<lparr>tf_session := tf_session (obj st')\<rparr>"
proof (induction bs arbitrary: st)
  case Nil
  then show ?case by auto
next
  case (Cons b bs)
  obtain r st1 where B: "train_on_batch K b st = (r, st1)"
    by (cases "train_on_batch K b st") auto
  note E = train_on_batch_steps [OF B]
  show ?case
  proof (cases r)
    case (Inl e)
    then have s: "st' = st1" "out = Inl e" using Cons.prems B by auto
    from E(1) show ?thesis
    proof
      assume "effects st1 = effects st \<and> isl r"
      then have "effects st' = effects st @ map (step_effect (obj st)) (take 0 (b # bs))"
        using s by simp
      then show ?thesis using s E(2) by (intro conjI exI [of _ 0]) auto
    next
      assume "effects st1 = effects st @ [step_effect (obj st) b] \<and> b \<noteq> []"
      then have "effects st' = effects st @ map (step_effect (obj st)) (take 1 (b # bs))"
        using s by simp
      then show ?thesis using s E(2) by (intro conjI exI [of _ 1]) auto
    qed
  next
    case (Inr u)
    then have R: "train_on_batches K bs st1 = (out, st')"
      using Cons.prems B by simp
    from E(1) Inr have e1: "effects st1 = effects st @ [step_effect (obj st) b]" and ne: "b \<noteq> []"
      by auto
    from Cons.IH [OF R] obtain n where n: "n \<le> length bs"
      and e2: "effects st' = effects st1 @ map (step_effect (obj st1)) (take n bs)"
      and fin: "\<not> isl out \<longrightarrow> n = length bs"
      and nn: "\<not> isl out \<longrightarrow> [] \<notin> set bs"
      and o2: "obj st' = (obj st1)\<lparr>tf_session := tf_session (obj st')\<rparr>"
      by blast
    from e2 have e2': "effects st' = effects st1 @ map (step_effect (obj st)) (take n bs)"
      by (subst (asm) E(2)) simp
    have o: "obj st' = (obj st)\<lparr>tf_session := tf_session (obj st')\<rparr>"
      using only_session_trans [of "obj st1" "obj st" "obj st'"] E(2) o2 by simp
    have "effects st' = effects st @ map (step_effect (obj st)) (take (Suc n) (b # bs))"
      using e1 e2' by simp
    then show ?thesis using n fin nn ne o
      by (intro conjI exI [of _ "Suc n"]) auto
  qed
qed

lemma validation_effects_list:
  assumes "run_validation_error_and_summaries K epoch vset vlab st = (out, st')"
  shows "\<exists>ves. effects st' = effects st @ ves
           \<and> (\<forall>e\<in>set ves. validation_effect (obj st) epoch vset vlab e)"
    and "obj st' = (obj st)\<lparr>tf_session := tf_session (obj st')\<rparr>"
  using assms
  by (auto simp add: run_validation_error_and_summaries_def tf_session_run_def add_summary_def
      seq_def ret_def lift_res_def Let_def validation_effect_def
      split: option.splits sum.splits prod.splits if_splits)

lemma train_epoch_steps:
  assumes "train_epoch K r vset vlab i shuff st = (out, st')"
  shows "case gen_batches (np_random_shuffle r shuff) (finetune_batch_size (obj st)) of
           Inl e \<Rightarrow> effects st' = effects st @ [Np_random_shuffle shuff (np_random_shuffle r shuff)]
                     \<and> out = Inl e
         | Inr bs \<Rightarrow>
             (\<exists>n ves. n \<le> length bs
                \<and> effects st' = effects st @ Np_random_shuffle shuff (np_random_shuffle r shuff)
                                   # map (step_effect (obj st)) (take n bs) @ ves
                \<and> (\<forall>e\<in>set ves. validation_effect (obj st) i vset vlab e)
                \<and> (vset = PyNone \<longrightarrow> ves = [])
                \<and> (\<not> isl out \<longrightarrow> n = length bs \<and> [] \<notin> set bs))"
proof (cases "gen_batches (np_random_shuffle r shuff) (finetune_batch_size (obj st))")
  case (Inl e)
  then show ?thesis using assms
    by (auto simp add: train_epoch_def seq_def modify_def lift_res_def)
next
  case (Inr bs)
  let ?np = "Np_random_shuffle shuff (np_random_shuffle r shuff)"
  let ?st0 = "st\<lparr>effects := effects st @ [?np]\<rparr>"
  obtain r1 st1 where T: "train_on_batches K bs ?st0 = (r1, st1)"
    by (cases "train_on_batches K bs ?st0") auto
  from train_on_batches_steps [OF T] obtain n where n: "n \<le> length bs"
    and e1: "effects st1 = effects st @ ?np # map (step_effect (obj st)) (take n bs)"
    and fin: "\<not> isl r1 \<longrightarrow> n = length bs \<and> [] \<notin> set bs"
    and o1: "obj st1 = (obj st)\<lparr>tf_session := tf_session (obj st1)\<rparr>"
    by auto
  have goal: "\<exists>n ves. n \<le> length bs
                \<and> effects st' = effects st @ ?np # map (step_effect (obj st)) (take n bs) @ ves
                \<and> (\<forall>e\<in>set ves. validation_effect (obj st) i vset vlab e)
                \<and> (vset = PyNone \<longrightarrow> ves = [])
                \<and> (\<not> isl out \<longrightarrow> n = length bs \<and> [] \<notin> set bs)"
  proof (cases r1)
    case (Inl e)
    then have "st' = st1" "out = Inl e" using assms Inr T
      by (auto simp add: train_epoch_def seq_def modify_def lift_res_def)
    then show ?thesis using n e1
      by (intro exI [of _ n] exI [of _ "[]"]) simp
  next
    case U: (Inr u)
    show ?thesis
    proof (cases "vset = PyNone")
      case True
      then have "st' = st1" using assms Inr T U
        by (auto simp add: train_epoch_def seq_def modify_def lift_res_def ret_def)
      then show ?thesis using n e1 fin U True
        by (intro exI [of _ n] exI [of _ "[]"]) simp
    next
      case False
      obtain r2 st2 where V: "run_validation_error_and_summaries K i vset vlab st1 = (r2, st2)"
        by (cases "run_validation_error_and_summaries K i vset vlab st1") auto
      from validation_effects_list(1) [OF V] obtain ves where
        e2: "effects st2 = effects st1 @ ves"
        and v: "\<forall>e\<in>set ves. validation_effect (obj st1) i vset vlab e"
        by blast
      from v have ve: "\<forall>e\<in>set ves. validation_effect (obj st) i vset vlab e"
        by (subst (asm) o1) simp
      have "st' = st2"
        using assms Inr T U False V
        by (auto simp add: train_epoch_def seq_def modify_def lift_res_def ret_def
            split: sum.splits)
      then show ?thesis using n e1 e2 ve fin U False
        by (intro exI [of _ n] exI [of _ ves]) simp
    qed
  qed
  then show ?thesis using Inr by simp
qed

lemma gen_batches_subset:
  assumes "gen_batches data b = Inr bs" and "batch \<in> set bs"
  shows "set batch \<subseteq> set data"
proof -
  have b: "0 < nat b" and bs: "bs = batches_of (nat b) data"
    using assms(1) by (auto simp add: gen_batches_def split: if_splits)
  have "set batch \<subseteq> set (concat bs)" using assms(2) by auto
  then show ?thesis using concat_batches_of [OF b, of data] bs by simp
qed

lemma validation_effect_no_train_run:
  "validation_effect s i vset vlab e \<Longrightarrow> \<not> is_train_run e"
  by (cases e) (simp_all add: validation_effect_def)

lemma train_epoch_train_runs:
  assumes "train_epoch K r vset vlab i shuff st = (out, st')"
  shows "\<forall>e\<in>set (effects st'). e \<in> set (effects st) \<or> \<not> is_train_run e
           \<or> (\<exists>batch. e = step_effect (obj st) batch \<and> set batch \<subseteq> set shuff)"
proof (cases "gen_batches (np_random_shuffle r shuff) (finetune_batch_size (obj st))")
  case (Inl x)
  with train_epoch_steps [OF assms] show ?thesis by auto
next
  case (Inr bs)
  have s: "set (np_random_shuffle r shuff) = set shuff"
    using mset_np_random_shuffle [of r shuff] by (rule mset_eq_setD)
  from train_epoch_steps [OF assms] Inr obtain n ves where
    e: "effects st' = effects st @ Np_random_shuffle shuff (np_random_shuffle r shuff)
                                   # map (step_effect (obj st)) (take n bs) @ ves"
    and v: "\<forall>e\<in>set ves. validation_effect (obj st) i vset vlab e"
    by auto
  show ?thesis
  proof
    fix x assume "x \<in> set (effects st')"
    then consider "x \<in> set (effects st)"
      | "x = Np_random_shuffle shuff (np_random_shuffle r shuff)"
      | batch where "batch \<in> set (take n bs)" "x = step_effect (obj st) batch"
      | "x \<in> set ves"
      unfolding e by auto
    then show "x \<in> set (effects st) \<or> \<not> is_train_run x
           \<or> (\<exists>batch. x = step_effect (obj st) batch \<and> set batch \<subseteq> set shuff)"
    proof cases
      case 1
      then show ?thesis by simp
    next
      case 2
      then show ?thesis by simp
    next
      case 3
      from 3(1) have "batch \<in> set bs" by (rule in_set_takeD)
      from gen_batches_subset [OF Inr this] s 3(2) show ?thesis by auto
    next
      case 4
      with v validation_effect_no_train_run show ?thesis by blast
    qed
  qed
qed

lemma train_epochs_train_runs:
  "train_epochs K rnd vset vlab is shuff st = (out, st') \<Longrightarrow>
     \<forall>e\<in>set (effects st'). e \<in> set (effects st) \<or> \<not> is_train_run e
        \<or> (\<exists>batch. e = step_effect (obj st) batch \<and> set batch \<subseteq> set shuff)"
proof (induction "is" arbitrary: shuff st)
  case Nil
  then show ?case by auto
next
  case (Cons i rest)
  obtain r1 st1 where T: "train_epoch K (rnd i) vset vlab i shuff st = (r1, st1)"
    by (cases "train_epoch K (rnd i) vset vlab i shuff st") auto
  note E = train_epoch_effects [OF T]
  note S = train_epoch_train_runs [OF T]
  show ?case
  proof (cases r1)
    case (Inl e)
    then have "st' = st1" using Cons.prems T by simp
    then show ?thesis using S by blast
  next
    case (Inr sh)
    then have sh: "sh = np_random_shuffle (rnd i) shuff" using E by simp
    have R: "train_epochs K rnd vset vlab rest sh st1 = (out, st')"
      using Cons.prems T Inr by simp
    have m: "set sh = set shuff"
      unfolding sh using mset_np_random_shuffle [of "rnd i" shuff] by (rule mset_eq_setD)
    have o1: "obj st1 = (obj st)\<lparr>tf_session := tf_session (obj st1)\<rparr>"
      using E by blast
    from Cons.IH [OF R]
    have I: "\<forall>e\<in>set (effects st'). e \<in> set (effects st1) \<or> \<not> is_train_run e
        \<or> (\<exists>batch. e = step_effect (obj st) batch \<and> set batch \<subseteq> set shuff)"
      unfolding m by (subst (asm) o1) simp
    show ?thesis
    proof
      fix e assume "e \<in> set (effects st')"
      with I have "e \<in> set (effects st1) \<or> \<not> is_train_run e
        \<or> (\<exists>batch. e = step_effect (obj st) batch \<and> set batch \<subseteq> set shuff)"
        by blast
      then show "e \<in> set (effects st) \<or> \<not> is_train_run e
        \<or> (\<exists>batch. e = step_effect (obj st) batch \<and> set batch \<subseteq> set shuff)"
        using S by blast
    qed
  qed
qed

lemma small_shuffle:
  "np_random_shuffle (\<lambda>k. 0) [(1, 10), (2, 20), (3, 30 :: int)] = [(2, 20), (3, 30), (1 :: int, 10)]"
  by (simp add: np_random_shuffle_def numeral_2_eq_2)

lemma small_batches:
  "gen_batches [(2, 20), (3, 30), (1 :: int, 10 :: int)] 2 = Inr [[(2, 20), (3, 30)], [(1, 10)]]"
  by (simp add: gen_batches_def batches_of.simps)

lemmas run_eval =
  train_model_def train_epoch_def seq_def modify_def lift_res_def ret_def
  train_on_batch_def tf_session_run_def session_run_def Let_def
  small_fitting_fields small_fitting_nodes small_shuffle small_batches upto.simps

lemma small_train_fst:
  "fst (train_model toy_kernel (\<lambda>i k. 0) [1, 2, 3] [10, 20, 30] PyNone PyNone small_fitting) = Inr ()"
  by (simp add: run_eval)

lemma small_train_effects:
  "effects small_trained =
     [Np_random_shuffle [(1, 10), (2, 20), (3, 30)] [(2, 20), (3, 30), (1, 10)],
      step_effect (obj small_fitting) [(2, 20), (3, 30)],
      step_effect (obj small_fitting) [(1, 10)]]"
  by (simp add: small_trained_def run_eval step_effect_def)

text \<open>
  C8. In an epoch with a batch size \<open>B > 0\<close> on a list of \<open>S\<close> pairs, the shuffled list is
  cut into exactly \<open>\<lceil>S / B\<rceil>\<close> batches: every batch but possibly the last has \<open>B\<close>
  elements, no batch is empty or longer than \<open>B\<close>, and the batches concatenated in order
  are the shuffled list. These are the batches of the training loop: an epoch that
  returns has called \<^verbatim>\<open>np.random.shuffle\<close> once and then run the training step once per
  batch, in the order of the batches, on the samples and labels of that batch with the
  configured dropout; what follows is the validation, and nothing when there is no
  validation set. The partition itself is \<^verbatim>\<open>utilities.gen_batches\<close>, which is taken
  from the specification.
\<close>

theorem epoch_batches_partition:
  assumes "0 < finetune_batch_size (obj st)"
  shows "\<exists>bs. gen_batches (np_random_shuffle r shuff) (finetune_batch_size (obj st)) = Inr bs
           \<and> int (length bs) = \<lceil>real (length shuff) / real_of_int (finetune_batch_size (obj st))\<rceil>
           \<and> concat bs = np_random_shuffle r shuff
           \<and> (\<forall>k. Suc k < length bs \<longrightarrow> int (length (bs ! k)) = finetune_batch_size (obj st))
           \<and> (\<forall>batch\<in>set bs. 0 < length batch
                 \<and> int (length batch) \<le> finetune_batch_size (obj st))
           \<and> (\<forall>sh st'. train_epoch K r vset vlab i shuff st = (Inr sh, st') \<longrightarrow>
                 (\<exists>ves. effects st' =
                          effects st @ Np_random_shuffle shuff (np_random_shuffle r shuff)
                            # map (step_effect (obj st)) bs @ ves
                    \<and> (\<forall>e\<in>set ves. validation_effect (obj st) i vset vlab e)
                    \<and> (vset = PyNone \<longrightarrow> ves = [])))"
proof -
  let ?B = "finetune_batch_size (obj st)"
  let ?b = "nat ?B"
  let ?data = "np_random_shuffle r shuff"
  let ?bs = "batches_of ?b ?data"
  have b: "0 < ?b" and B: "int ?b = ?B" using assms by simp_all
  have g: "gen_batches ?data ?B = Inr ?bs"
    using assms by (simp add: gen_batches_def)
  have len: "length ?data = length shuff"
    by (simp add: np_random_shuffle_def)
  have "\<lceil>real (length shuff) / real ?b\<rceil> = int ((length shuff + ?b - 1) div ?b)"
    using b by (rule ceil_nat_div)
  moreover have "real ?b = real_of_int ?B" using assms by simp
  ultimately have n: "int (length ?bs) = \<lceil>real (length shuff) / real_of_int ?B\<rceil>"
    using length_batches_of [OF b, of ?data] len by simp
  have c: "concat ?bs = ?data" using b by (rule concat_batches_of)
  have full: "\<forall>k. Suc k < length ?bs \<longrightarrow> int (length (?bs ! k)) = ?B"
    using batches_of_full [OF b, of _ ?data] B by auto
  have sizes: "\<forall>batch\<in>set ?bs. 0 < length batch \<and> int (length batch) \<le> ?B"
  proof
    fix batch assume "batch \<in> set ?bs"
    from batches_of_sizes [OF b this] B show "0 < length batch \<and> int (length batch) \<le> ?B"
      by linarith
  qed
  have run: "\<forall>sh st'. train_epoch K r vset vlab i shuff st = (Inr sh, st') \<longrightarrow>
                 (\<exists>ves. effects st' =
                          effects st @ Np_random_shuffle shuff ?data
                            # map (step_effect (obj st)) ?bs @ ves
                    \<and> (\<forall>e\<in>set ves. validation_effect (obj st) i vset vlab e)
                    \<and> (vset = PyNone \<longrightarrow> ves = []))"
  proof (intro allI impI)
    fix sh st' assume T: "train_epoch K r vset vlab i shuff st = (Inr sh, st')"
    from train_epoch_steps [OF T] g
    show "\<exists>ves. effects st' =
                          effects st @ Np_random_shuffle shuff ?data
                            # map (step_effect (obj st)) ?bs @ ves
                    \<and> (\<forall>e\<in>set ves. validation_effect (obj st) i vset vlab e)
                    \<and> (vset = PyNone \<longrightarrow> ves = [])"
      by auto
  qed
  show ?thesis
    by (rule exI [of _ ?bs]) (intro conjI g n c full sizes run)
qed

theorem epoch_batches_partition_witness:
  "0 < finetune_batch_size (obj small_fitting)
   \<and> np_random_shuffle (\<lambda>k. 0) ([(1, 10), (2, 20), (3, 30)] :: (int \<times> int) list)
       = [(2, 20), (3, 30), (1, 10)]
   \<and> gen_batches ([(2, 20), (3, 30), (1, 10)] :: (int \<times> int) list)
         (finetune_batch_size (obj small_fitting))
       = Inr [[(2, 20), (3, 30)], [(1, 10)]]
   \<and> \<lceil>real (length ([(1, 10), (2, 20), (3, 30)] :: (int \<times> int) list))
        / real_of_int (finetune_batch_size (obj small_fitting))\<rceil> = 2
   \<and> train_epoch toy_kernel (\<lambda>k. 0) PyNone PyNone 0 [(1, 10), (2, 20), (3, 30)] small_fitting
       = (Inr [(2, 20), (3, 30), (1, 10)], small_trained)
   \<and> effects small_trained =
       effects small_fitting
         @ Np_random_shuffle [(1, 10), (2, 20), (3, 30)] [(2, 20), (3, 30), (1, 10)]
         # map (step_effect (obj small_fitting)) [[(2, 20), (3, 30)], [(1, 10)]]"
proof -
  let ?b = "[(1, 10), (2, 20), (3, 30)] :: (int \<times> int) list"
  let ?a = "[(2, 20), (3, 30), (1, 10)] :: (int \<times> int) list"
  have h: "0 < finetune_batch_size (obj small_fitting)"
    by (simp add: small_fitting_fields)
  have g: "gen_batches ?a (finetune_batch_size (obj small_fitting))
             = Inr [[(2, 20), (3, 30)], [(1, 10)]]"
    by (simp add: small_fitting_fields small_batches)
  have f: "fst (train_epoch toy_kernel (\<lambda>k. 0) PyNone PyNone 0 ?b small_fitting) = Inr ?a"
    by (simp add: run_eval)
  have m: "train_model toy_kernel (\<lambda>i k. 0) [1, 2, 3] [10, 20, 30] PyNone PyNone small_fitting
             = (case train_epoch toy_kernel (\<lambda>k. 0) PyNone PyNone 0 ?b small_fitting of
                  (Inl e, st') \<Rightarrow> (Inl e, st')
                | (Inr sh, st') \<Rightarrow> (Inr (), st'))"
    by (simp add: train_model_def small_fitting_fields upto.simps split: prod.splits sum.splits)
  have t: "train_epoch toy_kernel (\<lambda>k. 0) PyNone PyNone 0 ?b small_fitting = (Inr ?a, small_trained)"
    using f unfolding small_trained_def m
    by (cases "train_epoch toy_kernel (\<lambda>k. 0) PyNone PyNone 0 ?b small_fitting") simp
  from epoch_batches_partition [OF h, of "\<lambda>k. 0" ?b toy_kernel PyNone PyNone 0]
  obtain bs where b1: "gen_batches (np_random_shuffle (\<lambda>k. 0) ?b)
                         (finetune_batch_size (obj small_fitting)) = Inr bs"
    and b2: "int (length bs) = \<lceil>real (length ?b)
                                  / real_of_int (finetune_batch_size (obj small_fitting))\<rceil>"
    and b3: "\<forall>sh st'. train_epoch toy_kernel (\<lambda>k. 0) PyNone PyNone 0 ?b small_fitting = (Inr sh, st')
               \<longrightarrow> (\<exists>ves. effects st' =
                          effects small_fitting @ Np_random_shuffle ?b (np_random_shuffle (\<lambda>k. 0) ?b)
                            # map (step_effect (obj small_fitting)) bs @ ves
                    \<and> (\<forall>e\<in>set ves. validation_effect (obj small_fitting) 0 PyNone PyNone e)
                    \<and> (PyNone = (PyNone :: int fed) \<longrightarrow> ves = []))"
    by blast
  have bs: "bs = [[(2, 20), (3, 30)], [(1, 10)]]"
    using b1 g by (simp add: small_shuffle)
  have c: "\<lceil>real (length ?b) / real_of_int (finetune_batch_size (obj small_fitting))\<rceil> = 2"
    using b2 by (simp add: bs)
  from b3 t have "\<exists>ves. effects small_trained =
                          effects small_fitting @ Np_random_shuffle ?b (np_random_shuffle (\<lambda>k. 0) ?b)
                            # map (step_effect (obj small_fitting)) bs @ ves
                    \<and> (\<forall>e\<in>set ves. validation_effect (obj small_fitting) 0 PyNone PyNone e)
                    \<and> (PyNone = (PyNone :: int fed) \<longrightarrow> ves = [])"
    by blast
  then have e: "effects small_trained =
       effects small_fitting @ Np_random_shuffle ?b ?a
         # map (step_effect (obj small_fitting)) [[(2, 20), (3, 30)], [(1, 10)]]"
    by (auto simp add: bs small_shuffle)
  show ?thesis
    by (intro conjI h small_shuffle g c t e)
qed

text \<open>
  C2. In every epoch of \<^verbatim>\<open>_train_model\<close> the samples and the labels are shuffled as
  one list of pairs, so a single permutation moves both. For every call of
  \<^verbatim>\<open>np.random.shuffle\<close> that a run of \<^verbatim>\<open>_train_model\<close> makes: the list it finds is a
  rearrangement of \<^verbatim>\<open>zip(train_set, train_labels)\<close>; there is a permutation \<open>p\<close> of the
  positions such that position \<open>k\<close> of the list it leaves holds what position \<open>p ! k\<close>
  held before, and the samples alone and the labels alone are moved by this same \<open>p\<close>;
  so every position after the shuffle holds a sample together with the label of the
  same training example. What training is fed keeps the pairing too: every run of the
  training step that the call makes is on a batch whose samples and labels are,
  position by position, pairs of the training data.
\<close>

theorem shuffle_keeps_pairs:
  assumes "train_model K rnd train_set train_labels vset vlab st = (out, st')"
      and "Np_random_shuffle before after \<in> set (effects st')"
      and "Np_random_shuffle before after \<notin> set (effects st)"
  shows "mset before = mset (zip train_set train_labels)
       \<and> (\<exists>p. mset p = mset [0..<length before]
              \<and> after = map (nth before) p
              \<and> map fst after = map (nth (map fst before)) p
              \<and> map snd after = map (nth (map snd before)) p)
       \<and> (\<forall>k < length after. after ! k \<in> set (zip train_set train_labels))
       \<and> (\<forall>e\<in>set (effects st'). e \<in> set (effects st) \<or> \<not> is_train_run e
             \<or> (\<exists>batch. e = step_effect (obj st) batch
                   \<and> set batch \<subseteq> set (zip train_set train_labels)))"
proof -
  from train_epochs_effects [OF assms(1) [unfolded train_model_def]] assms(2,3)
  obtain r where a: "after = np_random_shuffle r before"
    and m: "mset before = mset (zip train_set train_labels)"
    by (auto simp add: no_shuffle_def)
  let ?p = "np_random_shuffle r [0..<length before]"
  have p: "mset ?p = mset [0..<length before]"
    by (rule mset_np_random_shuffle)
  have pos: "after = map (nth before) ?p"
    unfolding a by (rule np_random_shuffle_positions)
  have f: "map fst after = map (nth (map fst before)) ?p"
    using np_random_shuffle_positions [of r "map fst before"]
    by (simp add: a map_np_random_shuffle)
  have s: "map snd after = map (nth (map snd before)) ?p"
    using np_random_shuffle_positions [of r "map snd before"]
    by (simp add: a map_np_random_shuffle)
  have "mset after = mset (zip train_set train_labels)"
    by (simp add: a mset_np_random_shuffle m)
  then have seteq: "set after = set (zip train_set train_labels)"
    by (rule mset_eq_setD)
  have all: "\<forall>k < length after. after ! k \<in> set (zip train_set train_labels)"
  proof (intro allI impI)
    fix k assume "k < length after"
    then have "after ! k \<in> set after" by (rule nth_mem)
    then show "after ! k \<in> set (zip train_set train_labels)" unfolding seteq .
  qed
  have ex: "\<exists>p. mset p = mset [0..<length before]
              \<and> after = map (nth before) p
              \<and> map fst after = map (nth (map fst before)) p
              \<and> map snd after = map (nth (map snd before)) p"
    by (rule exI [of _ ?p]) (intro conjI p pos f s)
  have fed: "\<forall>e\<in>set (effects st'). e \<in> set (effects st) \<or> \<not> is_train_run e
             \<or> (\<exists>batch. e = step_effect (obj st) batch
                   \<and> set batch \<subseteq> set (zip train_set train_labels))"
    using assms(1) unfolding train_model_def by (rule train_epochs_train_runs)
  show ?thesis
    by (intro conjI m ex all fed)
qed

theorem shuffle_keeps_pairs_witness:
  "train_model toy_kernel (\<lambda>i k. 0) [1, 2, 3] [10, 20, 30] PyNone PyNone small_fitting
     = (Inr (), small_trained)
   \<and> effects small_fitting = []
   \<and> effects small_trained =
       [Np_random_shuffle [(1, 10), (2, 20), (3, 30)] [(2, 20), (3, 30), (1, 10)],
        step_effect (obj small_fitting) [(2, 20), (3, 30)],
        step_effect (obj small_fitting) [(1, 10)]]
   \<and> mset ([(1, 10), (2, 20), (3, 30)] :: (int \<times> int) list) = mset (zip [1, 2, 3] [10, 20, 30])
   \<and> ([(2, 20), (3, 30), (1, 10)] :: (int \<times> int) list)
       = map (nth [(1, 10), (2, 20), (3, 30)]) [1, 2, 0]
   \<and> set ([(2, 20), (3, 30), (1, 10)] :: (int \<times> int) list) = set (zip [1, 2, 3] [10, 20, 30])"
proof -
  let ?b = "[(1, 10), (2, 20), (3, 30)] :: (int \<times> int) list"
  let ?a = "[(2, 20), (3, 30), (1, 10)] :: (int \<times> int) list"
  have h1: "train_model toy_kernel (\<lambda>i k. 0) [1, 2, 3] [10, 20, 30] PyNone PyNone small_fitting
              = (Inr (), small_trained)"
    using small_train_fst by (simp add: small_trained_def prod_eq_iff)
  have e0: "effects small_fitting = []"
    by (rule small_fitting_fields)
  note e1 = small_train_effects
  have h2: "Np_random_shuffle ?b ?a \<in> set (effects small_trained)"
    by (simp add: e1)
  have h3: "Np_random_shuffle ?b ?a \<notin> set (effects small_fitting)"
    by (simp add: e0)
  have c: "?a = map (nth ?b) [1, 2, 0]"
          "set ?a = set (zip [1, 2, 3] [10, 20, 30])"
    by auto
  from shuffle_keeps_pairs [OF h1 h2 h3]
  have m: "mset ?b = mset (zip [1, 2, 3] [10, 20, 30])"
    by (rule conjunct1)
  show ?thesis
    by (intro conjI h1 e0 e1 m c)
qed

lemma foldl_skip_tensors:
  "\<forall>n\<in>set ns. \<not> is_operation n \<Longrightarrow>
     foldl (\<lambda>vs n. if is_operation n then f n vs else vs) vs ns = vs"
  by (induction ns arbitrary: vs) auto

lemma session_run_tensors:
  assumes "session_run K fetches fd sess = Inr (vals, sess')"
      and "\<forall>n. Some n \<in> set fetches \<longrightarrow> \<not> is_operation n"
  shows "variables sess' = variables sess"
proof -
  have t: "\<forall>n\<in>set (map the fetches). \<not> is_operation n"
  proof
    fix n assume "n \<in> set (map the fetches)"
    then obtain x where x: "x \<in> set fetches" and n: "n = the x" by auto
    have "None \<notin> set fetches"
      using assms(1) by (auto simp add: session_run_def split: if_splits)
    with x have "x \<noteq> None" by metis
    then obtain m where "x = Some m" by blast
    with x n assms(2) show "\<not> is_operation n" by auto
  qed
  let ?fd = "map (\<lambda>kv. (the (fst kv), snd kv)) fd"
  have "foldl (\<lambda>vs n. if is_operation n then k_train_step K n ?fd (rng sess) vs else vs)
          (variables sess) (map the fetches) = variables sess"
    using foldl_skip_tensors [OF t, where f = "\<lambda>n. k_train_step K n ?fd (rng sess)"] .
  then show ?thesis
    using assms(1) by (auto simp add: session_run_def Let_def split: if_splits)
qed

lemma validation_returns:
  assumes "run_validation_error_and_summaries K epoch vset vlab st = (Inr u, st')"
      and "tensor_attr (tf_merged_summaries (obj st))"
      and "tensor_attr (accuracy (obj st))"
  shows "\<exists>sess m a. tf_session (obj st) = Some sess
           \<and> tf_merged_summaries (obj st) = Some m \<and> accuracy (obj st) = Some a
           \<and> effects st' = effects st @
                [Session_run [Some m, Some a]
                   [(input_data (obj st), vset), (input_labels (obj st), vlab),
                    (keep_prob (obj st), Scalar 1)],
                 Add_summary
                   (Some (eval K (variables sess)
                            [(the (input_data (obj st)), vset), (the (input_labels (obj st)), vlab),
                             (the (keep_prob (obj st)), Scalar 1)] (rng sess) m)) epoch]
                @ (if verbose (obj st) = 1
                   then [Print_accuracy epoch
                           (Some (eval K (variables sess)
                              [(the (input_data (obj st)), vset), (the (input_labels (obj st)), vlab),
                               (the (keep_prob (obj st)), Scalar 1)] (rng sess) a))]
                   else [])"
proof -
  obtain sess where s: "tf_session (obj st) = Some sess"
    using assms(1)
    by (cases "tf_session (obj st)")
       (auto simp add: run_validation_error_and_summaries_def tf_session_run_def seq_def)
  let ?f = "[tf_merged_summaries (obj st), accuracy (obj st)]"
  let ?fd = "[(input_data (obj st), vset), (input_labels (obj st), vlab),
              (keep_prob (obj st), Scalar 1)]"
  obtain vals sess' where r: "session_run K ?f ?fd sess = Inr (vals, sess')"
    using assms(1) s
    by (cases "session_run K ?f ?fd sess")
       (auto simp add: run_validation_error_and_summaries_def tf_session_run_def seq_def Let_def)
  then have n: "None \<notin> set ?f"
    by (auto simp add: session_run_def split: if_splits)
  then obtain m a where m: "tf_merged_summaries (obj st) = Some m" and a: "accuracy (obj st) = Some a"
    by (cases "tf_merged_summaries (obj st)"; cases "accuracy (obj st)") auto
  have t: "\<not> is_operation m" "\<not> is_operation a"
    using assms(2,3) m a by (simp_all add: tensor_attr_def)
  have vals: "vals = [Some (eval K (variables sess)
                            [(the (input_data (obj st)), vset), (the (input_labels (obj st)), vlab),
                             (the (keep_prob (obj st)), Scalar 1)] (rng sess) m),
                      Some (eval K (variables sess)
                            [(the (input_data (obj st)), vset), (the (input_labels (obj st)), vlab),
                             (the (keep_prob (obj st)), Scalar 1)] (rng sess) a)]"
    using r m a t by (auto simp add: session_run_def Let_def split: if_splits)
  have "effects st' = effects st @
                [Session_run [Some m, Some a] ?fd,
                 Add_summary (vals ! 0) epoch]
                @ (if verbose (obj st) = 1 then [Print_accuracy epoch (vals ! 1)] else [])"
    using assms(1) s r m a
    by (auto simp add: run_validation_error_and_summaries_def tf_session_run_def add_summary_def
        seq_def ret_def lift_res_def getitem_def vals Let_def
        split: option.splits if_splits)
  then show ?thesis using s m a by (simp add: vals)
qed

text \<open>
  C7. The evaluation on the validation set at the end of an epoch
  (\<^verbatim>\<open>_run_validation_error_and_summaries\<close>) runs the merged summaries and the accuracy
  at keep-probability 1, and no optimizer step. Given that the two fetched attributes
  are tensors (the accuracy is the node of \<^verbatim>\<open>_create_test_node\<close>, the merged summaries
  are what the base class stores), whether it returns or raises: every attribute of the
  object but the session is as it was, the variables of the session have the values
  they had before, and the only effects are that one run with the validation data fed,
  the summary handed to the writer, and the accuracy printed. When it returns, its
  effects are exactly these, in this order: the run, the summary handed to the writer
  with the epoch, and, when \<^verbatim>\<open>verbose\<close> is 1, the accuracy printed; the summary and the
  accuracy are the values of their nodes on the variables of the session, with the
  validation data fed at keep-probability 1.
\<close>

theorem validation_changes_no_variable:
  assumes "run_validation_error_and_summaries K epoch vset vlab st = (out, st')"
      and "tensor_attr (tf_merged_summaries (obj st))"
      and "tensor_attr (accuracy (obj st))"
  shows "obj st' = (obj st)\<lparr>tf_session := tf_session (obj st')\<rparr>
       \<and> map_option variables (tf_session (obj st')) = map_option variables (tf_session (obj st))
       \<and> (\<forall>e\<in>set (effects st'). e \<in> set (effects st) \<or>
           e = Session_run [tf_merged_summaries (obj st), accuracy (obj st)]
                 [(input_data (obj st), vset), (input_labels (obj st), vlab),
                  (keep_prob (obj st), Scalar 1)]
           \<or> (\<exists>x. e = Add_summary x epoch) \<or> (\<exists>x. e = Print_accuracy epoch x))
       \<and> (\<not> isl out \<longrightarrow>
            (\<exists>sess m a. tf_session (obj st) = Some sess
               \<and> tf_merged_summaries (obj st) = Some m \<and> accuracy (obj st) = Some a
               \<and> effects st' = effects st @
                    [Session_run [Some m, Some a]
                       [(input_data (obj st), vset), (input_labels (obj st), vlab),
                        (keep_prob (obj st), Scalar 1)],
                     Add_summary
                       (Some (eval K (variables sess)
                                [(the (input_data (obj st)), vset),
                                 (the (input_labels (obj st)), vlab),
                                 (the (keep_prob (obj st)), Scalar 1)] (rng sess) m)) epoch]
                    @ (if verbose (obj st) = 1
                       then [Print_accuracy epoch
                               (Some (eval K (variables sess)
                                  [(the (input_data (obj st)), vset),
                                   (the (input_labels (obj st)), vlab),
                                   (the (keep_prob (obj st)), Scalar 1)] (rng sess) a))]
                       else [])))"
proof -
  have v: "map_option variables (tf_session (obj st')) = map_option variables (tf_session (obj st))"
  proof (cases "tf_session (obj st)")
    case None
    then show ?thesis using assms(1)
      by (auto simp add: run_validation_error_and_summaries_def tf_session_run_def seq_def)
  next
    case (Some sess)
    let ?f = "[tf_merged_summaries (obj st), accuracy (obj st)]"
    let ?fd = "[(input_data (obj st), vset), (input_labels (obj st), vlab),
                  (keep_prob (obj st), Scalar 1)]"
    have t: "\<forall>n. Some n \<in> set ?f \<longrightarrow> \<not> is_operation n"
      using assms(2,3) by (auto simp add: tensor_attr_def split: option.splits)
    show ?thesis
    proof (cases "session_run K ?f ?fd sess")
      case (Inl e)
      then show ?thesis using assms(1) Some
        by (auto simp add: run_validation_error_and_summaries_def tf_session_run_def seq_def Let_def)
    next
      case (Inr p)
      obtain vals sess' where p: "p = (vals, sess')" by (cases p) auto
      have "variables sess' = variables sess"
        using session_run_tensors [OF Inr [unfolded p] t] .
      then show ?thesis using assms(1) Some Inr p
        by (auto simp add: run_validation_error_and_summaries_def tf_session_run_def add_summary_def
            seq_def ret_def lift_res_def Let_def
            split: option.splits sum.splits prod.splits if_splits)
    qed
  qed
  have r: "\<not> isl out \<longrightarrow>
            (\<exists>sess m a. tf_session (obj st) = Some sess
               \<and> tf_merged_summaries (obj st) = Some m \<and> accuracy (obj st) = Some a
               \<and> effects st' = effects st @
                    [Session_run [Some m, Some a]
                       [(input_data (obj st), vset), (input_labels (obj st), vlab),
                        (keep_prob (obj st), Scalar 1)],
                     Add_summary
                       (Some (eval K (variables sess)
                                [(the (input_data (obj st)), vset),
                                 (the (input_labels (obj st)), vlab),
                                 (the (keep_prob (obj st)), Scalar 1)] (rng sess) m)) epoch]
                    @ (if verbose (obj st) = 1
                       then [Print_accuracy epoch
                               (Some (eval K (variables sess)
                                  [(the (input_data (obj st)), vset),
                                   (the (input_labels (obj st)), vlab),
                                   (the (keep_prob (obj st)), Scalar 1)] (rng sess) a))]
                       else []))"
  proof
    assume "\<not> isl out"
    then obtain u where "out = Inr u" by (cases out) auto
    from validation_returns [OF assms(1) [unfolded this] assms(2,3)]
    show "\<exists>sess m a. tf_session (obj st) = Some sess
               \<and> tf_merged_summaries (obj st) = Some m \<and> accuracy (obj st) = Some a
               \<and> effects st' = effects st @
                    [Session_run [Some m, Some a]
                       [(input_data (obj st), vset), (input_labels (obj st), vlab),
                        (keep_prob (obj st), Scalar 1)],
                     Add_summary
                       (Some (eval K (variables sess)
                                [(the (input_data (obj st)), vset),
                                 (the (input_labels (obj st)), vlab),
                                 (the (keep_prob (obj st)), Scalar 1)] (rng sess) m)) epoch]
                    @ (if verbose (obj st) = 1
                       then [Print_accuracy epoch
                               (Some (eval K (variables sess)
                                  [(the (input_data (obj st)), vset),
                                   (the (input_labels (obj st)), vlab),
                                   (the (keep_prob (obj st)), Scalar 1)] (rng sess) a))]
                       else [])" .
  qed
  from validation_effects [OF assms(1)] v r show ?thesis by blast
qed

lemma small_validation_state:
  "tensor_attr (tf_merged_summaries (obj small_fitting))"
  "tensor_attr (accuracy (obj small_fitting))"
  by (simp_all add: tensor_attr_def graph_eval)

lemmas validation_eval =
  run_validation_error_and_summaries_def tf_session_run_def session_run_def add_summary_def
  seq_def ret_def lift_res_def getitem_def toy_kernel_def

lemma small_validation_run:
  "fst (run_validation_error_and_summaries toy_kernel 0 (Rows [1, 2]) (Rows [2, 3])
          (small_fitting\<lparr>obj := (obj small_fitting)
               \<lparr>tf_session := Some \<lparr>variables = (\<lambda>t. Some 1), rng = 0\<rparr>\<rparr>\<rparr>)) = Inr ()"
  "map_option rng (tf_session (obj small_validated)) = Some 1"
  "last (effects small_validated) = Print_accuracy 0 (Some 1)"
  by (simp_all add: small_validated_def validation_eval graph_eval)

lemma small_validation_effects:
  "effects small_validated =
     [Session_run [tf_merged_summaries (obj small_fitting), accuracy (obj small_fitting)]
        [(input_data (obj small_fitting), Rows [1, 2]),
         (input_labels (obj small_fitting), Rows [2, 3]),
         (keep_prob (obj small_fitting), Scalar 1)],
      Add_summary (Some 1) 0, Print_accuracy 0 (Some 1)]"
  by (simp add: small_validated_def validation_eval graph_eval)

theorem validation_changes_no_variable_witness:
  "run_validation_error_and_summaries toy_kernel 0 (Rows [1, 2]) (Rows [2, 3])
     (small_fitting\<lparr>obj := (obj small_fitting)
        \<lparr>tf_session := Some \<lparr>variables = (\<lambda>t. Some 1), rng = 0\<rparr>\<rparr>\<rparr>) = (Inr (), small_validated)
   \<and> tensor_attr (tf_merged_summaries (obj small_fitting))
   \<and> tensor_attr (accuracy (obj small_fitting))
   \<and> map_option variables (tf_session (obj small_validated)) = Some (\<lambda>t. Some 1)
   \<and> map_option rng (tf_session (obj small_validated)) = Some 1
   \<and> effects small_validated =
       [Session_run [tf_merged_summaries (obj small_fitting), accuracy (obj small_fitting)]
          [(input_data (obj small_fitting), Rows [1, 2]),
           (input_labels (obj small_fitting), Rows [2, 3]),
           (keep_prob (obj small_fitting), Scalar 1)],
        Add_summary (Some 1) 0, Print_accuracy 0 (Some 1)]"
proof -
  let ?st = "small_fitting\<lparr>obj := (obj small_fitting)
               \<lparr>tf_session := Some \<lparr>variables = (\<lambda>t. Some 1), rng = 0\<rparr>\<rparr>\<rparr>"
  have h1: "run_validation_error_and_summaries toy_kernel 0 (Rows [1, 2]) (Rows [2, 3]) ?st
              = (Inr (), small_validated)"
    using small_validation_run(1) by (simp add: small_validated_def prod_eq_iff)
  have h2: "tensor_attr (tf_merged_summaries (obj ?st))"
    and h3: "tensor_attr (accuracy (obj ?st))"
    using small_validation_state by simp_all
  note T = validation_changes_no_variable [OF h1 h2 h3]
  from T [THEN conjunct2, THEN conjunct1]
  have v: "map_option variables (tf_session (obj small_validated)) = Some (\<lambda>t. Some 1)"
    by simp
  show ?thesis
    by (intro conjI h1 small_validation_state v small_validation_run(2) small_validation_effects)
qed

section \<open>Inference on the built graph\<close>

lemma eval_rng_free:
  "dropout_off K \<Longrightarrow> rng_free fd n \<Longrightarrow> eval K vs fd g n = eval K vs fd g' n"
proof (induction fd n rule: rng_free.induct)
  case (1 fd a dtype shape name)
  then show ?case by (simp add: dropout_off_def)
qed (auto simp add: list_all_iff intro!: arg_cong [where f = "k_merge_summary K"])

lemma rng_free_variable: "is_variable t \<Longrightarrow> rng_free fd t"
  by (cases t) (simp_all add: is_variable_def)

lemma rng_free_activation: "rng_free fd y \<Longrightarrow> rng_free fd (activation_node act y)"
  by (simp add: activation_node_def)

lemma rng_free_encoder_nodes:
  assumes "map_of fd (Placeholder dtype shape name) = Some (Scalar 1)"
  shows "rng_free fd x \<Longrightarrow> \<forall>wb\<in>set zs. rng_free fd (fst wb) \<and> rng_free fd (snd wb) \<Longrightarrow>
     (\<forall>n\<in>set (encoder_nodes act (Placeholder dtype shape name) x zs). rng_free fd n)
     \<and> rng_free fd (last (x # encoder_nodes act (Placeholder dtype shape name) x zs))"
proof (induction zs arbitrary: x)
  case Nil
  then show ?case by simp
next
  case (Cons wb zs)
  let ?d = "Dropout (activation_node act (Add (Matmul x (fst wb)) (snd wb))) (Placeholder dtype shape name)"
  have d: "rng_free fd ?d"
    using Cons.prems assms by (simp add: rng_free_activation)
  from Cons.IH [OF d] Cons.prems(2) d show ?case by simp
qed

lemma encoder_nodes_dropout:
  "n \<in> set (encoder_nodes act kp x zs) \<Longrightarrow> \<exists>a. n = Dropout a kp"
  by (induction zs arbitrary: x) auto

lemma length_encoder_nodes [simp]: "length (encoder_nodes act kp x zs) = length zs"
  by (induction zs arbitrary: x) simp_all

lemma tensor_eval_tensor:
  assumes "\<not> is_operation t" and "None \<notin> set (map fst fd)" and "PyNone \<notin> set (map snd fd)"
  shows "tensor_eval K (Some t) fd sess =
           Inr (Some (eval K (variables sess) (map (\<lambda>kv. (the (fst kv), snd kv)) fd) (rng sess) t),
                sess\<lparr>rng := k_next_rng K (rng sess)\<rparr>)"
  using assms
  by (simp add: tensor_eval_def session_run_def bind_res_def getitem_0 Let_def)

lemma open_restored_session_cases:
  "open_restored_session ckpt g s =
     (case tf_saver s of
        None \<Rightarrow> (Inl AttributeError, s\<lparr>tf_session := Some (new_session g)\<rparr>)
      | Some sv \<Rightarrow>
          (case ckpt of
             None \<Rightarrow> (Inl TensorFlowError, s\<lparr>tf_session := Some (new_session g)\<rparr>)
           | Some vs \<Rightarrow> (Inr \<lparr>variables = vs, rng = g\<rparr>,
                         s\<lparr>tf_session := Some \<lparr>variables = vs, rng = g\<rparr>\<rparr>)))"
  by (simp add: open_restored_session_def saver_restore_def new_session_def
      split: option.splits)

lemma compute_accuracy_cases:
  assumes "accuracy s = Some acc" and "\<not> is_operation acc"
      and "input_data s = Some x" and "input_labels s = Some y" and "keep_prob s = Some kp"
  shows "compute_accuracy K ckpt g test_set test_labels s =
     (case tf_saver s of
        None \<Rightarrow> (Inl AttributeError, s\<lparr>tf_session := Some (new_session g)\<rparr>)
      | Some sv \<Rightarrow>
          (case ckpt of
             None \<Rightarrow> (Inl TensorFlowError, s\<lparr>tf_session := Some (new_session g)\<rparr>)
           | Some vs \<Rightarrow>
               (Inr (Some (eval K vs [(x, Rows test_set), (y, Rows test_labels), (kp, Scalar 1)]
                             g acc)),
                s\<lparr>tf_session := Some \<lparr>variables = vs, rng = k_next_rng K g\<rparr>\<rparr>)))"
  using assms
  by (simp add: compute_accuracy_def seq_def ret_def open_restored_session_cases
      eval_in_session_def tensor_eval_tensor
      split: option.splits)

lemma layers_output_loop_tensors:
  assumes "input_data s = Some x" and "keep_prob s = Some kp"
  shows "\<forall>n\<in>set nodes. \<not> is_operation n \<Longrightarrow>
     \<exists>outs s'. layers_output_loop K data nodes acc sess s = (Inr (acc @ outs), s')
       \<and> length outs = length nodes
       \<and> (nodes \<noteq> [] \<longrightarrow> last outs =
            Some (eval K (variables sess) [(x, Rows data), (kp, Scalar 1)]
                    ((k_next_rng K ^^ (length nodes - 1)) (rng sess)) (last nodes)))"
  using assms
proof (induction nodes arbitrary: acc sess s)
  case Nil
  then show ?case by simp
next
  case (Cons n nodes)
  let ?fd = "[(x, Rows data), (kp, Scalar 1)]"
  let ?v = "Some (eval K (variables sess) ?fd (rng sess) n)"
  let ?sess1 = "sess\<lparr>rng := k_next_rng K (rng sess)\<rparr>"
  let ?s1 = "s\<lparr>tf_session := Some ?sess1\<rparr>"
  have step: "eval_in_session K (Some n) [(input_data s, Rows data), (keep_prob s, Scalar 1)] sess s
                = (Inr (?v, ?sess1), ?s1)"
    using Cons.prems tensor_eval_tensor [of n "[(Some x, Rows data), (Some kp, Scalar 1)]" K sess]
    by (simp add: eval_in_session_def)
  have "\<exists>outs s'. layers_output_loop K data nodes (acc @ [?v]) ?sess1 ?s1 = (Inr ((acc @ [?v]) @ outs), s')
       \<and> length outs = length nodes
       \<and> (nodes \<noteq> [] \<longrightarrow> last outs =
            Some (eval K (variables ?sess1) ?fd
                    ((k_next_rng K ^^ (length nodes - 1)) (rng ?sess1)) (last nodes)))"
    using Cons.prems by (intro Cons.IH) simp_all
  then obtain outs s' where
    L: "layers_output_loop K data nodes (acc @ [?v]) ?sess1 ?s1 = (Inr ((acc @ [?v]) @ outs), s')"
    and n: "length outs = length nodes"
    and l: "nodes \<noteq> [] \<longrightarrow> last outs =
            Some (eval K (variables ?sess1) ?fd
                    ((k_next_rng K ^^ (length nodes - 1)) (rng ?sess1)) (last nodes))"
    by blast
  have "layers_output_loop K data (n # nodes) acc sess s = (Inr (acc @ (?v # outs)), s')"
    using step L by simp
  moreover have "length (?v # outs) = length (n # nodes)" using n by simp
  moreover have "last (?v # outs) =
            Some (eval K (variables sess) ?fd
                    ((k_next_rng K ^^ (length (n # nodes) - 1)) (rng sess)) (last (n # nodes)))"
  proof (cases "nodes = []")
    case True
    then show ?thesis using n by simp
  next
    case False
    then obtain m where m: "length nodes = Suc m" by (cases nodes) auto
    have "outs \<noteq> []" using n False by auto
    then show ?thesis using l False m by (simp add: funpow_swap1)
  qed
  ultimately show ?case by blast
qed

lemma built_graph_nodes:
  assumes "length (layers s) \<le> length ws" and "length (layers s) \<le> length bs"
  shows "length (layer_nodes (built_graph nf nc ws bs s)) = length (layers s) + 1"
    and "butlast (layer_nodes (built_graph nf nc ws bs s)) =
           encoder_nodes (finetune_act_func s) keep_probs (x_input nf)
             (take (length (layers s)) (zip ws bs))"
    and "softmax_out (built_graph nf nc ws bs s) = Some (last (layer_nodes (built_graph nf nc ws bs s)))"
    and "\<forall>n\<in>set (layer_nodes (built_graph nf nc ws bs s)). \<not> is_operation n"
  using assms
  by (auto simp add: built_graph_def Let_def dest: encoder_nodes_dropout)

text \<open>
  C10. After \<^verbatim>\<open>build_model\<close> has returned, \<^verbatim>\<open>layer_nodes\<close> holds \<^verbatim>\<open>len(layers) + 1\<close>
  nodes: the outputs of the encoding layers in order, each one the dropout, at the
  keep-probability placeholder, of the layer's activation, followed by the logits of
  the softmax layer (the product of the last hidden output with the softmax weights,
  plus the softmax bias, not normalised), which is also \<^verbatim>\<open>softmax_out\<close>. So
  \<^verbatim>\<open>get_layers_output\<close>, on a model with a saver and a checkpoint, returns
  \<^verbatim>\<open>len(layers) + 1\<close> arrays, one more than there are hidden layers, and the last is the
  value of the logits at keep-probability 1.
\<close>

theorem layer_nodes_after_build_model:
  assumes "build_model n_features n_classes s = (Inr (), s1)"
  shows "length (layer_nodes s1) = length (layers s) + 1
       \<and> butlast (layer_nodes s1) =
           encoder_nodes (finetune_act_func s) keep_probs (x_input n_features)
             (take (length (layers s)) (zip (encoding_w s1) (encoding_b s1)))
       \<and> (\<forall>i<length (layers s). \<exists>a. layer_nodes s1 ! i = Dropout a keep_probs)
       \<and> softmax_out s1 = Some (last (layer_nodes s1))
       \<and> (\<exists>W b. last (layer_nodes s1) = Add (Matmul (last (butlast (layer_nodes s1))) W) b)
       \<and> (\<exists>outs s3.
            get_layers_output K (Some vs) g data
              (s1\<lparr>tf_session := ss, tf_saver := Some sv,
                  tf_merged_summaries := ms, tf_summary_writer := sw\<rparr>) = (Inr outs, s3)
            \<and> length outs = length (layers s) + 1
            \<and> last outs =
                Some (eval K vs [(x_input n_features, Rows data), (keep_probs, Scalar 1)]
                        ((k_next_rng K ^^ length (layers s)) g) (last (layer_nodes s1))))"
proof -
  from build_model_returns [OF assms] obtain ws bs where
    ne: "layers s \<noteq> []" and
    len: "length (layers s) \<le> length ws" "length (layers s) \<le> length bs" and
    s1: "s1 = built_graph n_features n_classes ws bs s"
    by blast
  note N = built_graph_nodes [OF len, of n_features n_classes, folded s1]
  have wb: "encoding_w s1 = ws" "encoding_b s1 = bs"
    by (simp_all add: s1 built_graph_def Let_def)
  let ?hidden = "encoder_nodes (finetune_act_func s) keep_probs (x_input n_features)
                     (take (length (layers s)) (zip ws bs))"
  have hl: "length ?hidden = length (layers s)" using len by simp
  have nodes: "layer_nodes s1 = ?hidden @ [last (layer_nodes s1)]"
    using N(1,2) by (metis One_nat_def add_is_0 append_butlast_last_id list.size(3) zero_neq_one)
  have drop: "\<forall>i<length (layers s). \<exists>a. layer_nodes s1 ! i = Dropout a keep_probs"
  proof (intro allI impI)
    fix i assume i: "i < length (layers s)"
    then have "layer_nodes s1 ! i = ?hidden ! i"
      using nodes hl by (metis nth_append)
    moreover have "?hidden ! i \<in> set ?hidden" using i hl by (metis nth_mem)
    ultimately show "\<exists>a. layer_nodes s1 ! i = Dropout a keep_probs"
      using encoder_nodes_dropout by metis
  qed
  have hne: "?hidden \<noteq> []"
  proof
    assume "?hidden = []"
    then have "length ?hidden = 0" by simp
    with hl ne show False by simp
  qed
  have logits: "\<exists>W b. last (layer_nodes s1) = Add (Matmul (last (butlast (layer_nodes s1))) W) b"
    using hne by (simp add: s1 built_graph_def Let_def)
  let ?s2 = "s1\<lparr>tf_session := ss, tf_saver := Some sv,
                  tf_merged_summaries := ms, tf_summary_writer := sw\<rparr>"
  let ?sess = "\<lparr>variables = vs, rng = g\<rparr>"
  let ?s2' = "?s2\<lparr>tf_session := Some ?sess\<rparr>"
  have i2: "input_data ?s2' = Some (x_input n_features)" "keep_prob ?s2' = Some keep_probs"
    by (simp_all add: s1 built_graph_def Let_def)
  have t2: "\<forall>n\<in>set (layer_nodes s1). \<not> is_operation n" by (rule N(4))
  from layers_output_loop_tensors [OF i2 t2, of K data "[]" ?sess]
  obtain outs s3 where
    L: "layers_output_loop K data (layer_nodes s1) [] ?sess ?s2' = (Inr outs, s3)"
    and n: "length outs = length (layer_nodes s1)"
    and l: "layer_nodes s1 \<noteq> [] \<longrightarrow> last outs =
            Some (eval K vs [(x_input n_features, Rows data), (keep_probs, Scalar 1)]
                    ((k_next_rng K ^^ (length (layer_nodes s1) - 1)) g) (last (layer_nodes s1)))"
    by auto
  have G: "get_layers_output K (Some vs) g data ?s2 = (Inr outs, s3)"
    using L by (simp add: get_layers_output_def seq_def open_restored_session_cases)
  have "length outs = length (layers s) + 1" using n N(1) by simp
  moreover have "last outs =
                Some (eval K vs [(x_input n_features, Rows data), (keep_probs, Scalar 1)]
                        ((k_next_rng K ^^ length (layers s)) g) (last (layer_nodes s1)))"
    using l N(1) by auto
  ultimately show ?thesis
    using N(1,2,3) wb drop logits G by auto
qed

lemmas infer_eval =
  compute_accuracy_def get_layers_output_def seq_def ret_def open_restored_session_def
  saver_restore_def new_session_def eval_in_session_def tensor_eval_def session_run_def
  bind_res_def getitem_def toy_kernel_def

lemma small_layers_output:
  "fst (get_layers_output toy_kernel (Some (\<lambda>t. Some 1)) 0 [1, 2] (obj small_fitting))
     = Inr [Some 4, Some 5]"
  by (simp add: infer_eval graph_eval)

theorem layer_nodes_after_build_model_witness:
  "build_model 3 2 small_obj = (Inr (), small_built)
   \<and> length (layers small_obj) = 1
   \<and> length (layer_nodes small_built) = 2
   \<and> fst (get_layers_output toy_kernel (Some (\<lambda>t. Some 1)) 0 [1, 2] (obj small_fitting))
       = Inr [Some 4, Some 5]"
proof -
  from layer_nodes_after_build_model [OF small_build(1)]
  have "length (layer_nodes small_built) = length (layers small_obj) + 1"
    by (rule conjunct1)
  then show ?thesis
    using small_build(1) small_layers_output by (simp add: small_obj_fields)
qed

lemma built_accuracy_rng_free:
  assumes "length (layers s) \<le> length ws" and "length (layers s) \<le> length bs"
      and "\<forall>l<length (layers s). is_variable (ws ! l) \<and> is_variable (bs ! l)"
  shows "\<exists>acc. accuracy (built_graph nf nc ws bs s) = Some acc \<and> \<not> is_operation acc
           \<and> rng_free [(x_input nf, Rows X), (y_input nc, Rows Y), (keep_probs, Scalar 1)] acc"
proof -
  let ?fd = "[(x_input nf, Rows X), (y_input nc, Rows Y), (keep_probs, Scalar 1)]"
  let ?zs = "take (length (layers s)) (zip ws bs)"
  have kp: "map_of ?fd (Placeholder ''float'' None ''keep-probs'') = Some (Scalar 1)"
    by (simp add: x_input_def y_input_def keep_probs_def)
  have z: "\<forall>wb\<in>set ?zs. rng_free ?fd (fst wb) \<and> rng_free ?fd (snd wb)"
  proof
    fix wb assume "wb \<in> set ?zs"
    then obtain l where l: "l < length ?zs" and wb: "wb = ?zs ! l"
      by (metis in_set_conv_nth)
    then have "l < length (layers s)" "wb = (ws ! l, bs ! l)"
      using assms(1,2) by simp_all
    then show "rng_free ?fd (fst wb) \<and> rng_free ?fd (snd wb)"
      using assms(3) by (simp add: rng_free_variable)
  qed
  have x: "rng_free ?fd (x_input nf)" by (simp add: x_input_def)
  from rng_free_encoder_nodes [OF kp x z, of "finetune_act_func s"]
  have "rng_free ?fd (last (x_input nf # encoder_nodes (finetune_act_func s) keep_probs (x_input nf) ?zs))"
    by (simp add: keep_probs_def)
  then show ?thesis
    by (simp add: built_graph_def Let_def y_input_def)
qed

text \<open>
  C6. \<^verbatim>\<open>compute_accuracy\<close> on a built model opens a new session, restores the
  checkpoint into it and evaluates the accuracy node on the test data at
  keep-probability 1. Given that dropout at keep-probability 1 returns its input: a
  second call returns what the first one returned, whatever the random generators of
  the two sessions start from; a call changes nothing of the object but the session
  attribute; and the value returned is that of the accuracy node on the variables of
  the checkpoint, the same for every state of the random generator, the session left
  behind holding exactly the checkpoint's variables. Without a saver or without a
  checkpoint the call raises.
\<close>

theorem compute_accuracy_repeatable:
  assumes "build_model n_features n_classes s0 = (Inr (), s1)"
      and "dropout_off K"
      and "s = s1\<lparr>tf_session := ss, tf_saver := sv, tf_merged_summaries := ms,
                  tf_summary_writer := sw\<rparr>"
  shows "fst (compute_accuracy K ckpt g2 test_set test_labels
                (snd (compute_accuracy K ckpt g1 test_set test_labels s)))
           = fst (compute_accuracy K ckpt g1 test_set test_labels s)
       \<and> snd (compute_accuracy K ckpt g1 test_set test_labels s)
           = s\<lparr>tf_session := tf_session (snd (compute_accuracy K ckpt g1 test_set test_labels s))\<rparr>
       \<and> (\<exists>acc. accuracy s1 = Some acc
            \<and> (\<forall>g. compute_accuracy K ckpt g test_set test_labels s =
                 (case sv of
                    None \<Rightarrow> (Inl AttributeError, s\<lparr>tf_session := Some (new_session g)\<rparr>)
                  | Some saver \<Rightarrow>
                      (case ckpt of
                         None \<Rightarrow> (Inl TensorFlowError, s\<lparr>tf_session := Some (new_session g)\<rparr>)
                       | Some vs \<Rightarrow>
                           (Inr (Some (eval K vs [(x_input n_features, Rows test_set),
                                                  (y_input n_classes, Rows test_labels),
                                                  (keep_probs, Scalar 1)] 0 acc)),
                            s\<lparr>tf_session := Some \<lparr>variables = vs, rng = k_next_rng K g\<rparr>\<rparr>)))))"
proof -
  from build_model_returns [OF assms(1)] obtain ws bs where
    len: "length (layers s0) \<le> length ws" "length (layers s0) \<le> length bs" and
    var: "\<forall>l<length (layers s0). is_variable (ws ! l) \<and> is_variable (bs ! l)" and
    s1: "s1 = built_graph n_features n_classes ws bs s0"
    by blast
  let ?fd = "[(x_input n_features, Rows test_set), (y_input n_classes, Rows test_labels),
              (keep_probs, Scalar 1)]"
  from built_accuracy_rng_free [OF len var, of n_features n_classes test_set test_labels]
  obtain acc where acc: "accuracy s1 = Some acc" and op: "\<not> is_operation acc"
    and free: "rng_free ?fd acc"
    unfolding s1 by blast
  have ph: "input_data s1 = Some (x_input n_features)" "input_labels s1 = Some (y_input n_classes)"
           "keep_prob s1 = Some keep_probs"
    by (simp_all add: s1 built_graph_def Let_def)
  have a: "accuracy s = Some acc" "input_data s = Some (x_input n_features)"
          "input_labels s = Some (y_input n_classes)" "keep_prob s = Some keep_probs"
    using acc ph by (simp_all add: assms(3))
  have sv: "tf_saver s = sv" by (simp add: assms(3))
  note C1 = compute_accuracy_cases [OF a(1) op a(2,3,4), of K ckpt g1 test_set test_labels]
  let ?s' = "snd (compute_accuracy K ckpt g1 test_set test_labels s)"
  have frame: "?s' = s\<lparr>tf_session := tf_session ?s'\<rparr>"
    by (simp add: C1 split: option.splits)
  have a': "accuracy ?s' = Some acc" "input_data ?s' = Some (x_input n_features)"
          "input_labels ?s' = Some (y_input n_classes)" "keep_prob ?s' = Some keep_probs"
       "tf_saver ?s' = tf_saver s"
    by (subst frame, simp add: a)+
  note C2 = compute_accuracy_cases [OF a'(1) op a'(2,3,4), of K ckpt g2 test_set test_labels]
  have indep: "\<And>vs g g'. eval K vs ?fd g acc = eval K vs ?fd g' acc"
    using eval_rng_free [OF assms(2) free] by blast
  have two: "fst (compute_accuracy K ckpt g2 test_set test_labels ?s')
           = fst (compute_accuracy K ckpt g1 test_set test_labels s)"
    unfolding C2 a'(5) unfolding C1 using indep [of _ g2 g1] by (simp split: option.splits)
  have val: "\<forall>g. compute_accuracy K ckpt g test_set test_labels s =
                 (case sv of
                    None \<Rightarrow> (Inl AttributeError, s\<lparr>tf_session := Some (new_session g)\<rparr>)
                  | Some saver \<Rightarrow>
                      (case ckpt of
                         None \<Rightarrow> (Inl TensorFlowError, s\<lparr>tf_session := Some (new_session g)\<rparr>)
                       | Some vs \<Rightarrow>
                           (Inr (Some (eval K vs ?fd 0 acc)),
                            s\<lparr>tf_session := Some \<lparr>variables = vs, rng = k_next_rng K g\<rparr>\<rparr>)))"
  proof
    fix g
    show "compute_accuracy K ckpt g test_set test_labels s =
                 (case sv of
                    None \<Rightarrow> (Inl AttributeError, s\<lparr>tf_session := Some (new_session g)\<rparr>)
                  | Some saver \<Rightarrow>
                      (case ckpt of
                         None \<Rightarrow> (Inl TensorFlowError, s\<lparr>tf_session := Some (new_session g)\<rparr>)
                       | Some vs \<Rightarrow>
                           (Inr (Some (eval K vs ?fd 0 acc)),
                            s\<lparr>tf_session := Some \<lparr>variables = vs, rng = k_next_rng K g\<rparr>\<rparr>)))"
      unfolding compute_accuracy_cases [OF a(1) op a(2,3,4), of K ckpt g test_set test_labels] sv
      using indep [of _ g 0] by (simp split: option.splits)
  qed
  from acc val have ex: "\<exists>acc. accuracy s1 = Some acc
            \<and> (\<forall>g. compute_accuracy K ckpt g test_set test_labels s =
                 (case sv of
                    None \<Rightarrow> (Inl AttributeError, s\<lparr>tf_session := Some (new_session g)\<rparr>)
                  | Some saver \<Rightarrow>
                      (case ckpt of
                         None \<Rightarrow> (Inl TensorFlowError, s\<lparr>tf_session := Some (new_session g)\<rparr>)
                       | Some vs \<Rightarrow>
                           (Inr (Some (eval K vs ?fd 0 acc)),
                            s\<lparr>tf_session := Some \<lparr>variables = vs, rng = k_next_rng K g\<rparr>\<rparr>))))"
    by blast
  show ?thesis
    by (intro conjI two frame ex)
qed

lemma toy_dropout_off: "dropout_off toy_kernel"
  by (simp add: dropout_off_def toy_kernel_def)

lemma small_accuracy:
  "fst (compute_accuracy toy_kernel (Some (\<lambda>t. Some 1)) 0 [1, 2] [2, 3] (obj small_fitting))
     = Inr (Some 1)"
  by (simp add: infer_eval graph_eval)

theorem compute_accuracy_repeatable_witness:
  "build_model 3 2 small_obj = (Inr (), small_built)
   \<and> dropout_off toy_kernel
   \<and> fst (compute_accuracy toy_kernel (Some (\<lambda>t. Some 1)) 0 [1, 2] [2, 3] (obj small_fitting))
       = Inr (Some 1)
   \<and> fst (compute_accuracy toy_kernel (Some (\<lambda>t. Some 1)) 7 [1, 2] [2, 3]
            (snd (compute_accuracy toy_kernel (Some (\<lambda>t. Some 1)) 0 [1, 2] [2, 3]
                    (obj small_fitting))))
       = Inr (Some 1)"
proof -
  from compute_accuracy_repeatable [OF small_build(1) toy_dropout_off small_fitting_obj,
         of "Some (\<lambda>t. Some 1)" 7 "[1, 2]" "[2, 3]" 0]
  have "fst (compute_accuracy toy_kernel (Some (\<lambda>t. Some 1)) 7 [1, 2] [2, 3]
            (snd (compute_accuracy toy_kernel (Some (\<lambda>t. Some 1)) 0 [1, 2] [2, 3]
                    (obj small_fitting))))
        = fst (compute_accuracy toy_kernel (Some (\<lambda>t. Some 1)) 0 [1, 2] [2, 3] (obj small_fitting))"
    by (rule conjunct1)
  then show ?thesis
    using small_build(1) toy_dropout_off small_accuracy by simp
qed

end
